theory Spec2Isabelle
  imports Main "HOL-Library.AList" "HOL-Library.List_Lexorder" "HOL-Library.Char_ord"
    "HOL-Library.Multiset"
begin

section \<open>JavaScript values and errors\<close>

text \<open>
  Claims arrive as the result of \<^verbatim>\<open>JSON.parse\<close>, so a claim is a tree of JSON values.
  \<open>JUndefined\<close> is what reading an absent property gives. An object is an association
  list in insertion order. Numbers are carried as integers: the code only tests them
  for truthiness and identity.
\<close>

datatype json =
    JUndefined
  | JNull
  | JBool bool
  | JNum int
  | JStr string
  | JArr "json list"
  | JObj "(string \<times> json) list"

text \<open>
  Every rejection of a promise and every thrown exception is a value of \<open>error\<close>.
  \<open>ClientError\<close> is the rejection \<^verbatim>\<open>{ clientError: { message, code } }\<close>; the message is left
  out, the code is kept, and the number interpolated into the message is the argument.
\<close>

datatype error_code =
    JWT_VERIFY_FAILED
  | UNREGISTERED_USER
  | OVER_CLAIM_LIMIT
  | OVER_REGISTRATION_LIMIT
  | CANNOT_REGISTER_TOO_SOON

datatype error =
    TypeError
  | Error string
  | AlreadyConfirmed string nat
  | ActionAlreadyExists nat
  | ClientError error_code
  | IssuerMismatch string string
  | NoClaimProperty

text \<open>
  \<open>AlreadyConfirmed k n\<close> is
  \<^verbatim>\<open>new Error(`Attempted to confirm k already confirmed in # ${n}`)\<close> and
  \<open>ActionAlreadyExists n\<close> is
  \<^verbatim>\<open>new Error("Same user attempted to record an action claim that already exists with ID " + n)\<close>.
\<close>

fun truthy :: "json \<Rightarrow> bool" where
  "truthy JUndefined = False"
| "truthy JNull = False"
| "truthy (JBool b) = b"
| "truthy (JNum n) = (n \<noteq> 0)"
| "truthy (JStr s) = (s \<noteq> [])"
| "truthy (JArr xs) = True"
| "truthy (JObj kvs) = True"

text \<open>\<^verbatim>\<open>v == null\<close>: loose equality with null holds for null and undefined only.\<close>

fun is_nullish :: "json \<Rightarrow> bool" where
  "is_nullish JUndefined = True"
| "is_nullish JNull = True"
| "is_nullish v = False"

text \<open>
  \<^verbatim>\<open>v[k]\<close> and \<^verbatim>\<open>v.k\<close>. Reading a property of null or undefined throws a TypeError;
  an object gives the stored value or undefined; a string, number, boolean or array
  gives undefined for every key this program reads (none of them is a built-in
  property such as \<^verbatim>\<open>length\<close>).
\<close>

fun js_get :: "json \<Rightarrow> string \<Rightarrow> error + json" where
  "js_get JUndefined k = Inl TypeError"
| "js_get JNull k = Inl TypeError"
| "js_get (JObj kvs) k = Inr (case map_of kvs k of None \<Rightarrow> JUndefined | Some v \<Rightarrow> v)"
| "js_get v k = Inr JUndefined"

text \<open>
  \<^verbatim>\<open>v[k] = x\<close> in strict mode (the file is an ES module). On an object an existing key
  keeps its place and a new key is appended. On a string, number or boolean the
  assignment throws. On an array the assignment adds a non-index property, which
  neither \<^verbatim>\<open>canonicalize\<close> nor iteration sees, and every later test the program makes on
  such a value also requires an \<^verbatim>\<open>@type\<close> the array does not have: the array is returned
  as it is.
\<close>

fun js_set :: "json \<Rightarrow> string \<Rightarrow> json \<Rightarrow> error + json" where
  "js_set (JObj kvs) k x = Inr (JObj (AList.update k x kvs))"
| "js_set (JArr xs) k x = Inr (JArr xs)"
| "js_set v k x = Inl TypeError"

text \<open>\<^verbatim>\<open>a && b\<close> where \<open>b\<close> may throw: \<open>b\<close> is only evaluated when \<open>a\<close> is truthy.\<close>

definition js_and :: "json \<Rightarrow> (error + json) \<Rightarrow> error + json" where
  "js_and a b = (if truthy a then b else Inr a)"

text \<open>A chain of reads \<^verbatim>\<open>v.k1.k2\<close>, left to right; the first read of null or undefined
  throws.\<close>

fun js_path :: "json \<Rightarrow> string list \<Rightarrow> error + json" where
  "js_path v [] = Inr v"
| "js_path v (k # ks) = (case js_get v k of Inl e \<Rightarrow> Inl e | Inr w \<Rightarrow> js_path w ks)"

text \<open>
  A read \<^verbatim>\<open>v[k]\<close> whose receiver is known not to be null or undefined, because an earlier
  read of it succeeded or because it was tested truthy: it cannot throw.
\<close>

definition js_prop :: "json \<Rightarrow> string \<Rightarrow> json" where
  "js_prop v k = (case js_get v k of Inl e \<Rightarrow> JUndefined | Inr w \<Rightarrow> w)"

text \<open>
  What an object looks like after the value under one of its keys was mutated in place:
  the same object with the new value under that key. Anything but an object has no
  such value and is left as it is.
\<close>

fun js_replace :: "json \<Rightarrow> string \<Rightarrow> json \<Rightarrow> json" where
  "js_replace (JObj kvs) k x = JObj (AList.update k x kvs)"
| "js_replace v k x = v"

fun isArray :: "json \<Rightarrow> bool" where
  "isArray (JArr xs) = True"
| "isArray v = False"

text \<open>\<^verbatim>\<open>for (var x of v)\<close>: an array gives its elements, a string its characters, any
  other value is not iterable.\<close>

fun js_iter :: "json \<Rightarrow> error + json list" where
  "js_iter (JArr xs) = Inr xs"
| "js_iter (JStr s) = Inr (map (\<lambda>c. JStr [c]) s)"
| "js_iter v = Inl TypeError"

text \<open>\<^verbatim>\<open>a === b\<close> against a string or undefined constant.\<close>

fun js_strict_eq :: "json \<Rightarrow> json \<Rightarrow> bool" where
  "js_strict_eq (JArr xs) b = False"
| "js_strict_eq (JObj kvs) b = False"
| "js_strict_eq a b = (a = b)"

section \<open>The store\<close>

record jwt_row =
  jwt_id :: nat
  jwt_issuedAt :: nat
  jwt_issuer :: string
  jwt_claimContext :: json
  jwt_claimType :: json
  jwt_claim :: string
  jwt_claimEncoded :: string
  jwt_jwtEncoded :: string
  jwt_hashHex :: "string option"
  jwt_hashChainHex :: "string option"

record event_row =
  ev_id :: nat
  ev_orgName :: json
  ev_name :: json
  ev_startTime :: json

record action_row =
  act_id :: nat
  act_jwtId :: nat
  act_issuerDid :: string
  act_agentDid :: json
  act_eventRowId :: nat

record tenure_row =
  ten_id :: nat
  ten_jwtId :: nat
  ten_issuerDid :: string
  ten_partyDid :: json
  ten_polygon :: json
  ten_bbox :: "json \<times> json \<times> json \<times> json"

record orgRole_row =
  orl_id :: nat
  orl_jwtId :: nat
  orl_issuerDid :: string
  orl_orgName :: json
  orl_roleName :: json
  orl_startDate :: json
  orl_endDate :: json
  orl_memberDid :: json

record vote_row =
  vt_id :: nat
  vt_jwtId :: nat
  vt_issuerDid :: string
  vt_actionOption :: json
  vt_candidate :: json
  vt_eventName :: json
  vt_eventStartTime :: json

record confirmation_row =
  cf_id :: nat
  cf_jwtId :: nat
  cf_issuer :: string
  cf_origClaim :: string
  cf_actionRowId :: "nat option"
  cf_tenureRowId :: "nat option"
  cf_orgRoleRowId :: "nat option"

record registration_row =
  rg_did :: json
  rg_agent :: json
  rg_epoch :: "nat option"
  rg_jwtId :: "nat option"
  rg_maxRegs :: "nat option"
  rg_maxClaims :: "nat option"

datatype log_entry = Warn string | WarnErr error string | Err string | Info string

text \<open>
  The state the services work on: the tables of \<^verbatim>\<open>endorser.db.service\<close>, the "sees"
  edges of the network as pairs of the two arguments \<^verbatim>\<open>addCanSee\<close> was called with, what the
  logger \<^verbatim>\<open>l\<close> was told at levels warn, error and info, and what \<^verbatim>\<open>console.log\<close> printed.
  The logger and the console are two sinks; each keeps its own order.
\<close>

record db =
  jwts :: "jwt_row list"
  events :: "event_row list"
  actions :: "action_row list"
  tenures :: "tenure_row list"
  orgRoles :: "orgRole_row list"
  votes :: "vote_row list"
  confirmations :: "confirmation_row list"
  registrations :: "registration_row list"
  network :: "(string \<times> string) list"
  logs :: "log_entry list"
  console :: "error list"

text \<open>
  Modelled from the spec: the store assigns ids itself and they strictly increase
  (\<^verbatim>\<open>endorser.db.service\<close> is not among the sources). A new row gets one more than the
  largest id in its table, so an assigned id is never 0.
\<close>

definition next_id :: "nat list \<Rightarrow> nat" where
  "next_id ids = Suc (fold max ids 0)"

text \<open>Modelled from the spec: \<^verbatim>\<open>db.registrationByDid\<close>, the Registration row of an identity,
  or null.\<close>

definition registrationByDid :: "db \<Rightarrow> string \<Rightarrow> registration_row option" where
  "registrationByDid d did = find (\<lambda>r. rg_did r = JStr did) (registrations d)"

text \<open>Modelled from the spec: \<^verbatim>\<open>db.jwtCountByAfter\<close>, the number of envelopes an identity
  issued after a point in time.\<close>

definition jwtCountByAfter :: "db \<Rightarrow> string \<Rightarrow> nat \<Rightarrow> nat" where
  "jwtCountByAfter d did t =
     length (filter (\<lambda>j. jwt_issuer j = did \<and> t < jwt_issuedAt j) (jwts d))"

text \<open>Modelled from the spec: \<^verbatim>\<open>db.registrationCountByAfter\<close>, the number of registrations
  an identity made (as agent) after a point in time.\<close>

definition registrationCountByAfter :: "db \<Rightarrow> string \<Rightarrow> nat \<Rightarrow> nat" where
  "registrationCountByAfter d did t =
     length (filter (\<lambda>r. rg_agent r = JStr did \<and>
                          (case rg_epoch r of None \<Rightarrow> False | Some e \<Rightarrow> t < e))
                    (registrations d))"

text \<open>Modelled from the spec: \<^verbatim>\<open>db.registrationInsert\<close> appends a Registration row.\<close>

definition registrationInsert :: "registration_row \<Rightarrow> db \<Rightarrow> db" where
  "registrationInsert r d = d\<lparr>registrations := registrations d @ [r]\<rparr>"

text \<open>Modelled from the spec: \<^verbatim>\<open>db.jwtInsert\<close> appends the envelope row and gives its id.\<close>

definition jwtInsert :: "jwt_row \<Rightarrow> db \<Rightarrow> nat \<times> db" where
  "jwtInsert e d = (jwt_id e, d\<lparr>jwts := jwts d @ [e]\<rparr>)"

text \<open>Modelled from the spec: \<^verbatim>\<open>db.eventsByParams\<close>, the Event rows with a given
  (organizer name, event name, start time), oldest first.\<close>

definition eventsByParams :: "db \<Rightarrow> json \<Rightarrow> json \<Rightarrow> json \<Rightarrow> event_row list" where
  "eventsByParams d orgName name startTime =
     filter (\<lambda>e. ev_orgName e = orgName \<and> ev_name e = name \<and> ev_startTime e = startTime)
            (events d)"

text \<open>Modelled from the spec: \<^verbatim>\<open>db.eventInsert\<close> appends an Event row and gives its id.\<close>

definition eventInsert :: "json \<Rightarrow> json \<Rightarrow> json \<Rightarrow> db \<Rightarrow> nat \<times> db" where
  "eventInsert orgName name startTime d =
     (let i = next_id (map ev_id (events d))
      in (i, d\<lparr>events := events d @
                  [\<lparr>ev_id = i, ev_orgName = orgName, ev_name = name,
                    ev_startTime = startTime\<rparr>]\<rparr>))"

text \<open>Modelled from the spec: \<^verbatim>\<open>db.actionClaimIdByDidEventId\<close>, the id of the Action row of
  an agent at an event, or null.\<close>

definition actionClaimIdByDidEventId :: "db \<Rightarrow> json \<Rightarrow> nat \<Rightarrow> nat option" where
  "actionClaimIdByDidEventId d agentDid eventId =
     map_option act_id
       (find (\<lambda>a. act_agentDid a = agentDid \<and> act_eventRowId a = eventId) (actions d))"

text \<open>Modelled from the spec: \<^verbatim>\<open>db.actionClaimInsert\<close> appends an Action row that refers
  to the envelope, the issuer and the event, and gives its id.\<close>

definition actionClaimInsert ::
  "string \<Rightarrow> json \<Rightarrow> nat \<Rightarrow> event_row \<Rightarrow> db \<Rightarrow> nat \<times> db" where
  "actionClaimInsert issuerDid agentDid jwtId event d =
     (let i = next_id (map act_id (actions d))
      in (i, d\<lparr>actions := actions d @
                  [\<lparr>act_id = i, act_jwtId = jwtId, act_issuerDid = issuerDid,
                    act_agentDid = agentDid, act_eventRowId = ev_id event\<rparr>]\<rparr>))"

text \<open>Modelled from the spec: \<^verbatim>\<open>db.actionClaimById\<close>, the Action row with an id, or null.\<close>

definition actionClaimById :: "db \<Rightarrow> nat \<Rightarrow> action_row option" where
  "actionClaimById d i = find (\<lambda>a. act_id a = i) (actions d)"

text \<open>Modelled from the spec: \<^verbatim>\<open>db.tenureClaimIdByPartyAndGeoShape\<close>, the id of the Tenure
  row of a party for a polygon, or null.\<close>

definition tenureClaimIdByPartyAndGeoShape :: "db \<Rightarrow> json \<Rightarrow> json \<Rightarrow> nat option" where
  "tenureClaimIdByPartyAndGeoShape d partyDid polygon =
     map_option ten_id
       (find (\<lambda>t. ten_partyDid t = partyDid \<and> ten_polygon t = polygon) (tenures d))"

text \<open>Modelled from the spec: \<^verbatim>\<open>db.tenureInsert\<close> appends a Tenure row and gives its id.\<close>

definition tenureInsert ::
  "nat \<Rightarrow> string \<Rightarrow> json \<Rightarrow> json \<Rightarrow> json \<times> json \<times> json \<times> json \<Rightarrow> db \<Rightarrow> nat \<times> db" where
  "tenureInsert jwtId issuerDid partyDid polygon bbox d =
     (let i = next_id (map ten_id (tenures d))
      in (i, d\<lparr>tenures := tenures d @
                  [\<lparr>ten_id = i, ten_jwtId = jwtId, ten_issuerDid = issuerDid,
                    ten_partyDid = partyDid, ten_polygon = polygon, ten_bbox = bbox\<rparr>]\<rparr>))"

text \<open>Modelled from the spec: \<^verbatim>\<open>db.orgRoleClaimIdByOrgAndDates\<close>, the id of the
  OrganizationRole row with a given organization, role, dates and member, or null.\<close>

definition orgRoleClaimIdByOrgAndDates ::
  "db \<Rightarrow> json \<Rightarrow> json \<Rightarrow> json \<Rightarrow> json \<Rightarrow> json \<Rightarrow> nat option" where
  "orgRoleClaimIdByOrgAndDates d orgName roleName startDate endDate memberDid =
     map_option orl_id
       (find (\<lambda>r. orl_orgName r = orgName \<and> orl_roleName r = roleName \<and>
                   orl_startDate r = startDate \<and> orl_endDate r = endDate \<and>
                   orl_memberDid r = memberDid)
             (orgRoles d))"

text \<open>Modelled from the spec: \<^verbatim>\<open>db.orgRoleInsert\<close> appends an OrganizationRole row and
  gives its id.\<close>

definition orgRoleInsert ::
  "nat \<Rightarrow> string \<Rightarrow> json \<Rightarrow> json \<Rightarrow> json \<Rightarrow> json \<Rightarrow> json \<Rightarrow> db \<Rightarrow> nat \<times> db" where
  "orgRoleInsert jwtId issuerDid orgName roleName startDate endDate memberDid d =
     (let i = next_id (map orl_id (orgRoles d))
      in (i, d\<lparr>orgRoles := orgRoles d @
                  [\<lparr>orl_id = i, orl_jwtId = jwtId, orl_issuerDid = issuerDid,
                    orl_orgName = orgName, orl_roleName = roleName,
                    orl_startDate = startDate, orl_endDate = endDate,
                    orl_memberDid = memberDid\<rparr>]\<rparr>))"

text \<open>Modelled from the spec: \<^verbatim>\<open>db.voteInsert\<close> appends a Vote row and gives its id.\<close>

definition voteInsert ::
  "nat \<Rightarrow> string \<Rightarrow> json \<Rightarrow> json \<Rightarrow> json \<Rightarrow> json \<Rightarrow> db \<Rightarrow> nat \<times> db" where
  "voteInsert jwtId issuerDid actionOption candidate eventName eventStartTime d =
     (let i = next_id (map vt_id (votes d))
      in (i, d\<lparr>votes := votes d @
                  [\<lparr>vt_id = i, vt_jwtId = jwtId, vt_issuerDid = issuerDid,
                    vt_actionOption = actionOption, vt_candidate = candidate,
                    vt_eventName = eventName, vt_eventStartTime = eventStartTime\<rparr>]\<rparr>))"

text \<open>Modelled from the spec: \<^verbatim>\<open>db.confirmationByIssuerAndAction\<close>, the Confirmation row of
  an issuer for an Action id, or null.\<close>

definition confirmationByIssuerAndAction :: "db \<Rightarrow> string \<Rightarrow> nat \<Rightarrow> confirmation_row option" where
  "confirmationByIssuerAndAction d issuerDid actionRowId =
     find (\<lambda>c. cf_issuer c = issuerDid \<and> cf_actionRowId c = Some actionRowId)
          (confirmations d)"

text \<open>Modelled from the spec: \<^verbatim>\<open>db.confirmationByIssuerAndTenure\<close>, the Confirmation row of
  an issuer for a Tenure id, or null.\<close>

definition confirmationByIssuerAndTenure :: "db \<Rightarrow> string \<Rightarrow> nat \<Rightarrow> confirmation_row option" where
  "confirmationByIssuerAndTenure d issuerDid tenureRowId =
     find (\<lambda>c. cf_issuer c = issuerDid \<and> cf_tenureRowId c = Some tenureRowId)
          (confirmations d)"

text \<open>Modelled from the spec: \<^verbatim>\<open>db.confirmationByIssuerAndOrgRole\<close>, the Confirmation row
  of an issuer for an OrganizationRole id, or null.\<close>

definition confirmationByIssuerAndOrgRole :: "db \<Rightarrow> string \<Rightarrow> nat \<Rightarrow> confirmation_row option" where
  "confirmationByIssuerAndOrgRole d issuerDid orgRoleRowId =
     find (\<lambda>c. cf_issuer c = issuerDid \<and> cf_orgRoleRowId c = Some orgRoleRowId)
          (confirmations d)"

text \<open>Modelled from the spec: \<^verbatim>\<open>db.confirmationByIssuerAndOrigClaim(issuerDid, claim)\<close>, the
  Confirmation row of an issuer whose stored original claim matches the canonicalized
  content of the given claim, or null. The canonicalization is the first argument.\<close>

definition confirmationByIssuerAndOrigClaim ::
  "(json \<Rightarrow> string) \<Rightarrow> db \<Rightarrow> string \<Rightarrow> json \<Rightarrow> confirmation_row option" where
  "confirmationByIssuerAndOrigClaim canon d issuerDid claim =
     find (\<lambda>c. cf_issuer c = issuerDid \<and> cf_origClaim c = canon claim) (confirmations d)"

text \<open>Modelled from the spec: \<^verbatim>\<open>db.confirmationInsert\<close> appends a Confirmation row and gives
  its id.\<close>

definition confirmationInsert ::
  "string \<Rightarrow> nat \<Rightarrow> string \<Rightarrow> nat option \<Rightarrow> nat option \<Rightarrow> nat option \<Rightarrow> db \<Rightarrow> nat \<times> db" where
  "confirmationInsert issuerDid jwtId origClaimStr actionRowId tenureRowId orgRoleRowId d =
     (let i = next_id (map cf_id (confirmations d))
      in (i, d\<lparr>confirmations := confirmations d @
                  [\<lparr>cf_id = i, cf_jwtId = jwtId, cf_issuer = issuerDid,
                    cf_origClaim = origClaimStr, cf_actionRowId = actionRowId,
                    cf_tenureRowId = tenureRowId, cf_orgRoleRowId = orgRoleRowId\<rparr>]\<rparr>))"

text \<open>
  Modelled from the spec: \<^verbatim>\<open>addCanSee\<close> of \<^verbatim>\<open>network-cache.service\<close> records a directed edge
  between its two arguments, kept here as the pair of the first and the second argument;
  adding an edge that is already there changes nothing. The edge is read as "the first
  sees the second": the specification says that every identity mentioned in a claim
  becomes able to see the issuer, and \<^verbatim>\<open>jwt.service.js\<close> calls \<^verbatim>\<open>addCanSee(did, issuerDid)\<close> under
  the comment \<^verbatim>\<open>now record all the "sees" relationships to the issuer\<close>. The contract line of
  the specification names the two parameters \<^verbatim>\<open>seenIdentity, seerIdentity\<close>, the other way round;
  which of the two readings the service implements is not decided by \<^verbatim>\<open>jwt.service.js\<close>.
\<close>

definition addCanSee :: "string \<Rightarrow> string \<Rightarrow> db \<Rightarrow> db" where
  "addCanSee subject object d =
     (if (subject, object) \<in> set (network d) then d
      else d\<lparr>network := network d @ [(subject, object)]\<rparr>)"

text \<open>Modelled from the spec: \<^verbatim>\<open>db.getNetwork\<close>, the identities an identity sees by a
  stored edge. Whatever further traversal the visible set is computed by, it holds
  these.\<close>

definition getNetwork :: "db \<Rightarrow> string \<Rightarrow> string list" where
  "getNetwork d did = map snd (filter (\<lambda>e. fst e = did) (network d))"

definition log_msg :: "log_entry \<Rightarrow> db \<Rightarrow> db" where
  "log_msg m d = d\<lparr>logs := logs d @ [m]\<rparr>"

definition console_log :: "error \<Rightarrow> db \<Rightarrow> db" where
  "console_log e d = d\<lparr>console := console d @ [e]\<rparr>"

section \<open>The environment of the services\<close>

text \<open>
  What \<^verbatim>\<open>jwt.service.js\<close> takes from outside the sources: the process environment, the
  clock as luxon reads it (in epoch seconds), the libraries \<^verbatim>\<open>canonicalize\<close>,
  \<^verbatim>\<open>base64url\<close> and \<^verbatim>\<open>did-jwt\<close>, and the helpers of \<^verbatim>\<open>util.js\<close>. The environment's numbers
  are taken as numbers.
\<close>

record payload =
  pl_iss :: string
  pl_iat :: nat
  pl_claim :: json
  pl_vc :: json

record id_and_claim =
  ic_id :: nat
  ic_claim :: string
  ic_hashHex :: "string option"

record env =
  SERVICE_ID :: json
  DEFAULT_MAX_REGISTRATIONS_PER_MONTH :: nat
  DEFAULT_MAX_CLAIMS_PER_WEEK :: nat
  startOfWeek :: nat
  startOfMonth :: nat
  nextWeekBegin :: nat
  nextMonthBegin :: nat
  nowEpoch :: nat
  canonicalize :: "json \<Rightarrow> string"
  base64url_encode :: "string \<Rightarrow> string"
  decodeAndVerifyJwt :: "string \<Rightarrow> error + payload"
  calcBbox :: "json \<Rightarrow> error + json \<times> json \<times> json \<times> json"
  isDid :: "string \<Rightarrow> bool"
  hashedClaimWithHashedDids :: "id_and_claim \<Rightarrow> string"
  hashChain :: "string \<Rightarrow> id_and_claim list \<Rightarrow> string"

section \<open>jwt.service.js: rate limits\<close>

record rate_limits =
  nextMonthBeginDateTime :: nat
  nextWeekBeginDateTime :: nat
  doneClaimsThisWeek :: nat
  doneRegistrationsThisMonth :: nat
  maxClaimsPerWeek :: nat
  maxRegistrationsPerMonth :: nat

text \<open>\<^verbatim>\<open>x || dflt\<close> on a column that is null or a number: null and 0 are falsy.\<close>

definition js_or :: "nat option \<Rightarrow> nat \<Rightarrow> nat" where
  "js_or x dflt = (case x of None \<Rightarrow> dflt | Some n \<Rightarrow> if n = 0 then dflt else n)"

definition getRateLimits :: "env \<Rightarrow> db \<Rightarrow> string \<Rightarrow> error + rate_limits" where
  "getRateLimits E d requestorDid =
     (case registrationByDid d requestorDid of
        Some registered \<Rightarrow>
          Inr \<lparr>nextMonthBeginDateTime = nextMonthBegin E,
               nextWeekBeginDateTime = nextWeekBegin E,
               doneClaimsThisWeek = jwtCountByAfter d requestorDid (startOfWeek E),
               doneRegistrationsThisMonth =
                 registrationCountByAfter d requestorDid (startOfMonth E),
               maxClaimsPerWeek = js_or (rg_maxClaims registered) (DEFAULT_MAX_CLAIMS_PER_WEEK E),
               maxRegistrationsPerMonth =
                 js_or (rg_maxRegs registered) (DEFAULT_MAX_REGISTRATIONS_PER_MONTH E)\<rparr>
      | None \<Rightarrow> Inl (ClientError UNREGISTERED_USER))"

text \<open>The two local constants of \<^verbatim>\<open>createWithClaimRecord\<close>:
  \<^verbatim>\<open>registered.maxClaims != null ? registered.maxClaims : DEFAULT_MAX_CLAIMS_PER_WEEK\<close> and
  the same for \<^verbatim>\<open>maxRegs\<close>.\<close>

definition maxAllowedClaims :: "env \<Rightarrow> registration_row \<Rightarrow> nat" where
  "maxAllowedClaims E registered =
     (case rg_maxClaims registered of None \<Rightarrow> DEFAULT_MAX_CLAIMS_PER_WEEK E | Some n \<Rightarrow> n)"

definition maxAllowedRegs :: "env \<Rightarrow> registration_row \<Rightarrow> nat" where
  "maxAllowedRegs E registered =
     (case rg_maxRegs registered of
        None \<Rightarrow> DEFAULT_MAX_REGISTRATIONS_PER_MONTH E | Some n \<Rightarrow> n)"

section \<open>jwt.service.js: the chain-rebuild pass\<close>

text \<open>Modelled from the spec: \<^verbatim>\<open>db.jwtClaimsAndIdsUnmerkled\<close>, the stored rows that lack a
  chain value, in id order (the table is kept in insertion order, and ids increase).\<close>

definition jwtClaimsAndIdsUnmerkled :: "db \<Rightarrow> id_and_claim list" where
  "jwtClaimsAndIdsUnmerkled d =
     map (\<lambda>j. \<lparr>ic_id = jwt_id j, ic_claim = jwt_claim j, ic_hashHex = jwt_hashHex j\<rparr>)
         (filter (\<lambda>j. jwt_hashChainHex j = None) (jwts d))"

text \<open>Modelled from the spec: \<^verbatim>\<open>db.jwtLastMerkleHash\<close>, an array that holds the last stored
  chain value, empty when no row has one.\<close>

definition jwtLastMerkleHash :: "db \<Rightarrow> string list" where
  "jwtLastMerkleHash d =
     (case rev (List.map_filter jwt_hashChainHex (jwts d)) of [] \<Rightarrow> [] | h # hs \<Rightarrow> [h])"

text \<open>Modelled from the spec: \<^verbatim>\<open>db.jwtSetMerkleHash\<close> sets the content hash and the chain
  value of the row with an id.\<close>

definition jwtSetMerkleHash :: "nat \<Rightarrow> string \<Rightarrow> string \<Rightarrow> db \<Rightarrow> db" where
  "jwtSetMerkleHash i hashHex hashChainHex d =
     d\<lparr>jwts := map (\<lambda>j. if jwt_id j = i
                          then j\<lparr>jwt_hashHex := Some hashHex,
                                 jwt_hashChainHex := Some hashChainHex\<rparr>
                          else j)
                    (jwts d)\<rparr>"

text \<open>One call \<^verbatim>\<open>db.jwtSetMerkleHash(id, hashHex, latestHashChainHex)\<close> of the pass.\<close>

record merkle_update =
  mu_id :: nat
  mu_hashHex :: string
  mu_hashChainHex :: string

text \<open>
  The loop of \<^verbatim>\<open>merkleUnmerkled\<close>, as the list of calls it pushes on \<^verbatim>\<open>updates\<close>. The chain
  value is taken by \<^verbatim>\<open>hashChain(latestHashChainHex, [idAndClaim])\<close> first, on the row as it
  was read; a null \<^verbatim>\<open>hashHex\<close> is then replaced by
  \<^verbatim>\<open>hashedClaimWithHashedDids(idAndClaim)\<close>.
\<close>

fun merkle_updates :: "env \<Rightarrow> string \<Rightarrow> id_and_claim list \<Rightarrow> merkle_update list" where
  "merkle_updates E latestHashChainHex [] = []"
| "merkle_updates E latestHashChainHex (idAndClaim # rest) =
     (let latest' = hashChain E latestHashChainHex [idAndClaim];
          hashHex = (case ic_hashHex idAndClaim of
                       None \<Rightarrow> hashedClaimWithHashedDids E idAndClaim
                     | Some h \<Rightarrow> h)
      in \<lparr>mu_id = ic_id idAndClaim, mu_hashHex = hashHex, mu_hashChainHex = latest'\<rparr>
         # merkle_updates E latest' rest)"

definition merkle_seed :: "string list \<Rightarrow> string" where
  "merkle_seed hashHexArray = (case hashHexArray of [] \<Rightarrow> [] | h # hs \<Rightarrow> h)"

text \<open>\<^verbatim>\<open>merkleUnmerkled\<close>: the calls it makes and the state after them. Each row read
  with a null content hash is reported at level error.\<close>

definition merkleUnmerkled :: "env \<Rightarrow> db \<Rightarrow> merkle_update list \<times> db" where
  "merkleUnmerkled E d =
     (let idAndClaimArray = jwtClaimsAndIdsUnmerkled d;
          hashHexArray = jwtLastMerkleHash d;
          seedHex = merkle_seed hashHexArray;
          updates = merkle_updates E seedHex idAndClaimArray;
          d1 = fold (\<lambda>r. log_msg (Err ''Found entries without a hashed claim''))
                    (filter (\<lambda>r. ic_hashHex r = None) idAndClaimArray) d
      in (updates,
          fold (\<lambda>u. jwtSetMerkleHash (mu_id u) (mu_hashHex u) (mu_hashChainHex u)) updates d1))"

section \<open>jwt.service.js: confirmations\<close>

definition isContextSchemaOrg :: "json \<Rightarrow> bool" where
  "isContextSchemaOrg context \<longleftrightarrow>
     context = JStr ''https://schema.org'' \<or> context = JStr ''http://schema.org''"

definition isContextSchemaForConfirmation :: "json \<Rightarrow> bool" where
  "isContextSchemaForConfirmation context \<longleftrightarrow> isContextSchemaOrg context"

text \<open>Both callers of \<^verbatim>\<open>isEndorserRegistrationClaim\<close> pass a claim that was read or tested
  truthy before, so its reads cannot throw.\<close>

definition isEndorserRegistrationClaim :: "env \<Rightarrow> json \<Rightarrow> bool" where
  "isEndorserRegistrationClaim E c \<longleftrightarrow>
     isContextSchemaOrg (js_prop c ''@context'') \<and>
     js_prop c ''@type'' = JStr ''RegisterAction'' \<and>
     js_strict_eq (js_prop c ''object'') (SERVICE_ID E)"

text \<open>The object \<^verbatim>\<open>createOneConfirmation\<close> resolves to.\<close>

record conf_result =
  confirmId :: nat
  actionClaimId :: "nat option"
  tenureClaimId :: "nat option"
  orgRoleClaimId :: "nat option"

text \<open>
  The four branches of \<^verbatim>\<open>createOneConfirmation\<close>, each on the claim as it is after the
  context default. A rejection leaves the state as it was at that point. Calls of
  \<^verbatim>\<open>l.trace\<close> are not recorded.
\<close>

definition createOneConfirmation_JoinAction ::
  "env \<Rightarrow> nat \<Rightarrow> string \<Rightarrow> json \<Rightarrow> db \<Rightarrow> (error + conf_result) \<times> db" where
  "createOneConfirmation_JoinAction E jwtId issuerDid origClaim d =
     (case js_path origClaim [''event'', ''organizer'', ''name''] of
        Inl e \<Rightarrow> (Inl e, d)
      | Inr orgName \<Rightarrow>
     (case js_path origClaim [''event'', ''name''] of
        Inl e \<Rightarrow> (Inl e, d)
      | Inr name \<Rightarrow>
     (case js_path origClaim [''event'', ''startTime''] of
        Inl e \<Rightarrow> (Inl e, d)
      | Inr startTime \<Rightarrow>
     (case eventsByParams d orgName name startTime of
        [] \<Rightarrow> (Inl (Error ''Attempted to confirm action at an unrecorded event.''), d)
      | event0 # others \<Rightarrow>
     (case js_path origClaim [''agent'', ''did''] of
        Inl e \<Rightarrow> (Inl e, d)
      | Inr agentDid \<Rightarrow>
     (case actionClaimIdByDidEventId d agentDid (ev_id event0) of
        None \<Rightarrow> (Inl (Error ''Attempted to confirm an unrecorded action.''), d)
      | Some actionId \<Rightarrow>
     (case confirmationByIssuerAndAction d issuerDid actionId of
        Some confirmation \<Rightarrow> (Inl (AlreadyConfirmed ''an action'' (cf_id confirmation)), d)
      | None \<Rightarrow>
          (let origClaimStr = canonicalize E origClaim;
               (result, d') =
                  confirmationInsert issuerDid jwtId origClaimStr (Some actionId) None None d
           in (Inr \<lparr>confirmId = result, actionClaimId = Some actionId,
                     tenureClaimId = None, orgRoleClaimId = None\<rparr>, d')))))))))"

definition createOneConfirmation_Tenure ::
  "env \<Rightarrow> nat \<Rightarrow> string \<Rightarrow> json \<Rightarrow> db \<Rightarrow> (error + conf_result) \<times> db" where
  "createOneConfirmation_Tenure E jwtId issuerDid origClaim d =
     (case js_path origClaim [''party'', ''did''] of
        Inl e \<Rightarrow> (Inl e, d)
      | Inr partyDid \<Rightarrow>
     (case js_path origClaim [''spatialUnit'', ''geo'', ''polygon''] of
        Inl e \<Rightarrow> (Inl e, d)
      | Inr polygon \<Rightarrow>
     (case tenureClaimIdByPartyAndGeoShape d partyDid polygon of
        None \<Rightarrow> (Inl (Error ''Attempted to confirm an unrecorded tenure.''), d)
      | Some tenureId \<Rightarrow>
     (case confirmationByIssuerAndTenure d issuerDid tenureId of
        Some confirmation \<Rightarrow> (Inl (AlreadyConfirmed ''a tenure'' (cf_id confirmation)), d)
      | None \<Rightarrow>
          (let origClaimStr = canonicalize E origClaim;
               (result, d') =
                  confirmationInsert issuerDid jwtId origClaimStr None (Some tenureId) None d
           in (Inr \<lparr>confirmId = result, actionClaimId = None,
                     tenureClaimId = Some tenureId, orgRoleClaimId = None\<rparr>, d'))))))"

definition createOneConfirmation_OrgRole ::
  "env \<Rightarrow> nat \<Rightarrow> string \<Rightarrow> json \<Rightarrow> db \<Rightarrow> (error + conf_result) \<times> db" where
  "createOneConfirmation_OrgRole E jwtId issuerDid origClaim d =
     (let member = js_prop origClaim ''member''
      in case orgRoleClaimIdByOrgAndDates d (js_prop origClaim ''name'')
                (js_prop member ''roleName'') (js_prop member ''startDate'')
                (js_prop member ''endDate'') (js_prop (js_prop member ''member'') ''identifier'') of
           None \<Rightarrow> (Inl (Error ''Attempted to confirm an unrecorded orgRole.''), d)
         | Some orgRoleId \<Rightarrow>
        (case confirmationByIssuerAndOrgRole d issuerDid orgRoleId of
           Some confirmation \<Rightarrow> (Inl (AlreadyConfirmed ''a orgRole'' (cf_id confirmation)), d)
         | None \<Rightarrow>
             (let origClaimStr = canonicalize E origClaim;
                  (result, d') =
                     confirmationInsert issuerDid jwtId origClaimStr None None (Some orgRoleId) d
              in (Inr \<lparr>confirmId = result, actionClaimId = None,
                        tenureClaimId = None, orgRoleClaimId = Some orgRoleId\<rparr>, d'))))"

definition createOneConfirmation_generic ::
  "env \<Rightarrow> nat \<Rightarrow> string \<Rightarrow> json \<Rightarrow> db \<Rightarrow> (error + conf_result) \<times> db" where
  "createOneConfirmation_generic E jwtId issuerDid origClaim d =
     (case confirmationByIssuerAndOrigClaim (canonicalize E) d issuerDid origClaim of
        Some confirmation \<Rightarrow> (Inl (AlreadyConfirmed ''a claim'' (cf_id confirmation)), d)
      | None \<Rightarrow>
          (let origClaimStr = canonicalize E origClaim;
               (result, d') = confirmationInsert issuerDid jwtId origClaimStr None None None d
           in (Inr \<lparr>confirmId = result, actionClaimId = None,
                     tenureClaimId = None, orgRoleClaimId = None\<rparr>, d')))"

text \<open>The \<^verbatim>\<open>if\<close> / \<^verbatim>\<open>else if\<close> chain of \<^verbatim>\<open>createOneConfirmation\<close>, after the context
  default. The claim was read once already, so the reads of its own properties cannot
  throw; \<^verbatim>\<open>member\<close> and \<^verbatim>\<open>member.member\<close> are read further only when truthy.\<close>

definition createOneConfirmation_dispatch ::
  "env \<Rightarrow> nat \<Rightarrow> string \<Rightarrow> json \<Rightarrow> db \<Rightarrow> (error + conf_result) \<times> db" where
  "createOneConfirmation_dispatch E jwtId issuerDid origClaim d =
     (let context = js_prop origClaim ''@context'';
          type = js_prop origClaim ''@type'';
          member = js_prop origClaim ''member''
      in if isContextSchemaOrg context \<and> type = JStr ''JoinAction''
         then createOneConfirmation_JoinAction E jwtId issuerDid origClaim d
         else if context = JStr ''https://endorser.ch'' \<and> type = JStr ''Tenure''
         then createOneConfirmation_Tenure E jwtId issuerDid origClaim d
         else if isContextSchemaOrg context \<and> type = JStr ''Organization''
                 \<and> truthy member
                 \<and> js_prop member ''@type'' = JStr ''OrganizationRole''
                 \<and> truthy (js_prop member ''member'')
                 \<and> truthy (js_prop (js_prop member ''member'') ''identifier'')
         then createOneConfirmation_OrgRole E jwtId issuerDid origClaim d
         else createOneConfirmation_generic E jwtId issuerDid origClaim d)"

text \<open>
  The first statement of \<^verbatim>\<open>createOneConfirmation\<close>:
  \<^verbatim>\<open>if (origClaim['@context'] == null) { origClaim['@context'] = 'https://schema.org' }\<close>.
  The result is the claim object afterwards, or what the statement throws.
\<close>

definition createOneConfirmation_context :: "json \<Rightarrow> error + json" where
  "createOneConfirmation_context origClaim =
     (case js_get origClaim ''@context'' of
        Inl e \<Rightarrow> Inl e
      | Inr context \<Rightarrow>
          if is_nullish context
          then js_set origClaim ''@context'' (JStr ''https://schema.org'')
          else Inr origClaim)"

text \<open>
  \<^verbatim>\<open>createOneConfirmation(jwtId, issuerDid, origClaim)\<close>. The result is what the promise
  settles to, the claim object as the call leaves it, and the state.
\<close>

definition createOneConfirmation ::
  "env \<Rightarrow> nat \<Rightarrow> string \<Rightarrow> json \<Rightarrow> db \<Rightarrow> (error + conf_result) \<times> json \<times> db" where
  "createOneConfirmation E jwtId issuerDid origClaim d =
     (case createOneConfirmation_context origClaim of
        Inl e \<Rightarrow> (Inl e, origClaim, d)
      | Inr origClaim' \<Rightarrow>
          (let (r, d') = createOneConfirmation_dispatch E jwtId issuerDid origClaim' d
           in (r, origClaim', d')))"

section \<open>jwt.service.js: typed records\<close>

text \<open>
  \<^verbatim>\<open>await this.createOneConfirmation(jwtId, issuerDid, c).catch(console.log)\<close>: a rejection
  is printed and swallowed. The result is the claim object as the call leaves it and
  the state; what is pushed on \<^verbatim>\<open>recordings\<close> is only traced and is not kept.
\<close>

definition confirm_logged :: "env \<Rightarrow> nat \<Rightarrow> string \<Rightarrow> json \<Rightarrow> db \<Rightarrow> json \<times> db" where
  "confirm_logged E jwtId issuerDid c d =
     (case createOneConfirmation E jwtId issuerDid c d of
        (Inl e, c', d') \<Rightarrow> (c', console_log e d')
      | (Inr r, c', d') \<Rightarrow> (c', d'))"

text \<open>The loop \<^verbatim>\<open>for (var c of cs) { recordings.push(await ... ) }\<close>: one call after the
  other, each on the state the one before left.\<close>

fun confirm_each :: "env \<Rightarrow> nat \<Rightarrow> string \<Rightarrow> json list \<Rightarrow> db \<Rightarrow> json list \<times> db" where
  "confirm_each E jwtId issuerDid [] d = ([], d)"
| "confirm_each E jwtId issuerDid (c # cs) d =
     (let (c', d1) = confirm_logged E jwtId issuerDid c d;
          (cs', d2) = confirm_each E jwtId issuerDid cs d1
      in (c' # cs', d2))"

text \<open>The branches of \<^verbatim>\<open>createEmbeddedClaimRecord\<close>. The two that confirm claims also give
  the claim object as they leave it. In the AgreeAction branch the loop variable
  \<^verbatim>\<open>var claim\<close> rebinds the parameter of the function, which is not read again after the
  loop; the caller's object is the one given here.\<close>

definition createEmbeddedClaimRecord_AgreeAction ::
  "env \<Rightarrow> nat \<Rightarrow> string \<Rightarrow> json \<Rightarrow> db \<Rightarrow> (error + unit) \<times> json \<times> db" where
  "createEmbeddedClaimRecord_AgreeAction E jwtId issuerDid c d =
     (let origClaim = js_prop c ''object''
      in case origClaim of
           JArr cs \<Rightarrow>
             (let (cs', d') = confirm_each E jwtId issuerDid cs d
              in (Inr (), js_replace c ''object'' (JArr cs'), d'))
         | other \<Rightarrow>
             if truthy origClaim
             then (let (c', d') = confirm_logged E jwtId issuerDid origClaim d
                   in (Inr (), js_replace c ''object'' c', d'))
             else (Inr (), c, d))"

text \<open>The JoinAction branch. \<^verbatim>\<open>if (actionClaimId)\<close> is a test for truthiness: null and 0
  are falsy, and the action is then inserted.\<close>

definition createEmbeddedClaimRecord_JoinAction ::
  "env \<Rightarrow> nat \<Rightarrow> string \<Rightarrow> json \<Rightarrow> db \<Rightarrow> (error + unit) \<times> db" where
  "createEmbeddedClaimRecord_JoinAction E jwtId issuerDid c d =
     (case js_path c [''agent'', ''did''] of
        Inl e \<Rightarrow> (Inl e, d)
      | Inr agentDid \<Rightarrow>
          if \<not> truthy agentDid
          then (Inl (Error ''Attempted to record a JoinAction claim with no agent DID.''),
                log_msg (Err ''JoinAction has no agent DID.'') d)
          else if \<not> truthy (js_prop c ''event'')
          then (Inl (Error ''Attempted to record a JoinAction claim with no event info.''),
                log_msg (Err ''JoinAction has no event info.'') d)
          else
            (let ev = js_prop c ''event'';
                 organizer = js_prop ev ''organizer'';
                 orgName = (if truthy organizer then js_prop organizer ''name'' else organizer);
                 name = js_prop ev ''name'';
                 startTime = js_prop ev ''startTime''
             in case eventsByParams d orgName name startTime of
                  [] \<Rightarrow>
                    (let (eventId, d1) = eventInsert orgName name startTime d;
                         event = \<lparr>ev_id = eventId, ev_orgName = orgName, ev_name = name,
                                  ev_startTime = startTime\<rparr>;
                         (actionId, d2) = actionClaimInsert issuerDid agentDid jwtId event d1
                     in (Inr (), d2))
                | event0 # others \<Rightarrow>
                    (let d1 = (if others \<noteq> [] then log_msg (Warn ''Multiple events exist'') d
                               else d);
                         inserted = (let (actionId, d2) =
                                           actionClaimInsert issuerDid agentDid jwtId event0 d1
                                     in (Inr (), d2))
                     in case actionClaimIdByDidEventId d1 agentDid (ev_id event0) of
                          None \<Rightarrow> inserted
                        | Some existing \<Rightarrow>
                            if existing \<noteq> 0 then (Inl (ActionAlreadyExists existing), d1)
                            else inserted)))"

text \<open>
  The test of the Organization branch,
  \<^verbatim>\<open>... && claim.member && claim.member['@type'] === 'OrganizationRole' && claim.member.member.identifier\<close>:
  the last read throws when \<^verbatim>\<open>claim.member.member\<close> is null or undefined.
\<close>

definition createEmbeddedClaimRecord_isOrgRole :: "json \<Rightarrow> error + bool" where
  "createEmbeddedClaimRecord_isOrgRole c =
     (let member = js_prop c ''member''
      in if isContextSchemaOrg (js_prop c ''@context'')
            \<and> js_prop c ''@type'' = JStr ''Organization''
            \<and> truthy member
            \<and> js_prop member ''@type'' = JStr ''OrganizationRole''
         then (case js_get (js_prop member ''member'') ''identifier'' of
                 Inl e \<Rightarrow> Inl e
               | Inr identifier \<Rightarrow> Inr (truthy identifier))
         else Inr False)"

definition createEmbeddedClaimRecord_OrgRole ::
  "env \<Rightarrow> nat \<Rightarrow> string \<Rightarrow> json \<Rightarrow> db \<Rightarrow> (error + unit) \<times> db" where
  "createEmbeddedClaimRecord_OrgRole E jwtId issuerDid c d =
     (let member = js_prop c ''member'';
          (orgRoleId, d') =
             orgRoleInsert jwtId issuerDid (js_prop c ''name'') (js_prop member ''roleName'')
               (js_prop member ''startDate'') (js_prop member ''endDate'')
               (js_prop (js_prop member ''member'') ''identifier'') d
      in (Inr (), d'))"

definition createEmbeddedClaimRecord_Registration ::
  "env \<Rightarrow> nat \<Rightarrow> string \<Rightarrow> json \<Rightarrow> db \<Rightarrow> (error + unit) \<times> db" where
  "createEmbeddedClaimRecord_Registration E jwtId issuerDid c d =
     (case js_path c [''participant'', ''did''] of
        Inl e \<Rightarrow> (Inl e, d)
      | Inr did \<Rightarrow>
     (case js_path c [''agent'', ''did''] of
        Inl e \<Rightarrow> (Inl e, d)
      | Inr agent \<Rightarrow>
          (Inr (),
           registrationInsert
             \<lparr>rg_did = did, rg_agent = agent, rg_epoch = Some (nowEpoch E),
              rg_jwtId = Some jwtId, rg_maxRegs = None, rg_maxClaims = None\<rparr> d)))"

definition createEmbeddedClaimRecord_Tenure ::
  "env \<Rightarrow> nat \<Rightarrow> string \<Rightarrow> json \<Rightarrow> db \<Rightarrow> (error + unit) \<times> db" where
  "createEmbeddedClaimRecord_Tenure E jwtId issuerDid c d =
     (case js_path c [''spatialUnit'', ''geo'', ''polygon''] of
        Inl e \<Rightarrow> (Inl e, d)
      | Inr polygon \<Rightarrow>
     (case calcBbox E polygon of
        Inl e \<Rightarrow> (Inl e, d)
      | Inr bbox \<Rightarrow>
          (let party = js_prop c ''party'';
               partyDid = (if truthy party then js_prop party ''did'' else party);
               (tenureId, d') = tenureInsert jwtId issuerDid partyDid polygon bbox d
           in (Inr (), d'))))"

definition createEmbeddedClaimRecord_Vote ::
  "env \<Rightarrow> nat \<Rightarrow> string \<Rightarrow> json \<Rightarrow> db \<Rightarrow> (error + unit) \<times> db" where
  "createEmbeddedClaimRecord_Vote E jwtId issuerDid c d =
     (case js_path c [''object'', ''event'', ''name''] of
        Inl e \<Rightarrow> (Inl e, d)
      | Inr eventName \<Rightarrow>
     (case js_path c [''object'', ''event'', ''startDate''] of
        Inl e \<Rightarrow> (Inl e, d)
      | Inr eventStartTime \<Rightarrow>
          (let (eventId, d') =
                 voteInsert jwtId issuerDid (js_prop c ''actionOption'') (js_prop c ''candidate'')
                   eventName eventStartTime d
           in (Inr (), d'))))"

definition createEmbeddedClaimRecord_Confirmation ::
  "env \<Rightarrow> nat \<Rightarrow> string \<Rightarrow> json \<Rightarrow> db \<Rightarrow> (error + unit) \<times> json \<times> db" where
  "createEmbeddedClaimRecord_Confirmation E jwtId issuerDid c d =
     (let origClaim = js_prop c ''originalClaim'';
          (c1, d1) = (if truthy origClaim
                      then (let (c', d') = confirm_logged E jwtId issuerDid origClaim d
                            in (js_replace c ''originalClaim'' c', d'))
                      else (c, d));
          origClaims = js_prop c ''originalClaims''
      in if truthy origClaims
         then (case js_iter origClaims of
                 Inl e \<Rightarrow> (Inl e, c1, d1)
               | Inr cs \<Rightarrow>
                   (let (cs', d2) = confirm_each E jwtId issuerDid cs d1
                    in (Inr (),
                        (if isArray origClaims then js_replace c1 ''originalClaims'' (JArr cs')
                         else c1),
                        d2)))
         else (Inr (), c1, d1))"

text \<open>
  \<^verbatim>\<open>createEmbeddedClaimRecord(jwtId, issuerDid, claim)\<close>: what the promise settles to, the
  claim object as the call leaves it, and the state. The first read of the claim throws
  when the claim is null or undefined (an element of an array payload can be).
\<close>

definition createEmbeddedClaimRecord ::
  "env \<Rightarrow> nat \<Rightarrow> string \<Rightarrow> json \<Rightarrow> db \<Rightarrow> (error + unit) \<times> json \<times> db" where
  "createEmbeddedClaimRecord E jwtId issuerDid c d =
     (case js_get c ''@context'' of
        Inl e \<Rightarrow> (Inl e, c, d)
      | Inr context \<Rightarrow>
          (let type = js_prop c ''@type''
           in if isContextSchemaOrg context \<and> type = JStr ''AgreeAction''
              then createEmbeddedClaimRecord_AgreeAction E jwtId issuerDid c d
              else if isContextSchemaOrg context \<and> type = JStr ''JoinAction''
              then (let (r, d') = createEmbeddedClaimRecord_JoinAction E jwtId issuerDid c d
                    in (r, c, d'))
              else
                (case createEmbeddedClaimRecord_isOrgRole c of
                   Inl e \<Rightarrow> (Inl e, c, d)
                 | Inr isOrgRole \<Rightarrow>
                     if isOrgRole
                     then (let (r, d') = createEmbeddedClaimRecord_OrgRole E jwtId issuerDid c d
                           in (r, c, d'))
                     else if isEndorserRegistrationClaim E c
                     then (let (r, d') =
                                 createEmbeddedClaimRecord_Registration E jwtId issuerDid c d
                           in (r, c, d'))
                     else if context = JStr ''https://endorser.ch'' \<and> type = JStr ''Tenure''
                     then (let (r, d') = createEmbeddedClaimRecord_Tenure E jwtId issuerDid c d
                           in (r, c, d'))
                     else if isContextSchemaOrg context \<and> type = JStr ''VoteAction''
                     then (let (r, d') = createEmbeddedClaimRecord_Vote E jwtId issuerDid c d
                           in (r, c, d'))
                     else if isContextSchemaForConfirmation context
                             \<and> type = JStr ''Confirmation''
                     then createEmbeddedClaimRecord_Confirmation E jwtId issuerDid c d
                     else (Inr (), c, log_msg (Info ''Submitted unknown claim type'') d))))"

section \<open>Calls in progress at the same time\<close>

text \<open>
  An \<^verbatim>\<open>async\<close> function runs, when it is called, up to its first \<^verbatim>\<open>await\<close>, and goes on when
  what it waits for has settled. Calls that are started without being awaited one by one
  (the loop over an array payload in \<^verbatim>\<open>createEmbeddedClaimRecords\<close>) are in progress at the
  same time, and their operations on the store interleave.

  A call in progress is settled with a value, or goes on in a later job of the same turn
  of the event loop (the reaction to a promise that has settled), or waits for the store.
  In \<open>Later f\<close> and \<open>Awaiting f\<close> the function \<open>f\<close> takes the state in which the call goes on
  and gives what the call is then and the state it leaves: the call runs up to its next
  \<^verbatim>\<open>await\<close>. A \<open>call\<close> is a call that has not started yet.
\<close>

datatype 'a task =
    Settled 'a
  | Later "db \<Rightarrow> 'a task \<times> db"
  | Awaiting "db \<Rightarrow> 'a task \<times> db"

type_synonym 'a call = "db \<Rightarrow> 'a task \<times> db"

text \<open>The call ends: \<^verbatim>\<open>return v\<close> of a value, a \<^verbatim>\<open>throw\<close>, or the end of the function. The
  promise of the call is settled at once.\<close>

definition settle :: "'a \<Rightarrow> 'a call" where
  "settle x d = (Settled x, d)"

text \<open>\<^verbatim>\<open>return Promise.reject(e)\<close>: the promise of an async function that returns a promise
  follows that promise two jobs later.\<close>

definition return_rejected :: "'a \<Rightarrow> 'a call" where
  "return_rejected x d = (Later (\<lambda>d1. (Later (settle x), d1)), d)"

text \<open>
  \<^verbatim>\<open>await db.op(...)\<close>: the operation is issued now, it reads and writes the tables when the
  store comes to it, and the call goes on with its answer.
\<close>

definition await :: "(db \<Rightarrow> 'v \<times> db) \<Rightarrow> ('v \<Rightarrow> 'a call) \<Rightarrow> 'a call" where
  "await op k d = (Awaiting (\<lambda>d1. case op d1 of (v, d2) \<Rightarrow> k v d2), d)"

definition await_read :: "(db \<Rightarrow> 'v) \<Rightarrow> ('v \<Rightarrow> 'a call) \<Rightarrow> 'a call" where
  "await_read q k = await (\<lambda>d. (q d, d)) k"

text \<open>A line for the logger, written where the call is.\<close>

definition logged :: "log_entry \<Rightarrow> 'a call \<Rightarrow> 'a call" where
  "logged m c d = c (log_msg m d)"

text \<open>A line printed by \<^verbatim>\<open>console.log\<close>, where the call is.\<close>

definition printed :: "error \<Rightarrow> 'a call \<Rightarrow> 'a call" where
  "printed e c d = c (console_log e d)"

text \<open>
  The reaction to the promise of a call in progress (\<^verbatim>\<open>.then\<close>, \<^verbatim>\<open>.catch\<close>, or the
  continuation of an \<^verbatim>\<open>await\<close> on it): once the call has settled with \<open>x\<close>, \<open>k x\<close> runs as a
  job of its own.
\<close>

primrec then_task :: "'a task \<Rightarrow> ('a \<Rightarrow> 'b call) \<Rightarrow> 'b task" where
  "then_task (Settled x) k = Later (k x)"
| "then_task (Later f) k = Later (\<lambda>d. map_prod (\<lambda>t. then_task t k) id (f d))"
| "then_task (Awaiting f) k = Awaiting (\<lambda>d. map_prod (\<lambda>t. then_task t k) id (f d))"

text \<open>\<^verbatim>\<open>await f(...)\<close> and \<^verbatim>\<open>f(...).catch(h)\<close> for an async function \<open>f\<close> of this file: \<open>f\<close> is
  started here, \<open>k\<close> reacts to its promise.\<close>

definition await_call :: "'a call \<Rightarrow> ('a \<Rightarrow> 'b call) \<Rightarrow> 'b call" where
  "await_call c k d = (case c d of (t, d1) \<Rightarrow> (then_task t k, d1))"

text \<open>A call that runs alone, from its start to its end: every job and every answer of
  the store finds the state the call itself left.\<close>

primrec run :: "'a task \<Rightarrow> db \<Rightarrow> 'a \<times> db" where
  "run (Settled x) d = (x, d)"
| "run (Later f) d = (case map_prod run id (f d) of (r, d1) \<Rightarrow> r d1)"
| "run (Awaiting f) d = (case map_prod run id (f d) of (r, d1) \<Rightarrow> r d1)"

definition run_call :: "'a call \<Rightarrow> db \<Rightarrow> 'a \<times> db" where
  "run_call c d = (case c d of (t, d1) \<Rightarrow> run t d1)"

subsection \<open>The functions of jwt.service.js as calls\<close>

text \<open>
  \<^verbatim>\<open>createOneConfirmation\<close> and \<^verbatim>\<open>createEmbeddedClaimRecord\<close> once more, with every \<^verbatim>\<open>await\<close> of
  the store as a point where the call waits. A call settles with what its promise settles
  to and the claim object as it leaves it. A read that throws settles the call at once;
  \<^verbatim>\<open>return Promise.reject(...)\<close> settles it two jobs later.
\<close>

definition createOneConfirmation_JoinAction_call ::
  "env \<Rightarrow> nat \<Rightarrow> string \<Rightarrow> json \<Rightarrow> ((error + conf_result) \<times> json) call" where
  "createOneConfirmation_JoinAction_call E jwtId issuerDid origClaim =
     (case js_path origClaim [''event'', ''organizer'', ''name''] of
        Inl e \<Rightarrow> settle (Inl e, origClaim)
      | Inr orgName \<Rightarrow>
     (case js_path origClaim [''event'', ''name''] of
        Inl e \<Rightarrow> settle (Inl e, origClaim)
      | Inr name \<Rightarrow>
     (case js_path origClaim [''event'', ''startTime''] of
        Inl e \<Rightarrow> settle (Inl e, origClaim)
      | Inr startTime \<Rightarrow>
     await_read (\<lambda>d. eventsByParams d orgName name startTime)
       (\<lambda>events. case events of
          [] \<Rightarrow> return_rejected
                 (Inl (Error ''Attempted to confirm action at an unrecorded event.''), origClaim)
        | event0 # others \<Rightarrow>
     (case js_path origClaim [''agent'', ''did''] of
        Inl e \<Rightarrow> settle (Inl e, origClaim)
      | Inr agentDid \<Rightarrow>
     await_read (\<lambda>d. actionClaimIdByDidEventId d agentDid (ev_id event0))
       (\<lambda>actionClaimId. case actionClaimId of
          None \<Rightarrow> return_rejected
                   (Inl (Error ''Attempted to confirm an unrecorded action.''), origClaim)
        | Some actionId \<Rightarrow>
     await_read (\<lambda>d. confirmationByIssuerAndAction d issuerDid actionId)
       (\<lambda>confirmation. case confirmation of
          Some confirmation \<Rightarrow> return_rejected
                   (Inl (AlreadyConfirmed ''an action'' (cf_id confirmation)), origClaim)
        | None \<Rightarrow>
     await (confirmationInsert issuerDid jwtId (canonicalize E origClaim) (Some actionId)
              None None)
       (\<lambda>result. settle
          (Inr \<lparr>confirmId = result, actionClaimId = Some actionId,
                tenureClaimId = None, orgRoleClaimId = None\<rparr>, origClaim)))))))))"

definition createOneConfirmation_Tenure_call ::
  "env \<Rightarrow> nat \<Rightarrow> string \<Rightarrow> json \<Rightarrow> ((error + conf_result) \<times> json) call" where
  "createOneConfirmation_Tenure_call E jwtId issuerDid origClaim =
     (case js_path origClaim [''party'', ''did''] of
        Inl e \<Rightarrow> settle (Inl e, origClaim)
      | Inr partyDid \<Rightarrow>
     (case js_path origClaim [''spatialUnit'', ''geo'', ''polygon''] of
        Inl e \<Rightarrow> settle (Inl e, origClaim)
      | Inr polygon \<Rightarrow>
     await_read (\<lambda>d. tenureClaimIdByPartyAndGeoShape d partyDid polygon)
       (\<lambda>tenureClaimId. case tenureClaimId of
          None \<Rightarrow> return_rejected
                   (Inl (Error ''Attempted to confirm an unrecorded tenure.''), origClaim)
        | Some tenureId \<Rightarrow>
     await_read (\<lambda>d. confirmationByIssuerAndTenure d issuerDid tenureId)
       (\<lambda>confirmation. case confirmation of
          Some confirmation \<Rightarrow> return_rejected
                   (Inl (AlreadyConfirmed ''a tenure'' (cf_id confirmation)), origClaim)
        | None \<Rightarrow>
     await (confirmationInsert issuerDid jwtId (canonicalize E origClaim) None (Some tenureId)
              None)
       (\<lambda>result. settle
          (Inr \<lparr>confirmId = result, actionClaimId = None,
                tenureClaimId = Some tenureId, orgRoleClaimId = None\<rparr>, origClaim))))))"

definition createOneConfirmation_OrgRole_call ::
  "env \<Rightarrow> nat \<Rightarrow> string \<Rightarrow> json \<Rightarrow> ((error + conf_result) \<times> json) call" where
  "createOneConfirmation_OrgRole_call E jwtId issuerDid origClaim =
     (let member = js_prop origClaim ''member''
      in
     await_read (\<lambda>d. orgRoleClaimIdByOrgAndDates d (js_prop origClaim ''name'')
                       (js_prop member ''roleName'') (js_prop member ''startDate'')
                       (js_prop member ''endDate'')
                       (js_prop (js_prop member ''member'') ''identifier''))
       (\<lambda>orgRoleClaimId. case orgRoleClaimId of
          None \<Rightarrow> return_rejected
                   (Inl (Error ''Attempted to confirm an unrecorded orgRole.''), origClaim)
        | Some orgRoleId \<Rightarrow>
     await_read (\<lambda>d. confirmationByIssuerAndOrgRole d issuerDid orgRoleId)
       (\<lambda>confirmation. case confirmation of
          Some confirmation \<Rightarrow> return_rejected
                   (Inl (AlreadyConfirmed ''a orgRole'' (cf_id confirmation)), origClaim)
        | None \<Rightarrow>
     await (confirmationInsert issuerDid jwtId (canonicalize E origClaim) None None
              (Some orgRoleId))
       (\<lambda>result. settle
          (Inr \<lparr>confirmId = result, actionClaimId = None,
                tenureClaimId = None, orgRoleClaimId = Some orgRoleId\<rparr>, origClaim)))))"

definition createOneConfirmation_generic_call ::
  "env \<Rightarrow> nat \<Rightarrow> string \<Rightarrow> json \<Rightarrow> ((error + conf_result) \<times> json) call" where
  "createOneConfirmation_generic_call E jwtId issuerDid origClaim =
     await_read (\<lambda>d. confirmationByIssuerAndOrigClaim (canonicalize E) d issuerDid origClaim)
       (\<lambda>confirmation. case confirmation of
          Some confirmation \<Rightarrow> return_rejected
                   (Inl (AlreadyConfirmed ''a claim'' (cf_id confirmation)), origClaim)
        | None \<Rightarrow>
     await (confirmationInsert issuerDid jwtId (canonicalize E origClaim) None None None)
       (\<lambda>result. settle
          (Inr \<lparr>confirmId = result, actionClaimId = None,
                tenureClaimId = None, orgRoleClaimId = None\<rparr>, origClaim)))"

definition createOneConfirmation_dispatch_call ::
  "env \<Rightarrow> nat \<Rightarrow> string \<Rightarrow> json \<Rightarrow> ((error + conf_result) \<times> json) call" where
  "createOneConfirmation_dispatch_call E jwtId issuerDid origClaim =
     (let context = js_prop origClaim ''@context'';
          type = js_prop origClaim ''@type'';
          member = js_prop origClaim ''member''
      in if isContextSchemaOrg context \<and> type = JStr ''JoinAction''
         then createOneConfirmation_JoinAction_call E jwtId issuerDid origClaim
         else if context = JStr ''https://endorser.ch'' \<and> type = JStr ''Tenure''
         then createOneConfirmation_Tenure_call E jwtId issuerDid origClaim
         else if isContextSchemaOrg context \<and> type = JStr ''Organization''
                 \<and> truthy member
                 \<and> js_prop member ''@type'' = JStr ''OrganizationRole''
                 \<and> truthy (js_prop member ''member'')
                 \<and> truthy (js_prop (js_prop member ''member'') ''identifier'')
         then createOneConfirmation_OrgRole_call E jwtId issuerDid origClaim
         else createOneConfirmation_generic_call E jwtId issuerDid origClaim)"

definition createOneConfirmation_call ::
  "env \<Rightarrow> nat \<Rightarrow> string \<Rightarrow> json \<Rightarrow> ((error + conf_result) \<times> json) call" where
  "createOneConfirmation_call E jwtId issuerDid origClaim =
     (case createOneConfirmation_context origClaim of
        Inl e \<Rightarrow> settle (Inl e, origClaim)
      | Inr origClaim' \<Rightarrow> createOneConfirmation_dispatch_call E jwtId issuerDid origClaim')"

text \<open>
  \<^verbatim>\<open>await this.createOneConfirmation(jwtId, issuerDid, c).catch(console.log)\<close>, followed by
  \<open>k\<close>: the handler of \<^verbatim>\<open>.catch\<close> is one reaction, the continuation of the \<^verbatim>\<open>await\<close> the next.
  \<open>k\<close> gets the claim object as the call left it.
\<close>

definition confirm_logged_call ::
  "env \<Rightarrow> nat \<Rightarrow> string \<Rightarrow> json \<Rightarrow> (json \<Rightarrow> 'a call) \<Rightarrow> 'a call" where
  "confirm_logged_call E jwtId issuerDid c k =
     await_call
       (await_call (createOneConfirmation_call E jwtId issuerDid c)
          (\<lambda>(r, c'). case r of
             Inl e \<Rightarrow> printed e (settle c')
           | Inr v \<Rightarrow> settle c'))
       k"

text \<open>The loop \<^verbatim>\<open>for (var c of cs) { recordings.push(await ... ) }\<close>, followed by \<open>k\<close>; \<open>seen\<close>
  are the claim objects of the rounds that are over.\<close>

fun confirm_each_call ::
  "env \<Rightarrow> nat \<Rightarrow> string \<Rightarrow> json list \<Rightarrow> json list \<Rightarrow> (json list \<Rightarrow> 'a call) \<Rightarrow> 'a call" where
  "confirm_each_call E jwtId issuerDid [] seen k = k seen"
| "confirm_each_call E jwtId issuerDid (c # cs) seen k =
     confirm_logged_call E jwtId issuerDid c
       (\<lambda>c'. confirm_each_call E jwtId issuerDid cs (seen @ [c']) k)"

definition createEmbeddedClaimRecord_AgreeAction_call ::
  "env \<Rightarrow> nat \<Rightarrow> string \<Rightarrow> json \<Rightarrow> ((error + unit) \<times> json) call" where
  "createEmbeddedClaimRecord_AgreeAction_call E jwtId issuerDid c =
     (let origClaim = js_prop c ''object''
      in case origClaim of
           JArr cs \<Rightarrow>
             confirm_each_call E jwtId issuerDid cs []
               (\<lambda>cs'. settle (Inr (), js_replace c ''object'' (JArr cs')))
         | other \<Rightarrow>
             if truthy origClaim
             then confirm_logged_call E jwtId issuerDid origClaim
                    (\<lambda>c'. settle (Inr (), js_replace c ''object'' c'))
             else settle (Inr (), c))"

definition createEmbeddedClaimRecord_JoinAction_call ::
  "env \<Rightarrow> nat \<Rightarrow> string \<Rightarrow> json \<Rightarrow> ((error + unit) \<times> json) call" where
  "createEmbeddedClaimRecord_JoinAction_call E jwtId issuerDid c =
     (case js_path c [''agent'', ''did''] of
        Inl e \<Rightarrow> settle (Inl e, c)
      | Inr agentDid \<Rightarrow>
          if \<not> truthy agentDid
          then logged (Err ''JoinAction has no agent DID.'')
                 (return_rejected
                    (Inl (Error ''Attempted to record a JoinAction claim with no agent DID.''), c))
          else if \<not> truthy (js_prop c ''event'')
          then logged (Err ''JoinAction has no event info.'')
                 (return_rejected
                    (Inl (Error ''Attempted to record a JoinAction claim with no event info.''), c))
          else
            (let ev = js_prop c ''event'';
                 organizer = js_prop ev ''organizer'';
                 orgName = (if truthy organizer then js_prop organizer ''name'' else organizer);
                 name = js_prop ev ''name'';
                 startTime = js_prop ev ''startTime''
             in
            await_read (\<lambda>d. eventsByParams d orgName name startTime)
              (\<lambda>events. case events of
                 [] \<Rightarrow>
                   await (eventInsert orgName name startTime)
                     (\<lambda>eventId.
                   await (actionClaimInsert issuerDid agentDid jwtId
                            \<lparr>ev_id = eventId, ev_orgName = orgName, ev_name = name,
                             ev_startTime = startTime\<rparr>)
                     (\<lambda>actionId. settle (Inr (), c)))
               | event0 # others \<Rightarrow>
                   (let inserted =
                          await (actionClaimInsert issuerDid agentDid jwtId event0)
                            (\<lambda>actionId. settle (Inr (), c));
                        lookup =
                          await_read (\<lambda>d. actionClaimIdByDidEventId d agentDid (ev_id event0))
                            (\<lambda>actionClaimId. case actionClaimId of
                               None \<Rightarrow> inserted
                             | Some existing \<Rightarrow>
                                 if existing \<noteq> 0
                                 then return_rejected (Inl (ActionAlreadyExists existing), c)
                                 else inserted)
                    in if others \<noteq> [] then logged (Warn ''Multiple events exist'') lookup
                       else lookup))))"

definition createEmbeddedClaimRecord_OrgRole_call ::
  "env \<Rightarrow> nat \<Rightarrow> string \<Rightarrow> json \<Rightarrow> ((error + unit) \<times> json) call" where
  "createEmbeddedClaimRecord_OrgRole_call E jwtId issuerDid c =
     (let member = js_prop c ''member''
      in await (orgRoleInsert jwtId issuerDid (js_prop c ''name'') (js_prop member ''roleName'')
                  (js_prop member ''startDate'') (js_prop member ''endDate'')
                  (js_prop (js_prop member ''member'') ''identifier''))
           (\<lambda>orgRoleId. settle (Inr (), c)))"

definition createEmbeddedClaimRecord_Registration_call ::
  "env \<Rightarrow> nat \<Rightarrow> string \<Rightarrow> json \<Rightarrow> ((error + unit) \<times> json) call" where
  "createEmbeddedClaimRecord_Registration_call E jwtId issuerDid c =
     (case js_path c [''participant'', ''did''] of
        Inl e \<Rightarrow> settle (Inl e, c)
      | Inr did \<Rightarrow>
     (case js_path c [''agent'', ''did''] of
        Inl e \<Rightarrow> settle (Inl e, c)
      | Inr agent \<Rightarrow>
          await (\<lambda>d. ((), registrationInsert
                            \<lparr>rg_did = did, rg_agent = agent, rg_epoch = Some (nowEpoch E),
                             rg_jwtId = Some jwtId, rg_maxRegs = None, rg_maxClaims = None\<rparr> d))
            (\<lambda>registrationId. settle (Inr (), c))))"

definition createEmbeddedClaimRecord_Tenure_call ::
  "env \<Rightarrow> nat \<Rightarrow> string \<Rightarrow> json \<Rightarrow> ((error + unit) \<times> json) call" where
  "createEmbeddedClaimRecord_Tenure_call E jwtId issuerDid c =
     (case js_path c [''spatialUnit'', ''geo'', ''polygon''] of
        Inl e \<Rightarrow> settle (Inl e, c)
      | Inr polygon \<Rightarrow>
     (case calcBbox E polygon of
        Inl e \<Rightarrow> settle (Inl e, c)
      | Inr bbox \<Rightarrow>
          (let party = js_prop c ''party'';
               partyDid = (if truthy party then js_prop party ''did'' else party)
           in await (tenureInsert jwtId issuerDid partyDid polygon bbox)
                (\<lambda>tenureId. settle (Inr (), c)))))"

definition createEmbeddedClaimRecord_Vote_call ::
  "env \<Rightarrow> nat \<Rightarrow> string \<Rightarrow> json \<Rightarrow> ((error + unit) \<times> json) call" where
  "createEmbeddedClaimRecord_Vote_call E jwtId issuerDid c =
     (case js_path c [''object'', ''event'', ''name''] of
        Inl e \<Rightarrow> settle (Inl e, c)
      | Inr eventName \<Rightarrow>
     (case js_path c [''object'', ''event'', ''startDate''] of
        Inl e \<Rightarrow> settle (Inl e, c)
      | Inr eventStartTime \<Rightarrow>
          await (voteInsert jwtId issuerDid (js_prop c ''actionOption'') (js_prop c ''candidate'')
                   eventName eventStartTime)
            (\<lambda>eventId. settle (Inr (), c))))"

text \<open>
  The Confirmation branch. Its last statement awaits \<^verbatim>\<open>Promise.all\<close> of values that are no
  promises: that delays the end of the call by a few jobs of the same turn and nothing
  else, and is left out.
\<close>

definition createEmbeddedClaimRecord_Confirmation_call ::
  "env \<Rightarrow> nat \<Rightarrow> string \<Rightarrow> json \<Rightarrow> ((error + unit) \<times> json) call" where
  "createEmbeddedClaimRecord_Confirmation_call E jwtId issuerDid c =
     (let origClaim = js_prop c ''originalClaim'';
          origClaims = js_prop c ''originalClaims'';
          multiple =
            (\<lambda>c1. if truthy origClaims
                   then (case js_iter origClaims of
                           Inl e \<Rightarrow> settle (Inl e, c1)
                         | Inr cs \<Rightarrow>
                             confirm_each_call E jwtId issuerDid cs []
                               (\<lambda>cs'. settle
                                  (Inr (),
                                   if isArray origClaims
                                   then js_replace c1 ''originalClaims'' (JArr cs')
                                   else c1)))
                   else settle (Inr (), c1))
      in if truthy origClaim
         then confirm_logged_call E jwtId issuerDid origClaim
                (\<lambda>c'. multiple (js_replace c ''originalClaim'' c'))
         else multiple c)"

definition createEmbeddedClaimRecord_call ::
  "env \<Rightarrow> nat \<Rightarrow> string \<Rightarrow> json \<Rightarrow> ((error + unit) \<times> json) call" where
  "createEmbeddedClaimRecord_call E jwtId issuerDid c =
     (case js_get c ''@context'' of
        Inl e \<Rightarrow> settle (Inl e, c)
      | Inr context \<Rightarrow>
          (let type = js_prop c ''@type''
           in if isContextSchemaOrg context \<and> type = JStr ''AgreeAction''
              then createEmbeddedClaimRecord_AgreeAction_call E jwtId issuerDid c
              else if isContextSchemaOrg context \<and> type = JStr ''JoinAction''
              then createEmbeddedClaimRecord_JoinAction_call E jwtId issuerDid c
              else
                (case createEmbeddedClaimRecord_isOrgRole c of
                   Inl e \<Rightarrow> settle (Inl e, c)
                 | Inr isOrgRole \<Rightarrow>
                     if isOrgRole
                     then createEmbeddedClaimRecord_OrgRole_call E jwtId issuerDid c
                     else if isEndorserRegistrationClaim E c
                     then createEmbeddedClaimRecord_Registration_call E jwtId issuerDid c
                     else if context = JStr ''https://endorser.ch'' \<and> type = JStr ''Tenure''
                     then createEmbeddedClaimRecord_Tenure_call E jwtId issuerDid c
                     else if isContextSchemaOrg context \<and> type = JStr ''VoteAction''
                     then createEmbeddedClaimRecord_Vote_call E jwtId issuerDid c
                     else if isContextSchemaForConfirmation context
                             \<and> type = JStr ''Confirmation''
                     then createEmbeddedClaimRecord_Confirmation_call E jwtId issuerDid c
                     else logged (Info ''Submitted unknown claim type'') (settle (Inr (), c)))))"

subsection \<open>The event loop\<close>

text \<open>
  Modelled from the spec: the store carries out the operations in the order in which
  they were issued and answers them in that order, one answer per turn of the event loop
  (\<^verbatim>\<open>endorser.db.service\<close> is not among the sources). Within a turn the jobs that react to
  settled promises run in the order in which they were queued, until none is left.

  The calls in progress are the jobs of the current turn, the calls that wait for the
  store in the order of their operations, and the calls that have settled, in the order
  in which they did. A job carries the position of its call in the array.
\<close>

type_synonym 'a job = "nat \<times> 'a call"

type_synonym 'a running = "'a job list \<times> 'a job list \<times> (nat \<times> 'a) list"

fun place :: "nat \<Rightarrow> 'a task \<Rightarrow> 'a running \<Rightarrow> 'a running" where
  "place n (Settled x) (ms, ws, ended) = (ms, ws, ended @ [(n, x)])"
| "place n (Later f) (ms, ws, ended) = (ms @ [(n, f)], ws, ended)"
| "place n (Awaiting f) (ms, ws, ended) = (ms, ws @ [(n, f)], ended)"

text \<open>
  The loop runs the jobs of the turn, then takes the next answer of the store. \<open>stop\<close> is
  looked at between two turns: the one who awaits the calls goes on during the turn in
  which \<open>stop\<close> has become true of the settled calls, and the loop gives the calls that
  are still waiting then.
\<close>

function (sequential) sched ::
  "((nat \<times> 'a) list \<Rightarrow> bool) \<Rightarrow> 'a running \<Rightarrow> db \<Rightarrow> 'a running \<times> db" where
  "sched stop ((n, f) # ms, ws, ended) d =
     (case f d of (t, d1) \<Rightarrow> sched stop (place n t (ms, ws, ended)) d1)"
| "sched stop ([], [], ended) d = (([], [], ended), d)"
| "sched stop ([], (n, f) # ws, ended) d =
     (if stop ended then (([], (n, f) # ws, ended), d)
      else (case f d of (t, d1) \<Rightarrow> sched stop (place n t ([], ws, ended)) d1))"
  by pat_completeness auto

text \<open>Every step of the loop replaces a job by what the call is after it, which is a part
  of the job.\<close>

definition below :: "('a call \<times> 'a call) set" where
  "below = {(g, f). \<exists>d. fst (f d) = Later g \<or> fst (f d) = Awaiting g}"

definition pending :: "'a running \<Rightarrow> 'a call multiset" where
  "pending R = mset (map snd (fst R)) + mset (map snd (fst (snd R)))"

termination sched
proof (relation "inv_image (mult below) (\<lambda>(stop, R, d). pending R)")
  have acc: "(case t of Settled x \<Rightarrow> True | Later g \<Rightarrow> P g | Awaiting g \<Rightarrow> P g)"
    if step: "\<And>f. (\<And>g. (g, f) \<in> below \<Longrightarrow> P g) \<Longrightarrow> P f"
    for P :: "'a call \<Rightarrow> bool" and t :: "'a task"
  proof (induction t)
    case (Settled x)
    show ?case by simp
  next
    case (Later f)
    have "P f"
    proof (rule step)
      fix g assume "(g, f) \<in> below"
      then obtain d where "fst (f d) = Later g \<or> fst (f d) = Awaiting g"
        by (auto simp: below_def)
      moreover have "fst (f d) \<in> Basic_BNFs.fsts (f d)" by (cases "f d") simp
      ultimately show "P g" using Later.IH [of "f d" "fst (f d)"] by auto
    qed
    then show ?case by simp
  next
    case (Awaiting f)
    have "P f"
    proof (rule step)
      fix g assume "(g, f) \<in> below"
      then obtain d where "fst (f d) = Later g \<or> fst (f d) = Awaiting g"
        by (auto simp: below_def)
      moreover have "fst (f d) \<in> Basic_BNFs.fsts (f d)" by (cases "f d") simp
      ultimately show "P g" using Awaiting.IH [of "f d" "fst (f d)"] by auto
    qed
    then show ?case by simp
  qed
  have wf_below: "wf (below :: ('a call \<times> 'a call) set)"
  proof (rule wfUNIVI)
    fix P :: "'a call \<Rightarrow> bool" and f :: "'a call"
    assume "\<forall>x. (\<forall>y. (y, x) \<in> below \<longrightarrow> P y) \<longrightarrow> P x"
    then have step: "\<And>f. (\<And>g. (g, f) \<in> below \<Longrightarrow> P g) \<Longrightarrow> P f" by blast
    from acc [of P "Later f", OF step] show "P f" by simp
  qed
  have pending_place: "(pending (place n t R), add_mset f (pending R)) \<in> mult below"
    if "fst (f d) = t" for n t d and R :: "'a running" and f :: "'a call"
  proof -
    obtain ms ws ended where fields: "R = (ms, ws, ended)" by (cases R)
    show ?thesis
    proof (cases t)
      case (Settled x)
      then show ?thesis using fields
        by (simp add: pending_def subset_implies_mult)
    next
      case (Later g)
      then have "(g, f) \<in> below" using that by (auto simp: below_def)
      then have "(add_mset g (pending R), add_mset f (pending R)) \<in> mult below"
        using one_step_implies_mult [of "{#f#}" "{#g#}" below "pending R"] by simp
      then show ?thesis using fields Later by (simp add: pending_def)
    next
      case (Awaiting g)
      then have "(g, f) \<in> below" using that by (auto simp: below_def)
      then have "(add_mset g (pending R), add_mset f (pending R)) \<in> mult below"
        using one_step_implies_mult [of "{#f#}" "{#g#}" below "pending R"] by simp
      then show ?thesis using fields Awaiting by (simp add: pending_def)
    qed
  qed
  show "wf (inv_image (mult (below :: ('a call \<times> 'a call) set)) (\<lambda>(stop, R, d). pending R))"
    by (intro wf_inv_image wf_mult wf_below)
  show "((stop, place n x1 (ms, ws, ended), x2), stop, ((n, f) # ms, ws, ended), d)
        \<in> inv_image (mult below) (\<lambda>(stop, R, d). pending R)"
    if "(x1, x2) = f d"
    for stop :: "(nat \<times> 'a) list \<Rightarrow> bool" and n and f :: "'a call"
      and ms ws :: "'a job list" and ended :: "(nat \<times> 'a) list" and d x1 x2
  proof -
    from that have "fst (f d) = x1" by (metis fst_conv)
    from pending_place [where f = f and d = d and t = x1 and n = n and R = "(ms, ws, ended)",
        OF this]
    show ?thesis by (simp add: pending_def)
  qed
  show "((stop, place n x1 ([], ws, ended), x2), stop, ([], (n, f) # ws, ended), d)
        \<in> inv_image (mult below) (\<lambda>(stop, R, d). pending R)"
    if "\<not> stop ended" "(x1, x2) = f d"
    for stop :: "(nat \<times> 'a) list \<Rightarrow> bool" and n and f :: "'a call"
      and ws :: "'a job list" and ended :: "(nat \<times> 'a) list" and d x1 x2
  proof -
    from that have "fst (f d) = x1" by (metis fst_conv)
    from pending_place [where f = f and d = d and t = x1 and n = n and R = "([], ws, ended)",
        OF this]
    show ?thesis by (simp add: pending_def)
  qed
qed

text \<open>The calls that still wait when the one who awaited them has gone on run to their
  ends; what they settle to is dropped.\<close>

definition run_to_end :: "'a job list \<Rightarrow> db \<Rightarrow> db" where
  "run_to_end ws d = snd (sched (\<lambda>ended. False) ([], ws, []) d)"

subsection \<open>What a call keeps\<close>

text \<open>
  A call in progress keeps the envelope table and the edges of the network, and settles
  with a value of \<open>Q\<close>, whatever the states are in which it goes on: no job and no answer
  of the store changes the envelopes or the edges, and when the call settles, it settles
  with a value of which \<open>Q\<close> holds.
\<close>

definition same_envelopes_and_edges :: "db \<Rightarrow> db \<Rightarrow> bool" where
  "same_envelopes_and_edges d d' \<longleftrightarrow> jwts d' = jwts d \<and> network d' = network d"

inductive task_keeps :: "('a \<Rightarrow> bool) \<Rightarrow> 'a task \<Rightarrow> bool" for Q where
  Settled: "Q x \<Longrightarrow> task_keeps Q (Settled x)"
| Later: "(\<And>d. same_envelopes_and_edges d (snd (f d))) \<Longrightarrow> (\<And>d. task_keeps Q (fst (f d)))
          \<Longrightarrow> task_keeps Q (Later f)"
| Awaiting: "(\<And>d. same_envelopes_and_edges d (snd (f d))) \<Longrightarrow> (\<And>d. task_keeps Q (fst (f d)))
          \<Longrightarrow> task_keeps Q (Awaiting f)"

definition call_keeps :: "('a \<Rightarrow> bool) \<Rightarrow> 'a call \<Rightarrow> bool" where
  "call_keeps Q c \<longleftrightarrow>
     (\<forall>d. same_envelopes_and_edges d (snd (c d)) \<and> task_keeps Q (fst (c d)))"

text \<open>The same of all the calls in progress: \<open>Q n\<close> is what the call at position \<open>n\<close> settles
  with.\<close>

definition running_keeps :: "(nat \<Rightarrow> 'a \<Rightarrow> bool) \<Rightarrow> 'a running \<Rightarrow> bool" where
  "running_keeps Q R \<longleftrightarrow>
     (\<forall>(n, f) \<in> set (fst R). call_keeps (Q n) f) \<and>
     (\<forall>(n, f) \<in> set (fst (snd R)). call_keeps (Q n) f) \<and>
     (\<forall>(n, x) \<in> set (snd (snd R)). Q n x)"

section \<open>jwt.service.js: all records of a payload, and the visibility edges\<close>

text \<open>
  Modelled from the spec: \<^verbatim>\<open>allDidsInside\<close> of \<^verbatim>\<open>util.js\<close>, the distinct identities found
  anywhere in a claim by a recursive scan of its object graph. What counts as an
  identity is the parameter \<open>is_did\<close> (\<^verbatim>\<open>isDid\<close> of \<^verbatim>\<open>util.js\<close>).
\<close>

fun allDidsInside :: "(string \<Rightarrow> bool) \<Rightarrow> json \<Rightarrow> string list" where
  "allDidsInside is_did (JStr s) = (if is_did s then [s] else [])"
| "allDidsInside is_did (JArr xs) = remdups (concat (map (allDidsInside is_did) xs))"
| "allDidsInside is_did (JObj kvs) =
     remdups (concat (map (\<lambda>kv. allDidsInside is_did (snd kv)) kvs))"
| "allDidsInside is_did v = []"

text \<open>A call keeps the identities of a claim when the claim object it settles with holds
  every identity the scan finds in the claim it was started on.\<close>

definition dids_kept :: "(string \<Rightarrow> bool) \<Rightarrow> json \<Rightarrow> 'r \<times> json \<Rightarrow> bool" where
  "dids_kept is_did c x \<longleftrightarrow> set (allDidsInside is_did c) \<subseteq> set (allDidsInside is_did (snd x))"

text \<open>
  The loop of the array branch,
  \<^verbatim>\<open>for (var subClaim of claim) { recordings.push(this.createEmbeddedClaimRecord(...)) }\<close>:
  every call is started, in the order of the array, and none is awaited. \<open>n\<close> is the
  position of the next element.
\<close>

fun start_each ::
  "env \<Rightarrow> nat \<Rightarrow> string \<Rightarrow> json list \<Rightarrow> nat \<Rightarrow> ((error + unit) \<times> json) running \<Rightarrow> db
   \<Rightarrow> ((error + unit) \<times> json) running \<times> db" where
  "start_each E jwtId issuerDid [] n R d = (R, d)"
| "start_each E jwtId issuerDid (c # cs) n R d =
     (case createEmbeddedClaimRecord_call E jwtId issuerDid c d of
        (t, d1) \<Rightarrow> start_each E jwtId issuerDid cs (Suc n) (place n t R) d1)"

text \<open>
  \<^verbatim>\<open>Promise.all\<close> of the calls rejects with the rejection of the call that rejects first,
  and resolves when every call has resolved. \<open>rejections\<close> are the rejections among the
  settled calls, in the order in which they happened.
\<close>

definition rejections :: "(nat \<times> (error + unit) \<times> json) list \<Rightarrow> error list" where
  "rejections ended =
     concat (map (\<lambda>(n, r, c). case r of Inl e \<Rightarrow> [e] | Inr u \<Rightarrow> []) ended)"

text \<open>The elements of the array as the settled calls left them.\<close>

definition claims_left :: "json list \<Rightarrow> (nat \<times> (error + unit) \<times> json) list \<Rightarrow> json list" where
  "claims_left cs ended =
     map (\<lambda>(n, c). case map_of ended n of Some (r, c') \<Rightarrow> c' | None \<Rightarrow> c)
         (List.enumerate 0 cs)"

text \<open>
  The first half of \<^verbatim>\<open>createEmbeddedClaimRecords\<close>: the typed records of the payload. The
  result is what the \<^verbatim>\<open>await\<close> gives, the claim object, the state in which the function goes
  on, and the calls that are still waiting for the store then.

  For an array the calls of all elements are started and then awaited together by
  \<^verbatim>\<open>Promise.all\<close>: the function goes on in the turn in which the first of them rejects, or in
  the turn in which the last of them resolves. A single claim is awaited alone.
\<close>

definition createEmbeddedClaimRecords_dispatch ::
  "env \<Rightarrow> nat \<Rightarrow> string \<Rightarrow> json \<Rightarrow> db
   \<Rightarrow> (error + unit) \<times> json \<times> db \<times> ((error + unit) \<times> json) job list" where
  "createEmbeddedClaimRecords_dispatch E jwtId issuerDid c d =
     (case c of
        JArr subClaims \<Rightarrow>
          (case start_each E jwtId issuerDid subClaims 0 ([], [], []) d of
             (R0, d0) \<Rightarrow>
          (case sched (\<lambda>ended. rejections ended \<noteq> []) R0 d0 of
             ((ms, ws, ended), d1) \<Rightarrow>
               ((case rejections ended of e # es \<Rightarrow> Inl e | [] \<Rightarrow> Inr ()),
                JArr (claims_left subClaims ended), d1, ws)))
      | other \<Rightarrow>
          (case createEmbeddedClaimRecord E jwtId issuerDid c d of
             (r, c', d1) \<Rightarrow> (r, c', d1, [])))"

text \<open>
  \<^verbatim>\<open>createEmbeddedClaimRecords(jwtId, issuerDid, claim)\<close>: what the promise settles to, the
  state then, and the calls that are still waiting for the store. When the typed records
  reject, the \<^verbatim>\<open>await\<close> throws and the loop over \<^verbatim>\<open>allDidsInside(claim)\<close> is not reached.
  Otherwise \<^verbatim>\<open>addCanSee(did, issuerDid)\<close> is called for every identity in the claim as the
  confirmations left it.
\<close>

definition createEmbeddedClaimRecords ::
  "env \<Rightarrow> nat \<Rightarrow> string \<Rightarrow> json \<Rightarrow> db
   \<Rightarrow> (error + unit) \<times> db \<times> ((error + unit) \<times> json) job list" where
  "createEmbeddedClaimRecords E jwtId issuerDid c d =
     (case createEmbeddedClaimRecords_dispatch E jwtId issuerDid c d of
        (Inl e, c', d1, ws) \<Rightarrow> (Inl e, d1, ws)
      | (Inr u, c', d1, ws) \<Rightarrow>
          (Inr (), fold (\<lambda>did. addCanSee did issuerDid) (allDidsInside (isDid E) c') d1, ws))"

section \<open>jwt.service.js: submitting a claim\<close>

definition extractClaim :: "payload \<Rightarrow> json" where
  "extractClaim p =
     (let c = (if truthy (pl_claim p) then pl_claim p
               else if truthy (pl_vc p) then js_prop (pl_vc p) ''credentialSubject''
               else pl_vc p)
      in if truthy c then c else JNull)"

text \<open>
  Modelled from the spec: \<^verbatim>\<open>db.buildJwtEntity\<close>, the envelope row of a payload, with the
  id the store assigns next, the canonical claim, its encoding, the signed token and the
  content hash; the chain value is not set yet.
\<close>

definition buildJwtEntity ::
  "env \<Rightarrow> db \<Rightarrow> payload \<Rightarrow> json \<Rightarrow> string \<Rightarrow> string \<Rightarrow> string \<Rightarrow> jwt_row" where
  "buildJwtEntity E d p payloadClaim claimStr claimEncoded jwtEncoded =
     (let i = next_id (map jwt_id (jwts d))
      in \<lparr>jwt_id = i, jwt_issuedAt = pl_iat p, jwt_issuer = pl_iss p,
          jwt_claimContext = js_prop payloadClaim ''@context'',
          jwt_claimType = js_prop payloadClaim ''@type'',
          jwt_claim = claimStr, jwt_claimEncoded = claimEncoded, jwt_jwtEncoded = jwtEncoded,
          jwt_hashHex =
            Some (hashedClaimWithHashedDids E
                    \<lparr>ic_id = i, ic_claim = claimStr, ic_hashHex = None\<rparr>),
          jwt_hashChainHex = None\<rparr>)"

text \<open>The checks \<^verbatim>\<open>createWithClaimRecord\<close> makes on a registration claim before it stores
  the envelope. A registration row without an epoch (a seeded one) compares as 0.\<close>

definition registration_checks :: "env \<Rightarrow> db \<Rightarrow> payload \<Rightarrow> registration_row \<Rightarrow> error option" where
  "registration_checks E d p registered =
     (let regCount = registrationCountByAfter d (pl_iss p) (startOfMonth E)
      in if regCount \<ge> maxAllowedRegs E registered
         then Some (ClientError OVER_REGISTRATION_LIMIT)
         else if (case rg_epoch registered of None \<Rightarrow> 0 | Some e \<Rightarrow> e) > startOfWeek E
         then Some (ClientError CANNOT_REGISTER_TOO_SOON)
         else None)"

text \<open>
  \<^verbatim>\<open>createWithClaimRecord(jwtEncoded, authIssuerId)\<close>: what the promise settles to (the id of
  the envelope, or the rejection), the state then, and the calls that are still waiting
  for the store: after an array payload of which one element was refused, the calls of
  the other elements go on when the promise has settled already (\<open>run_to_end\<close>).
  \<open>authIssuerId\<close> is \<open>None\<close> when the caller passes none; an empty string is falsy as well.
\<close>

definition createWithClaimRecord ::
  "env \<Rightarrow> string \<Rightarrow> string option \<Rightarrow> db
   \<Rightarrow> (error + nat) \<times> db \<times> ((error + unit) \<times> json) job list" where
  "createWithClaimRecord E jwtEncoded authIssuerId d =
     (case decodeAndVerifyJwt E jwtEncoded of
        Inl err \<Rightarrow> (Inl err, d, [])
      | Inr p \<Rightarrow>
          (case (case authIssuerId of
                   None \<Rightarrow> None
                 | Some a \<Rightarrow> if a \<noteq> [] \<and> pl_iss p \<noteq> a
                            then Some (IssuerMismatch a (pl_iss p)) else None) of
             Some err \<Rightarrow> (Inl err, d, [])
           | None \<Rightarrow>
            (case registrationByDid d (pl_iss p) of
               None \<Rightarrow> (Inl (ClientError UNREGISTERED_USER), d, [])
             | Some registered \<Rightarrow>
                 (let claimedCount = jwtCountByAfter d (pl_iss p) (startOfWeek E)
                  in if claimedCount \<ge> maxAllowedClaims E registered
                     then (Inl (ClientError OVER_CLAIM_LIMIT), d, [])
                     else
                       (let payloadClaim = extractClaim p
                        in if truthy payloadClaim
                           then
                             (case (if isEndorserRegistrationClaim E payloadClaim
                                    then registration_checks E d p registered else None) of
                                Some err \<Rightarrow> (Inl err, d, [])
                              | None \<Rightarrow>
                                  (let claimStr = canonicalize E payloadClaim;
                                       claimEncoded = base64url_encode E claimStr;
                                       jwtEntity = buildJwtEntity E d p payloadClaim claimStr
                                                     claimEncoded jwtEncoded;
                                       (jwtRowId, d1) = jwtInsert jwtEntity d;
                                       issuerDid = pl_iss p;
                                       (r, d2, ws) = createEmbeddedClaimRecords E (jwt_id jwtEntity)
                                                       issuerDid payloadClaim d1;
                                       d3 = (case r of
                                               Inl err \<Rightarrow>
                                                 log_msg (WarnErr err
                                                   ''Failed to create embedded claim records.'') d2
                                             | Inr u \<Rightarrow> d2)
                                   in (Inr (jwt_id jwtEntity), d3, ws)))
                           else (Inl NoClaimProperty,
                                 log_msg (Warn ''JWT received without a claim.'') d, []))))))"

section \<open>The confirmation target, in the words of the specification\<close>

text \<open>
  What a confirmation is about: a recorded action, tenure or organization role, or,
  for an untyped claim, the canonical form of the claim itself.
\<close>

datatype target = ActionTarget nat | TenureTarget nat | OrgRoleTarget nat | ClaimTarget string

text \<open>
  The record a claim names by its natural key: agent and event for an action, party and
  polygon for a tenure, organization, role, dates and member for a role. \<open>None\<close> when
  the key cannot be read from the claim or no such record is stored.
\<close>

definition spec_action_target :: "db \<Rightarrow> json \<Rightarrow> nat option" where
  "spec_action_target d c =
     (case (js_path c [''event'', ''organizer'', ''name''],
            js_path c [''event'', ''name''],
            js_path c [''event'', ''startTime''],
            js_path c [''agent'', ''did'']) of
        (Inr orgName, Inr name, Inr startTime, Inr agentDid) \<Rightarrow>
          (case eventsByParams d orgName name startTime of
             [] \<Rightarrow> None
           | event0 # others \<Rightarrow> actionClaimIdByDidEventId d agentDid (ev_id event0))
      | other \<Rightarrow> None)"

definition spec_tenure_target :: "db \<Rightarrow> json \<Rightarrow> nat option" where
  "spec_tenure_target d c =
     (case (js_path c [''party'', ''did''],
            js_path c [''spatialUnit'', ''geo'', ''polygon'']) of
        (Inr partyDid, Inr polygon) \<Rightarrow> tenureClaimIdByPartyAndGeoShape d partyDid polygon
      | other \<Rightarrow> None)"

definition spec_orgRole_target :: "db \<Rightarrow> json \<Rightarrow> nat option" where
  "spec_orgRole_target d c =
     (let member = js_prop c ''member''
      in orgRoleClaimIdByOrgAndDates d (js_prop c ''name'')
           (js_prop member ''roleName'') (js_prop member ''startDate'')
           (js_prop member ''endDate'') (js_prop (js_prop member ''member'') ''identifier''))"

text \<open>
  The target of a claim that carries its context: the recorded action, tenure or role
  when the claim is of that kind, the canonical claim when it is of none of the three.
\<close>

definition spec_confirmation_target :: "env \<Rightarrow> db \<Rightarrow> json \<Rightarrow> target option" where
  "spec_confirmation_target E d c =
     (let context = js_prop c ''@context'';
          type = js_prop c ''@type'';
          member = js_prop c ''member''
      in if isContextSchemaOrg context \<and> type = JStr ''JoinAction''
         then map_option ActionTarget (spec_action_target d c)
         else if context = JStr ''https://endorser.ch'' \<and> type = JStr ''Tenure''
         then map_option TenureTarget (spec_tenure_target d c)
         else if isContextSchemaOrg context \<and> type = JStr ''Organization''
                 \<and> truthy member
                 \<and> js_prop member ''@type'' = JStr ''OrganizationRole''
                 \<and> truthy (js_prop member ''member'')
                 \<and> truthy (js_prop (js_prop member ''member'') ''identifier'')
         then map_option OrgRoleTarget (spec_orgRole_target d c)
         else Some (ClaimTarget (canonicalize E c)))"

text \<open>The confirmation an issuer already has for a target, if any.\<close>

fun spec_existing_confirmation :: "db \<Rightarrow> string \<Rightarrow> target \<Rightarrow> confirmation_row option" where
  "spec_existing_confirmation d issuerDid (ActionTarget i) =
     find (\<lambda>c. cf_issuer c = issuerDid \<and> cf_actionRowId c = Some i) (confirmations d)"
| "spec_existing_confirmation d issuerDid (TenureTarget i) =
     find (\<lambda>c. cf_issuer c = issuerDid \<and> cf_tenureRowId c = Some i) (confirmations d)"
| "spec_existing_confirmation d issuerDid (OrgRoleTarget i) =
     find (\<lambda>c. cf_issuer c = issuerDid \<and> cf_orgRoleRowId c = Some i) (confirmations d)"
| "spec_existing_confirmation d issuerDid (ClaimTarget s) =
     find (\<lambda>c. cf_issuer c = issuerDid \<and> cf_origClaim c = s) (confirmations d)"

text \<open>The row a confirmation of a target is stored as, and the wording of the
  duplicate error for it.\<close>

fun spec_confirmation_row :: "nat \<Rightarrow> nat \<Rightarrow> string \<Rightarrow> string \<Rightarrow> target \<Rightarrow> confirmation_row" where
  "spec_confirmation_row i jwtId issuerDid s (ActionTarget a) =
     \<lparr>cf_id = i, cf_jwtId = jwtId, cf_issuer = issuerDid, cf_origClaim = s,
      cf_actionRowId = Some a, cf_tenureRowId = None, cf_orgRoleRowId = None\<rparr>"
| "spec_confirmation_row i jwtId issuerDid s (TenureTarget t) =
     \<lparr>cf_id = i, cf_jwtId = jwtId, cf_issuer = issuerDid, cf_origClaim = s,
      cf_actionRowId = None, cf_tenureRowId = Some t, cf_orgRoleRowId = None\<rparr>"
| "spec_confirmation_row i jwtId issuerDid s (OrgRoleTarget r) =
     \<lparr>cf_id = i, cf_jwtId = jwtId, cf_issuer = issuerDid, cf_origClaim = s,
      cf_actionRowId = None, cf_tenureRowId = None, cf_orgRoleRowId = Some r\<rparr>"
| "spec_confirmation_row i jwtId issuerDid s (ClaimTarget c) =
     \<lparr>cf_id = i, cf_jwtId = jwtId, cf_issuer = issuerDid, cf_origClaim = s,
      cf_actionRowId = None, cf_tenureRowId = None, cf_orgRoleRowId = None\<rparr>"

fun target_wording :: "target \<Rightarrow> string" where
  "target_wording (ActionTarget a) = ''an action''"
| "target_wording (TenureTarget t) = ''a tenure''"
| "target_wording (OrgRoleTarget r) = ''a orgRole''"
| "target_wording (ClaimTarget c) = ''a claim''"

section \<open>action.service.js: reading an action claim\<close>

text \<open>\<^verbatim>\<open>ActionService.byId(id)\<close> of \<^verbatim>\<open>src/server/api/services/action.service.js\<close>: the row the
  store gives, as it is. The method takes no requester; a second argument passed by a
  caller is ignored.\<close>

definition ActionService_byId :: "db \<Rightarrow> nat \<Rightarrow> action_row option" where
  "ActionService_byId d i = actionClaimById d i"

text \<open>
  \<^verbatim>\<open>ActionService.byId(id, requesterDid)\<close> of the variant of the service in
  \<^verbatim>\<open>src/unnamed/part_000\<close>. \<^verbatim>\<open>netCache\<close> maps a requester to the array of identities it
  sees; a cached array, even an empty one, is truthy. \<^verbatim>\<open>HIDDEN_TEXT\<close> is a constant of
  \<^verbatim>\<open>util.js\<close> and is a parameter here. The result is the row and the cache afterwards.
\<close>

definition ActionService_byId_part_000 ::
  "string \<Rightarrow> db \<Rightarrow> (string \<times> string list) list \<Rightarrow> nat \<Rightarrow> string
   \<Rightarrow> action_row option \<times> (string \<times> string list) list" where
  "ActionService_byId_part_000 HIDDEN_TEXT d netCache i requesterDid =
     (case actionClaimById d i of
        None \<Rightarrow> (None, netCache)
      | Some actionClaim \<Rightarrow>
          (let (objects, netCache') =
                 (case map_of netCache requesterDid of
                    Some objects \<Rightarrow> (objects, netCache)
                  | None \<Rightarrow> (getNetwork d requesterDid,
                             AList.update requesterDid (getNetwork d requesterDid) netCache))
           in (Some (if act_agentDid actionClaim \<notin> JStr ` set objects
                     then actionClaim\<lparr>act_agentDid := JStr HIDDEN_TEXT\<rparr>
                     else actionClaim),
               netCache')))"

section \<open>Example values for closed instances\<close>

text \<open>
  A stand-in for the libraries, used only to evaluate the services on concrete inputs:
  the serialisation writes the keys of an object in sorted order, the encoding is the
  identity,
  an identity is a string that starts with \<^verbatim>\<open>did:\<close>, and the digests are written out
  symbolically.
\<close>

fun example_canonicalize :: "json \<Rightarrow> string" where
  "example_canonicalize JUndefined = ''undefined''"
| "example_canonicalize JNull = ''null''"
| "example_canonicalize (JBool b) = (if b then ''true'' else ''false'')"
| "example_canonicalize (JNum n) = (if n = 0 then ''0'' else ''n'')"
| "example_canonicalize (JStr s) = CHR 0x22 # s @ [CHR 0x22]"
| "example_canonicalize (JArr xs) = ''['' @ concat (map example_canonicalize xs) @ '']''"
| "example_canonicalize (JObj kvs) =
     ''{'' @ concat (map (\<lambda>kv. fst kv @ '':'' @ snd kv @ '','')
                        (sort_key fst (map (\<lambda>kv. (fst kv, example_canonicalize (snd kv))) kvs)))
          @ ''}''"

definition example_env :: env where
  "example_env =
     \<lparr>SERVICE_ID = JStr ''endorser.ch'',
      DEFAULT_MAX_REGISTRATIONS_PER_MONTH = 10,
      DEFAULT_MAX_CLAIMS_PER_WEEK = 100,
      startOfWeek = 1000,
      startOfMonth = 500,
      nextWeekBegin = 605800,
      nextMonthBegin = 2592500,
      nowEpoch = 2000,
      canonicalize = example_canonicalize,
      base64url_encode = (\<lambda>s. s),
      decodeAndVerifyJwt = (\<lambda>jwt. Inl (ClientError JWT_VERIFY_FAILED)),
      calcBbox = (\<lambda>polygon. Inr (JNum 0, JNum 0, JNum 0, JNum 0)),
      isDid = (\<lambda>s. take 4 s = ''did:''),
      hashedClaimWithHashedDids = (\<lambda>r. ''h('' @ ic_claim r @ '')''),
      hashChain = foldl (\<lambda>prev r. ''H('' @ prev @ ''h('' @ ic_claim r @ ''))'')\<rparr>"

definition empty_db :: db where
  "empty_db =
     \<lparr>jwts = [], events = [], actions = [], tenures = [], orgRoles = [], votes = [],
      confirmations = [], registrations = [], network = [], logs = [], console = []\<rparr>"

definition example_registration :: "string \<Rightarrow> registration_row" where
  "example_registration did =
     \<lparr>rg_did = JStr did, rg_agent = JUndefined, rg_epoch = None, rg_jwtId = None,
      rg_maxRegs = None, rg_maxClaims = None\<rparr>"

definition example_jwt :: "nat \<Rightarrow> string \<Rightarrow> string \<Rightarrow> string option \<Rightarrow> string option \<Rightarrow> jwt_row" where
  "example_jwt i issuer c hashHex hashChainHex =
     \<lparr>jwt_id = i, jwt_issuedAt = 1500, jwt_issuer = issuer, jwt_claimContext = JUndefined,
      jwt_claimType = JUndefined, jwt_claim = c, jwt_claimEncoded = c, jwt_jwtEncoded = [],
      jwt_hashHex = hashHex, jwt_hashChainHex = hashChainHex\<rparr>"

definition example_chain_db :: db where
  "example_chain_db =
     empty_db\<lparr>jwts :=
       [example_jwt 1 ''did:a'' ''w'' (Some ''h(w)'') (Some ''c1''),
        example_jwt 2 ''did:a'' ''x'' None None,
        example_jwt 3 ''did:b'' ''y'' (Some ''h(y)'') None]\<rparr>"

definition example_action :: "nat \<Rightarrow> string \<Rightarrow> nat \<Rightarrow> action_row" where
  "example_action i agent eventId =
     \<lparr>act_id = i, act_jwtId = 1, act_issuerDid = ''did:c'', act_agentDid = JStr agent,
      act_eventRowId = eventId\<rparr>"

definition example_join_claim :: json where
  "example_join_claim =
     JObj [(''@type'', JStr ''JoinAction''),
           (''agent'', JObj [(''did'', JStr ''did:a'')]),
           (''event'', JObj [(''organizer'', JObj [(''name'', JStr ''Org'')]),
                            (''name'', JStr ''Meet''),
                            (''startTime'', JStr ''T'')])]"

definition example_event :: "nat \<Rightarrow> event_row" where
  "example_event i =
     \<lparr>ev_id = i, ev_orgName = JStr ''Org'', ev_name = JStr ''Meet'', ev_startTime = JStr ''T''\<rparr>"

definition example_event_db :: db where
  "example_event_db =
     empty_db\<lparr>events := [example_event 1], actions := [example_action 1 ''did:a'' 1]\<rparr>"

definition example_join_claim_explicit :: json where
  "example_join_claim_explicit =
     JObj [(''@type'', JStr ''JoinAction''),
           (''agent'', JObj [(''did'', JStr ''did:a'')]),
           (''event'', JObj [(''organizer'', JObj [(''name'', JStr ''Org'')]),
                            (''name'', JStr ''Meet''),
                            (''startTime'', JStr ''T'')]),
           (''@context'', JStr ''https://schema.org'')]"

definition example_confirmed_db :: db where
  "example_confirmed_db =
     example_event_db\<lparr>confirmations :=
       [\<lparr>cf_id = 1, cf_jwtId = 7, cf_issuer = ''did:b'',
         cf_origClaim = example_canonicalize example_join_claim_explicit,
         cf_actionRowId = Some 1, cf_tenureRowId = None, cf_orgRoleRowId = None\<rparr>]\<rparr>"

definition example_join_entries :: "(string \<times> json) list" where
  "example_join_entries =
     [(''@type'', JStr ''JoinAction''),
      (''agent'', JObj [(''did'', JStr ''did:a'')]),
      (''event'', JObj [(''organizer'', JObj [(''name'', JStr ''Org'')]),
                       (''name'', JStr ''Meet''),
                       (''startTime'', JStr ''T'')])]"

definition example_payload :: "string \<Rightarrow> json \<Rightarrow> payload" where
  "example_payload issuer c = \<lparr>pl_iss = issuer, pl_iat = 1500, pl_claim = c, pl_vc = JUndefined\<rparr>"

text \<open>An environment whose verifier accepts every token as the given payload.\<close>

definition example_env_accepting :: "payload \<Rightarrow> env" where
  "example_env_accepting p = example_env\<lparr>decodeAndVerifyJwt := (\<lambda>jwt. Inr p)\<rparr>"

definition example_limited_db :: "nat \<Rightarrow> db" where
  "example_limited_db n =
     example_chain_db\<lparr>registrations :=
       [(example_registration ''did:a'')\<lparr>rg_maxClaims := Some n\<rparr>]\<rparr>"

text \<open>A JoinAction claim that names an agent but no event: its typed record is refused.\<close>

definition example_join_claim_no_event :: json where
  "example_join_claim_no_event =
     JObj [(''@context'', JStr ''https://schema.org''),
           (''@type'', JStr ''JoinAction''),
           (''agent'', JObj [(''did'', JStr ''did:a'')])]"

definition example_registered_db :: db where
  "example_registered_db = empty_db\<lparr>registrations := [example_registration ''did:c'']\<rparr>"

text \<open>An AgreeAction claim that confirms the JoinAction claim, written without a context.\<close>

definition example_agree_claim :: json where
  "example_agree_claim =
     JObj [(''@context'', JStr ''https://schema.org''),
           (''@type'', JStr ''AgreeAction''),
           (''object'', example_join_claim)]"

text \<open>Array payloads: a JoinAction claim and a null element; the same JoinAction claim
  twice; the same AgreeAction claim twice.\<close>

definition example_join_and_null :: json where
  "example_join_and_null = JArr [example_join_claim_explicit, JNull]"

definition example_two_joins :: json where
  "example_two_joins = JArr [example_join_claim_explicit, example_join_claim_explicit]"

definition example_two_agrees :: json where
  "example_two_agrees = JArr [example_agree_claim, example_agree_claim]"

text \<open>A store that holds the event, the action of \<^verbatim>\<open>did:a\<close> at it, and two registered
  identities.\<close>

definition example_recorded_db :: db where
  "example_recorded_db =
     example_event_db\<lparr>registrations := [example_registration ''did:y'',
                                          example_registration ''did:b'']\<rparr>"

section \<open>Properties\<close>

subsection \<open>Rate-limit introspection against enforcement\<close>

lemma getRateLimits_registered:
  "registrationByDid d did = Some r \<Longrightarrow>
   \<exists>lim. getRateLimits E d did = Inr lim \<and>
         maxClaimsPerWeek lim = js_or (rg_maxClaims r) (DEFAULT_MAX_CLAIMS_PER_WEEK E) \<and>
         maxRegistrationsPerMonth lim =
           js_or (rg_maxRegs r) (DEFAULT_MAX_REGISTRATIONS_PER_MONTH E)"
  by (simp add: getRateLimits_def)

lemma js_or_agrees_iff:
  "js_or x dflt = (case x of None \<Rightarrow> dflt | Some n \<Rightarrow> n) \<longleftrightarrow> (x = Some 0 \<longrightarrow> dflt = 0)"
  by (auto simp: js_or_def split: option.splits)

text \<open>
  C9. The claim: for every registration row the weekly and monthly maximums that
  \<^verbatim>\<open>getRateLimits\<close> reports equal the maximums \<^verbatim>\<open>createWithClaimRecord\<close> enforces, including
  when the per-identity override is 0. Evaluated at a row whose two overrides are 0,
  with defaults 100 and 10 and nothing issued yet: \<^verbatim>\<open>getRateLimits\<close> reports 0 of 100
  claims and 0 of 10 registrations, while the enforced maximums are 0 and 0, so the
  next submission is rejected with \<^verbatim>\<open>OVER_CLAIM_LIMIT\<close> and a registration claim would be
  refused with \<^verbatim>\<open>OVER_REGISTRATION_LIMIT\<close>.
\<close>

theorem C9_getRateLimits_zero_override:
  "(let r = (example_registration ''did:c'')\<lparr>rg_maxClaims := Some 0, rg_maxRegs := Some 0\<rparr>;
        d = empty_db\<lparr>registrations := [r]\<rparr>;
        p = example_payload ''did:c'' example_join_claim_explicit;
        E = example_env_accepting p
    in registrationByDid d ''did:c'' = Some r \<and>
       map_sum id (\<lambda>lim. (doneClaimsThisWeek lim, maxClaimsPerWeek lim,
                           doneRegistrationsThisMonth lim, maxRegistrationsPerMonth lim))
         (getRateLimits E d ''did:c'') = Inr (0, 100, 0, 10) \<and>
       maxAllowedClaims E r = 0 \<and>
       maxAllowedRegs E r = 0 \<and>
       createWithClaimRecord E ''token'' None d = (Inl (ClientError OVER_CLAIM_LIMIT), d, []) \<and>
       registration_checks E d p r = Some (ClientError OVER_REGISTRATION_LIMIT))"
  by (simp add: getRateLimits_def registrationByDid_def example_registration_def empty_db_def
      example_env_accepting_def example_env_def example_payload_def js_or_def
      maxAllowedClaims_def maxAllowedRegs_def Let_def createWithClaimRecord_def
      registration_checks_def jwtCountByAfter_def registrationCountByAfter_def)

subsection \<open>The chain-rebuild pass\<close>

lemma merkle_updates_length: "length (merkle_updates E s rows) = length rows"
  by (induction rows arbitrary: s) (simp_all add: Let_def)

lemma merkle_updates_nth:
  "i < length rows \<Longrightarrow>
   merkle_updates E s rows ! i =
     \<lparr>mu_id = ic_id (rows ! i),
      mu_hashHex = (case ic_hashHex (rows ! i) of
                      None \<Rightarrow> hashedClaimWithHashedDids E (rows ! i) | Some h \<Rightarrow> h),
      mu_hashChainHex =
        hashChain E (if i = 0 then s else mu_hashChainHex (merkle_updates E s rows ! (i - 1)))
          [rows ! i]\<rparr>"
proof (induction rows arbitrary: s i)
  case Nil
  then show ?case by simp
next
  case (Cons r rows)
  show ?case
  proof (cases i)
    case 0
    then show ?thesis by (simp add: Let_def split: option.splits)
  next
    case (Suc k)
    with Cons.prems have k: "k < length rows" by simp
    show ?thesis
      using Cons.IH [OF k, of "hashChain E s [r]"] Suc
      by (cases k) (simp_all add: Let_def split: option.splits)
  qed
qed

lemma fst_merkleUnmerkled:
  "fst (merkleUnmerkled E d) =
     merkle_updates E (merkle_seed (jwtLastMerkleHash d)) (jwtClaimsAndIdsUnmerkled d)"
  by (simp add: merkleUnmerkled_def Let_def)

text \<open>
  C1. For every run of \<^verbatim>\<open>merkleUnmerkled\<close> over the stored rows that lack a chain value,
  in id order, from the seed (the last stored chain value, or the empty string): one
  call of \<^verbatim>\<open>jwtSetMerkleHash\<close> is made per row, and the chain value written for a row is
  the hash of the previous chain value followed by the row's content hash. A row
  stored with a null content hash gets the recomputed one written, and its chain value
  is the hash over that recomputed content hash; a stored content hash is written back
  as it is. \<^verbatim>\<open>hashChain\<close> and \<^verbatim>\<open>hashedClaimWithHashedDids\<close> are the helpers of \<^verbatim>\<open>util.js\<close>; the
  assumption is the contract of \<^verbatim>\<open>hashChain\<close> on one row: \<open>H\<close> of the previous value
  followed by the masked content hash of the row.
\<close>

theorem C1_merkleUnmerkled_chain:
  assumes link: "\<And>prev r. hashChain E prev [r] = H (prev @ hashedClaimWithHashedDids E r)"
  shows "let rows = jwtClaimsAndIdsUnmerkled d;
             seed = merkle_seed (jwtLastMerkleHash d);
             ups = fst (merkleUnmerkled E d)
         in length ups = length rows \<and>
            (\<forall>i<length rows.
               let prev = (if i = 0 then seed else mu_hashChainHex (ups ! (i - 1)));
                   contentHash = hashedClaimWithHashedDids E (rows ! i)
               in mu_id (ups ! i) = ic_id (rows ! i) \<and>
                  mu_hashChainHex (ups ! i) = H (prev @ contentHash) \<and>
                  (case ic_hashHex (rows ! i) of
                     None \<Rightarrow> mu_hashHex (ups ! i) = contentHash \<and>
                             mu_hashChainHex (ups ! i) = H (prev @ mu_hashHex (ups ! i))
                   | Some h \<Rightarrow> mu_hashHex (ups ! i) = h))"
proof -
  define rows where "rows = jwtClaimsAndIdsUnmerkled d"
  define seed where "seed = merkle_seed (jwtLastMerkleHash d)"
  define ups where "ups = merkle_updates E seed rows"
  have len: "length ups = length rows"
    by (simp add: ups_def merkle_updates_length)
  have step: "mu_id (ups ! i) = ic_id (rows ! i) \<and>
      mu_hashChainHex (ups ! i) =
        H ((if i = 0 then seed else mu_hashChainHex (ups ! (i - 1))) @
           hashedClaimWithHashedDids E (rows ! i)) \<and>
      (case ic_hashHex (rows ! i) of
         None \<Rightarrow> mu_hashHex (ups ! i) = hashedClaimWithHashedDids E (rows ! i) \<and>
                 mu_hashChainHex (ups ! i) =
                   H ((if i = 0 then seed else mu_hashChainHex (ups ! (i - 1))) @
                      mu_hashHex (ups ! i))
       | Some h \<Rightarrow> mu_hashHex (ups ! i) = h)"
    if i: "i < length rows" for i
  proof -
    have u: "ups ! i =
       \<lparr>mu_id = ic_id (rows ! i),
        mu_hashHex = (case ic_hashHex (rows ! i) of
                        None \<Rightarrow> hashedClaimWithHashedDids E (rows ! i) | Some h \<Rightarrow> h),
        mu_hashChainHex =
          hashChain E (if i = 0 then seed else mu_hashChainHex (ups ! (i - 1))) [rows ! i]\<rparr>"
      unfolding ups_def by (rule merkle_updates_nth [OF i])
    have a: "mu_id (ups ! i) = ic_id (rows ! i)"
      by (subst u) simp
    have b: "mu_hashChainHex (ups ! i) =
        H ((if i = 0 then seed else mu_hashChainHex (ups ! (i - 1))) @
           hashedClaimWithHashedDids E (rows ! i))"
      by (subst u) (simp add: link)
    have c: "mu_hashHex (ups ! i) =
        (case ic_hashHex (rows ! i) of
           None \<Rightarrow> hashedClaimWithHashedDids E (rows ! i) | Some h \<Rightarrow> h)"
      by (subst u) simp
    show ?thesis
      using a b c by (auto split: option.splits)
  qed
  show ?thesis
    unfolding fst_merkleUnmerkled Let_def rows_def [symmetric] seed_def [symmetric]
      ups_def [symmetric]
    using len step by blast
qed

theorem C1_merkleUnmerkled_chain_witness:
  "(\<forall>prev r. hashChain example_env prev [r] =
       ''H('' @ (prev @ hashedClaimWithHashedDids example_env r) @ '')'') \<and>
   jwtClaimsAndIdsUnmerkled example_chain_db =
     [\<lparr>ic_id = 2, ic_claim = ''x'', ic_hashHex = None\<rparr>,
      \<lparr>ic_id = 3, ic_claim = ''y'', ic_hashHex = Some ''h(y)''\<rparr>] \<and>
   merkle_seed (jwtLastMerkleHash example_chain_db) = ''c1'' \<and>
   fst (merkleUnmerkled example_env example_chain_db) =
     [\<lparr>mu_id = 2, mu_hashHex = ''h(x)'', mu_hashChainHex = ''H(c1h(x))''\<rparr>,
      \<lparr>mu_id = 3, mu_hashHex = ''h(y)'', mu_hashChainHex = ''H(H(c1h(x))h(y))''\<rparr>]"
proof -
  have link: "\<And>prev r. hashChain example_env prev [r] =
       (\<lambda>s. ''H('' @ s @ '')'') (prev @ hashedClaimWithHashedDids example_env r)"
    by (simp add: example_env_def)
  have rows: "jwtClaimsAndIdsUnmerkled example_chain_db =
      [\<lparr>ic_id = 2, ic_claim = ''x'', ic_hashHex = None\<rparr>,
       \<lparr>ic_id = 3, ic_claim = ''y'', ic_hashHex = Some ''h(y)''\<rparr>]"
    by (simp add: jwtClaimsAndIdsUnmerkled_def example_chain_db_def empty_db_def example_jwt_def)
  have seed: "merkle_seed (jwtLastMerkleHash example_chain_db) = ''c1''"
    by (simp add: jwtLastMerkleHash_def merkle_seed_def example_chain_db_def empty_db_def
        example_jwt_def List.map_filter_def)
  have ups: "fst (merkleUnmerkled example_env example_chain_db) =
     [\<lparr>mu_id = 2, mu_hashHex = ''h(x)'', mu_hashChainHex = ''H(c1h(x))''\<rparr>,
      \<lparr>mu_id = 3, mu_hashHex = ''h(y)'', mu_hashChainHex = ''H(H(c1h(x))h(y))''\<rparr>]"
    by (simp add: fst_merkleUnmerkled rows seed Let_def example_env_def)
  show ?thesis
    using link rows seed ups
      C1_merkleUnmerkled_chain [where E = example_env and H = "\<lambda>s. ''H('' @ s @ '')''"
        and d = example_chain_db, OF link]
    by simp
qed

subsection \<open>Reading an action claim\<close>

text \<open>
  C6, as amended. Where the stored action exists: \<^verbatim>\<open>byId(id)\<close> of \<^verbatim>\<open>action.service.js\<close> returns
  the stored row unmodified, whoever asks; \<^verbatim>\<open>byId(id, requesterDid)\<close> of the variant in
  \<^verbatim>\<open>part_000\<close> returns the row, never omits it, and replaces the agent identity by
  \<^verbatim>\<open>HIDDEN_TEXT\<close> exactly when the agent is not in the requester's visible set (the cached
  array, or the stored network when nothing is cached), leaving the other fields as
  they are.
\<close>

theorem C6_byId_redaction:
  assumes "actionClaimById d i = Some a"
  shows "ActionService_byId d i = Some a \<and>
         (let visible = (case map_of netCache requesterDid of
                           Some objects \<Rightarrow> objects
                         | None \<Rightarrow> getNetwork d requesterDid)
          in fst (ActionService_byId_part_000 HIDDEN_TEXT d netCache i requesterDid) =
               Some (if act_agentDid a \<in> JStr ` set visible then a
                     else a\<lparr>act_agentDid := JStr HIDDEN_TEXT\<rparr>))"
  using assms
  by (simp add: ActionService_byId_def ActionService_byId_part_000_def Let_def
      split: option.splits)

theorem C6_byId_redaction_witness:
  "actionClaimById (empty_db\<lparr>actions := [example_action 1 ''did:a'' 1]\<rparr>) 1 =
     Some (example_action 1 ''did:a'' 1) \<and>
   getNetwork (empty_db\<lparr>actions := [example_action 1 ''did:a'' 1]\<rparr>) ''did:r'' = [] \<and>
   ActionService_byId (empty_db\<lparr>actions := [example_action 1 ''did:a'' 1]\<rparr>) 1 =
     Some (example_action 1 ''did:a'' 1) \<and>
   fst (ActionService_byId_part_000 ''HIDDEN''
          (empty_db\<lparr>actions := [example_action 1 ''did:a'' 1]\<rparr>) [] 1 ''did:r'') =
     Some ((example_action 1 ''did:a'' 1)\<lparr>act_agentDid := JStr ''HIDDEN''\<rparr>) \<and>
   fst (ActionService_byId_part_000 ''HIDDEN''
          (empty_db\<lparr>actions := [example_action 1 ''did:a'' 1]\<rparr>) [(''did:r'', [''did:a''])]
          1 ''did:r'') =
     Some (example_action 1 ''did:a'' 1)"
proof -
  have a: "actionClaimById (empty_db\<lparr>actions := [example_action 1 ''did:a'' 1]\<rparr>) 1 =
     Some (example_action 1 ''did:a'' 1)"
    by (simp add: actionClaimById_def empty_db_def example_action_def)
  have n: "getNetwork (empty_db\<lparr>actions := [example_action 1 ''did:a'' 1]\<rparr>) ''did:r'' = []"
    by (simp add: getNetwork_def empty_db_def)
  show ?thesis
    using a n
      C6_byId_redaction [OF a, where netCache = "[]" and requesterDid = "''did:r''"
        and HIDDEN_TEXT = "''HIDDEN''"]
      C6_byId_redaction [OF a, where netCache = "[(''did:r'', [''did:a''])]"
        and requesterDid = "''did:r''" and HIDDEN_TEXT = "''HIDDEN''"]
    by (simp add: example_action_def)
qed

text \<open>
  C6 as stated fails on \<^verbatim>\<open>action.service.js\<close>: the agent \<^verbatim>\<open>did:a\<close> is not in the visible set of
  the requester \<^verbatim>\<open>did:r\<close>, and \<^verbatim>\<open>byId\<close> returns the row with the agent identity in it.
\<close>

theorem C6_byId_counterexample:
  "act_agentDid (example_action 1 ''did:a'' 1) \<notin>
     JStr ` set (getNetwork (empty_db\<lparr>actions := [example_action 1 ''did:a'' 1]\<rparr>) ''did:r'') \<and>
   ActionService_byId (empty_db\<lparr>actions := [example_action 1 ''did:a'' 1]\<rparr>) 1 =
     Some (example_action 1 ''did:a'' 1) \<and>
   act_agentDid (example_action 1 ''did:a'' 1) = JStr ''did:a''"
  by (simp add: ActionService_byId_def actionClaimById_def getNetwork_def empty_db_def
      example_action_def)

subsection \<open>Confirmations: duplicate or insert\<close>

lemma fold_max_ge: "x \<in> set ids \<Longrightarrow> x \<le> fold max ids (m::nat)"
proof (induction ids arbitrary: m)
  case Nil
  then show ?case by simp
next
  case (Cons a ids)
  have mono: "m \<le> fold max ids m" for m
    by (induction ids arbitrary: m) (auto intro: order_trans [OF max.cobounded2])
  from Cons show ?case
    by (auto intro: order_trans [OF max.cobounded1 mono])
qed

lemma next_id_fresh: "next_id ids \<notin> set ids"
  using fold_max_ge [of "next_id ids" ids 0] by (auto simp: next_id_def)

lemma next_id_pos: "0 < next_id ids"
  by (simp add: next_id_def)

lemma spec_action_targetE:
  assumes "spec_action_target d c = Some a"
  obtains orgName name startTime agentDid event0 others where
    "js_path c [''event'', ''organizer'', ''name''] = Inr orgName"
    "js_path c [''event'', ''name''] = Inr name"
    "js_path c [''event'', ''startTime''] = Inr startTime"
    "js_path c [''agent'', ''did''] = Inr agentDid"
    "eventsByParams d orgName name startTime = event0 # others"
    "actionClaimIdByDidEventId d agentDid (ev_id event0) = Some a"
  using assms unfolding spec_action_target_def
  by (auto split: sum.splits list.splits)

lemma spec_tenure_targetE:
  assumes "spec_tenure_target d c = Some a"
  obtains partyDid polygon where
    "js_path c [''party'', ''did''] = Inr partyDid"
    "js_path c [''spatialUnit'', ''geo'', ''polygon''] = Inr polygon"
    "tenureClaimIdByPartyAndGeoShape d partyDid polygon = Some a"
  using assms unfolding spec_tenure_target_def
  by (auto split: sum.splits)

lemma JoinAction_existing:
  assumes "spec_action_target d c = Some a"
      and "spec_existing_confirmation d issuerDid (ActionTarget a) = Some existing"
  shows "createOneConfirmation_JoinAction E jwtId issuerDid c d =
           (Inl (AlreadyConfirmed ''an action'' (cf_id existing)), d)"
proof -
  from assms(1) obtain orgName name startTime agentDid event0 others where
    "js_path c [''event'', ''organizer'', ''name''] = Inr orgName"
    "js_path c [''event'', ''name''] = Inr name"
    "js_path c [''event'', ''startTime''] = Inr startTime"
    "js_path c [''agent'', ''did''] = Inr agentDid"
    "eventsByParams d orgName name startTime = event0 # others"
    "actionClaimIdByDidEventId d agentDid (ev_id event0) = Some a"
    by (rule spec_action_targetE)
  with assms(2) show ?thesis
    by (simp add: createOneConfirmation_JoinAction_def confirmationByIssuerAndAction_def)
qed

lemma JoinAction_fresh:
  assumes "spec_action_target d c = Some a"
      and "spec_existing_confirmation d issuerDid (ActionTarget a) = None"
  shows "createOneConfirmation_JoinAction E jwtId issuerDid c d =
           (Inr \<lparr>confirmId = next_id (map cf_id (confirmations d)), actionClaimId = Some a,
                  tenureClaimId = None, orgRoleClaimId = None\<rparr>,
            d\<lparr>confirmations := confirmations d @
                 [spec_confirmation_row (next_id (map cf_id (confirmations d))) jwtId issuerDid
                    (canonicalize E c) (ActionTarget a)]\<rparr>)"
proof -
  from assms(1) obtain orgName name startTime agentDid event0 others where
    "js_path c [''event'', ''organizer'', ''name''] = Inr orgName"
    "js_path c [''event'', ''name''] = Inr name"
    "js_path c [''event'', ''startTime''] = Inr startTime"
    "js_path c [''agent'', ''did''] = Inr agentDid"
    "eventsByParams d orgName name startTime = event0 # others"
    "actionClaimIdByDidEventId d agentDid (ev_id event0) = Some a"
    by (rule spec_action_targetE)
  with assms(2) show ?thesis
    by (simp add: createOneConfirmation_JoinAction_def confirmationByIssuerAndAction_def
       confirmationInsert_def Let_def)
qed

lemma Tenure_existing:
  assumes "spec_tenure_target d c = Some a"
      and "spec_existing_confirmation d issuerDid (TenureTarget a) = Some existing"
  shows "createOneConfirmation_Tenure E jwtId issuerDid c d =
           (Inl (AlreadyConfirmed ''a tenure'' (cf_id existing)), d)"
proof -
  from assms(1) obtain partyDid polygon where
    "js_path c [''party'', ''did''] = Inr partyDid"
    "js_path c [''spatialUnit'', ''geo'', ''polygon''] = Inr polygon"
    "tenureClaimIdByPartyAndGeoShape d partyDid polygon = Some a"
    by (rule spec_tenure_targetE)
  with assms(2) show ?thesis
    by (simp add: createOneConfirmation_Tenure_def confirmationByIssuerAndTenure_def)
qed

lemma Tenure_fresh:
  assumes "spec_tenure_target d c = Some a"
      and "spec_existing_confirmation d issuerDid (TenureTarget a) = None"
  shows "createOneConfirmation_Tenure E jwtId issuerDid c d =
           (Inr \<lparr>confirmId = next_id (map cf_id (confirmations d)), actionClaimId = None,
                  tenureClaimId = Some a, orgRoleClaimId = None\<rparr>,
            d\<lparr>confirmations := confirmations d @
                 [spec_confirmation_row (next_id (map cf_id (confirmations d))) jwtId issuerDid
                    (canonicalize E c) (TenureTarget a)]\<rparr>)"
proof -
  from assms(1) obtain partyDid polygon where
    "js_path c [''party'', ''did''] = Inr partyDid"
    "js_path c [''spatialUnit'', ''geo'', ''polygon''] = Inr polygon"
    "tenureClaimIdByPartyAndGeoShape d partyDid polygon = Some a"
    by (rule spec_tenure_targetE)
  with assms(2) show ?thesis
    by (simp add: createOneConfirmation_Tenure_def confirmationByIssuerAndTenure_def
       confirmationInsert_def Let_def)
qed

lemma OrgRole_existing:
  assumes "spec_orgRole_target d c = Some a"
      and "spec_existing_confirmation d issuerDid (OrgRoleTarget a) = Some existing"
  shows "createOneConfirmation_OrgRole E jwtId issuerDid c d =
           (Inl (AlreadyConfirmed ''a orgRole'' (cf_id existing)), d)"
  using assms
  by (simp add: createOneConfirmation_OrgRole_def confirmationByIssuerAndOrgRole_def
      spec_orgRole_target_def Let_def)

lemma OrgRole_fresh:
  assumes "spec_orgRole_target d c = Some a"
      and "spec_existing_confirmation d issuerDid (OrgRoleTarget a) = None"
  shows "createOneConfirmation_OrgRole E jwtId issuerDid c d =
           (Inr \<lparr>confirmId = next_id (map cf_id (confirmations d)), actionClaimId = None,
                  tenureClaimId = None, orgRoleClaimId = Some a\<rparr>,
            d\<lparr>confirmations := confirmations d @
                 [spec_confirmation_row (next_id (map cf_id (confirmations d))) jwtId issuerDid
                    (canonicalize E c) (OrgRoleTarget a)]\<rparr>)"
  using assms
  by (simp add: createOneConfirmation_OrgRole_def confirmationByIssuerAndOrgRole_def
      spec_orgRole_target_def confirmationInsert_def Let_def)

lemma generic_existing:
  assumes "spec_existing_confirmation d issuerDid (ClaimTarget (canonicalize E c)) = Some existing"
  shows "createOneConfirmation_generic E jwtId issuerDid c d =
           (Inl (AlreadyConfirmed ''a claim'' (cf_id existing)), d)"
  using assms
  by (simp add: createOneConfirmation_generic_def confirmationByIssuerAndOrigClaim_def)

lemma generic_fresh:
  assumes "spec_existing_confirmation d issuerDid (ClaimTarget (canonicalize E c)) = None"
  shows "createOneConfirmation_generic E jwtId issuerDid c d =
           (Inr \<lparr>confirmId = next_id (map cf_id (confirmations d)), actionClaimId = None,
                  tenureClaimId = None, orgRoleClaimId = None\<rparr>,
            d\<lparr>confirmations := confirmations d @
                 [spec_confirmation_row (next_id (map cf_id (confirmations d))) jwtId issuerDid
                    (canonicalize E c) (ClaimTarget (canonicalize E c))]\<rparr>)"
  using assms
  by (simp add: createOneConfirmation_generic_def confirmationByIssuerAndOrigClaim_def
      confirmationInsert_def Let_def)

lemma dispatch_cases:
  fixes c :: json
  defines "ctx \<equiv> js_prop c ''@context''" and "ty \<equiv> js_prop c ''@type''"
    and "m \<equiv> js_prop c ''member''"
  obtains
    (join) "isContextSchemaOrg ctx \<and> ty = JStr ''JoinAction''"
      "\<And>E jwtId issuerDid d. createOneConfirmation_dispatch E jwtId issuerDid c d =
         createOneConfirmation_JoinAction E jwtId issuerDid c d"
      "\<And>E d. spec_confirmation_target E d c = map_option ActionTarget (spec_action_target d c)"
  | (tenure)
      "\<And>E jwtId issuerDid d. createOneConfirmation_dispatch E jwtId issuerDid c d =
         createOneConfirmation_Tenure E jwtId issuerDid c d"
      "\<And>E d. spec_confirmation_target E d c = map_option TenureTarget (spec_tenure_target d c)"
  | (org)
      "\<And>E jwtId issuerDid d. createOneConfirmation_dispatch E jwtId issuerDid c d =
         createOneConfirmation_OrgRole E jwtId issuerDid c d"
      "\<And>E d. spec_confirmation_target E d c = map_option OrgRoleTarget (spec_orgRole_target d c)"
  | (generic)
      "\<And>E jwtId issuerDid d. createOneConfirmation_dispatch E jwtId issuerDid c d =
         createOneConfirmation_generic E jwtId issuerDid c d"
      "\<And>E d. spec_confirmation_target E d c = Some (ClaimTarget (canonicalize E c))"
proof -
  define A where "A \<longleftrightarrow> isContextSchemaOrg ctx \<and> ty = JStr ''JoinAction''"
  define B where "B \<longleftrightarrow> ctx = JStr ''https://endorser.ch'' \<and> ty = JStr ''Tenure''"
  define C where "C \<longleftrightarrow> isContextSchemaOrg ctx \<and> ty = JStr ''Organization'' \<and> truthy m
           \<and> js_prop m ''@type'' = JStr ''OrganizationRole''
           \<and> truthy (js_prop m ''member'')
           \<and> truthy (js_prop (js_prop m ''member'') ''identifier'')"
  have disp: "createOneConfirmation_dispatch E jwtId issuerDid c d =
      (if A then createOneConfirmation_JoinAction E jwtId issuerDid c d
       else if B then createOneConfirmation_Tenure E jwtId issuerDid c d
       else if C then createOneConfirmation_OrgRole E jwtId issuerDid c d
       else createOneConfirmation_generic E jwtId issuerDid c d)" for E jwtId issuerDid d
    unfolding createOneConfirmation_dispatch_def Let_def A_def B_def C_def ctx_def ty_def m_def
    by (rule refl)
  have spec: "spec_confirmation_target E d c =
      (if A then map_option ActionTarget (spec_action_target d c)
       else if B then map_option TenureTarget (spec_tenure_target d c)
       else if C then map_option OrgRoleTarget (spec_orgRole_target d c)
       else Some (ClaimTarget (canonicalize E c)))" for E d
    unfolding spec_confirmation_target_def Let_def A_def B_def C_def ctx_def ty_def m_def
    by (rule refl)
  show thesis
  proof (cases A)
    case True
    show thesis
      using True by (intro join) (simp_all add: disp spec A_def)
  next
    case nA: False
    show thesis
    proof (cases B)
      case True
      show thesis by (rule tenure) (simp_all add: disp spec nA True)
    next
      case nB: False
      show thesis
      proof (cases C)
        case True
        show thesis by (rule org) (simp_all add: disp spec nA nB True)
      next
        case False
        show thesis by (rule generic) (simp_all add: disp spec nA nB False)
      qed
    qed
  qed
qed

lemma dispatch_existing:
  assumes tgt: "spec_confirmation_target E d c = Some t"
      and ex: "spec_existing_confirmation d issuerDid t = Some existing"
  shows "createOneConfirmation_dispatch E jwtId issuerDid c d =
           (Inl (AlreadyConfirmed (target_wording t) (cf_id existing)), d)"
proof (cases c rule: dispatch_cases)
  case join
  from tgt join(3) obtain a where a: "spec_action_target d c = Some a" "t = ActionTarget a"
    by auto
  show ?thesis
    using JoinAction_existing [OF a(1) ex [unfolded a(2)]] a(2) by (simp add: join(2))
next
  case tenure
  from tgt tenure(2) obtain a where a: "spec_tenure_target d c = Some a" "t = TenureTarget a"
    by auto
  show ?thesis
    using Tenure_existing [OF a(1) ex [unfolded a(2)]] a(2) by (simp add: tenure(1))
next
  case org
  from tgt org(2) obtain a where a: "spec_orgRole_target d c = Some a" "t = OrgRoleTarget a"
    by auto
  show ?thesis
    using OrgRole_existing [OF a(1) ex [unfolded a(2)]] a(2) by (simp add: org(1))
next
  case generic
  from tgt generic(2) have a: "t = ClaimTarget (canonicalize E c)"
    by auto
  show ?thesis
    using generic_existing [OF ex [unfolded a]] a by (simp add: generic(1))
qed

lemma dispatch_fresh:
  assumes tgt: "spec_confirmation_target E d c = Some t"
      and ex: "spec_existing_confirmation d issuerDid t = None"
  shows "\<exists>r. createOneConfirmation_dispatch E jwtId issuerDid c d =
           (Inr r, d\<lparr>confirmations := confirmations d @
                      [spec_confirmation_row (confirmId r) jwtId issuerDid (canonicalize E c) t]\<rparr>)
         \<and> confirmId r = next_id (map cf_id (confirmations d))"
proof (cases c rule: dispatch_cases)
  case join
  from tgt join(3) obtain a where a: "spec_action_target d c = Some a" "t = ActionTarget a"
    by auto
  show ?thesis
    using JoinAction_fresh [OF a(1) ex [unfolded a(2)]] a(2) by (simp add: join(2))
next
  case tenure
  from tgt tenure(2) obtain a where a: "spec_tenure_target d c = Some a" "t = TenureTarget a"
    by auto
  show ?thesis
    using Tenure_fresh [OF a(1) ex [unfolded a(2)]] a(2) by (simp add: tenure(1))
next
  case org
  from tgt org(2) obtain a where a: "spec_orgRole_target d c = Some a" "t = OrgRoleTarget a"
    by auto
  show ?thesis
    using OrgRole_fresh [OF a(1) ex [unfolded a(2)]] a(2) by (simp add: org(1))
next
  case generic
  from tgt generic(2) have a: "t = ClaimTarget (canonicalize E c)"
    by auto
  show ?thesis
    using generic_fresh [OF ex [unfolded a]] a by (simp add: generic(1))
qed

text \<open>
  C3. For a claim that comes through the context default as \<open>c\<close> and whose target \<open>t\<close> is
  recorded: when the issuer already has a confirmation for \<open>t\<close>, \<^verbatim>\<open>createOneConfirmation\<close>
  rejects with the error that names the id of that confirmation and leaves the state
  as it was, so no row is inserted; when the issuer has none, it appends exactly one
  confirmation row for \<open>t\<close>, changes nothing else, and resolves to an object whose
  \<^verbatim>\<open>confirmId\<close> is the id of that row, an id no stored confirmation had.
\<close>

theorem C3_createOneConfirmation_duplicate_or_insert:
  assumes ctx: "createOneConfirmation_context origClaim = Inr c"
      and tgt: "spec_confirmation_target E d c = Some t"
  shows "case spec_existing_confirmation d issuerDid t of
           Some existing \<Rightarrow>
             createOneConfirmation E jwtId issuerDid origClaim d =
               (Inl (AlreadyConfirmed (target_wording t) (cf_id existing)), c, d)
         | None \<Rightarrow>
             (\<exists>r. createOneConfirmation E jwtId issuerDid origClaim d =
                    (Inr r, c,
                     d\<lparr>confirmations := confirmations d @
                         [spec_confirmation_row (confirmId r) jwtId issuerDid
                            (canonicalize E c) t]\<rparr>)
                  \<and> confirmId r \<notin> cf_id ` set (confirmations d))"
proof (cases "spec_existing_confirmation d issuerDid t")
  case None
  from dispatch_fresh [OF tgt None, of jwtId] obtain r where
    r: "createOneConfirmation_dispatch E jwtId issuerDid c d =
           (Inr r, d\<lparr>confirmations := confirmations d @
                      [spec_confirmation_row (confirmId r) jwtId issuerDid (canonicalize E c) t]\<rparr>)"
       "confirmId r = next_id (map cf_id (confirmations d))"
    by blast
  have "confirmId r \<notin> cf_id ` set (confirmations d)"
    using next_id_fresh [of "map cf_id (confirmations d)"] r(2) by simp
  with r(1) None ctx show ?thesis
    by (auto simp: createOneConfirmation_def)
next
  case (Some existing)
  with dispatch_existing [OF tgt Some, of jwtId] ctx show ?thesis
    by (simp add: createOneConfirmation_def)
qed

lemma example_context:
  "createOneConfirmation_context example_join_claim = Inr example_join_claim_explicit"
  by (simp add: createOneConfirmation_context_def example_join_claim_def
      example_join_claim_explicit_def)

lemma example_explicit_props:
  "js_prop example_join_claim_explicit ''@context'' = JStr ''https://schema.org''"
  "js_prop example_join_claim_explicit ''@type'' = JStr ''JoinAction''"
  "js_path example_join_claim_explicit [''event'', ''organizer'', ''name''] = Inr (JStr ''Org'')"
  "js_path example_join_claim_explicit [''event'', ''name''] = Inr (JStr ''Meet'')"
  "js_path example_join_claim_explicit [''event'', ''startTime''] = Inr (JStr ''T'')"
  "js_path example_join_claim_explicit [''agent'', ''did''] = Inr (JStr ''did:a'')"
  by (simp_all add: example_join_claim_explicit_def js_prop_def)

lemma example_target:
  "spec_confirmation_target E example_event_db example_join_claim_explicit = Some (ActionTarget 1)"
  "spec_confirmation_target E example_confirmed_db example_join_claim_explicit = Some (ActionTarget 1)"
  by (simp_all add: spec_confirmation_target_def spec_action_target_def
      example_join_claim_explicit_def js_prop_def
      isContextSchemaOrg_def eventsByParams_def actionClaimIdByDidEventId_def
      example_event_db_def example_confirmed_db_def example_event_def example_action_def
      empty_db_def)

lemma example_fresh_confirmation:
  "createOneConfirmation example_env 7 ''did:b'' example_join_claim example_event_db =
     (Inr \<lparr>confirmId = 1, actionClaimId = Some 1, tenureClaimId = None, orgRoleClaimId = None\<rparr>,
      example_join_claim_explicit, example_confirmed_db)"
  by (simp add: createOneConfirmation_def example_context
      createOneConfirmation_dispatch_def createOneConfirmation_JoinAction_def
      isContextSchemaOrg_def js_prop_def eventsByParams_def actionClaimIdByDidEventId_def
      confirmationByIssuerAndAction_def confirmationInsert_def next_id_def example_env_def
      example_join_claim_explicit_def example_confirmed_db_def example_event_db_def
      example_event_def example_action_def empty_db_def)

theorem C3_createOneConfirmation_duplicate_or_insert_witness:
  "createOneConfirmation_context example_join_claim = Inr example_join_claim_explicit \<and>
   spec_confirmation_target example_env example_event_db example_join_claim_explicit =
     Some (ActionTarget 1) \<and>
   spec_existing_confirmation example_event_db ''did:b'' (ActionTarget 1) = None \<and>
   createOneConfirmation example_env 7 ''did:b'' example_join_claim example_event_db =
     (Inr \<lparr>confirmId = 1, actionClaimId = Some 1, tenureClaimId = None, orgRoleClaimId = None\<rparr>,
      example_join_claim_explicit, example_confirmed_db) \<and>
   spec_confirmation_target example_env example_confirmed_db example_join_claim_explicit =
     Some (ActionTarget 1) \<and>
   map_option cf_id (spec_existing_confirmation example_confirmed_db ''did:b'' (ActionTarget 1)) =
     Some 1 \<and>
   createOneConfirmation example_env 8 ''did:b'' example_join_claim example_confirmed_db =
     (Inl (AlreadyConfirmed ''an action'' 1), example_join_claim_explicit, example_confirmed_db)"
proof -
  have none: "spec_existing_confirmation example_event_db ''did:b'' (ActionTarget 1) = None"
    by (simp add: example_event_db_def empty_db_def)
  have some: "spec_existing_confirmation example_confirmed_db ''did:b'' (ActionTarget 1) =
      Some \<lparr>cf_id = 1, cf_jwtId = 7, cf_issuer = ''did:b'',
         cf_origClaim = example_canonicalize example_join_claim_explicit,
         cf_actionRowId = Some 1, cf_tenureRowId = None, cf_orgRoleRowId = None\<rparr>"
    by (simp add: example_confirmed_db_def example_event_db_def empty_db_def)
  have canon: "canonicalize example_env = example_canonicalize"
    by (simp add: example_env_def)
  have fresh: "createOneConfirmation example_env 7 ''did:b'' example_join_claim example_event_db =
     (Inr \<lparr>confirmId = 1, actionClaimId = Some 1, tenureClaimId = None, orgRoleClaimId = None\<rparr>,
      example_join_claim_explicit, example_confirmed_db)"
    using C3_createOneConfirmation_duplicate_or_insert
      [OF example_context example_target(1), where E = example_env and issuerDid = "''did:b''"
        and jwtId = 7]
    by (simp add: example_fresh_confirmation)
  have dup: "createOneConfirmation example_env 8 ''did:b'' example_join_claim example_confirmed_db =
     (Inl (AlreadyConfirmed ''an action'' 1), example_join_claim_explicit, example_confirmed_db)"
    using C3_createOneConfirmation_duplicate_or_insert
      [OF example_context example_target(2), where E = example_env and issuerDid = "''did:b''"
        and jwtId = 8, unfolded some]
    by simp
  show ?thesis
    using example_context example_target none some fresh dup by simp
qed

subsection \<open>The context default\<close>

lemma dispatch_same_entries:
  assumes entries: "map_of kvs' = map_of kvs"
      and canon: "canonicalize E (JObj kvs') = canonicalize E (JObj kvs)"
  shows "createOneConfirmation_dispatch E jwtId issuerDid (JObj kvs') d =
         createOneConfirmation_dispatch E jwtId issuerDid (JObj kvs) d"
proof -
  have get_eq: "js_get (JObj kvs') k = js_get (JObj kvs) k" for k
    by (simp add: entries)
  have prop_eq: "js_prop (JObj kvs') k = js_prop (JObj kvs) k" for k
    unfolding js_prop_def get_eq by (rule refl)
  have path_eq: "js_path (JObj kvs') (k # ks) = js_path (JObj kvs) (k # ks)" for k ks
    by (simp only: js_path.simps get_eq)
  have "createOneConfirmation_JoinAction E jwtId issuerDid (JObj kvs') d =
        createOneConfirmation_JoinAction E jwtId issuerDid (JObj kvs) d"
    unfolding createOneConfirmation_JoinAction_def path_eq canon by (rule refl)
  moreover have "createOneConfirmation_Tenure E jwtId issuerDid (JObj kvs') d =
        createOneConfirmation_Tenure E jwtId issuerDid (JObj kvs) d"
    unfolding createOneConfirmation_Tenure_def path_eq canon by (rule refl)
  moreover have "createOneConfirmation_OrgRole E jwtId issuerDid (JObj kvs') d =
        createOneConfirmation_OrgRole E jwtId issuerDid (JObj kvs) d"
    unfolding createOneConfirmation_OrgRole_def prop_eq canon by (rule refl)
  moreover have "createOneConfirmation_generic E jwtId issuerDid (JObj kvs') d =
        createOneConfirmation_generic E jwtId issuerDid (JObj kvs) d"
    unfolding createOneConfirmation_generic_def confirmationByIssuerAndOrigClaim_def canon
    by (rule refl)
  ultimately show ?thesis
    unfolding createOneConfirmation_dispatch_def prop_eq by (simp only:)
qed

text \<open>A call that resolves has appended one Confirmation row, and the claim stored in it
  is the canonical form of the claim object the branches were given.\<close>

lemma dispatch_resolved:
  assumes "createOneConfirmation_dispatch E jwtId issuerDid c d = (Inr r, d')"
  shows "map cf_origClaim (confirmations d') =
         map cf_origClaim (confirmations d) @ [canonicalize E c]"
proof (cases c rule: dispatch_cases)
  case join
  from assms [unfolded join(2)] show ?thesis
    by (auto simp: createOneConfirmation_JoinAction_def confirmationInsert_def Let_def
        split: sum.splits list.splits option.splits)
next
  case tenure
  from assms [unfolded tenure(1)] show ?thesis
    by (auto simp: createOneConfirmation_Tenure_def confirmationInsert_def Let_def
        split: sum.splits list.splits option.splits)
next
  case org
  from assms [unfolded org(1)] show ?thesis
    by (auto simp: createOneConfirmation_OrgRole_def confirmationInsert_def Let_def
        split: sum.splits list.splits option.splits)
next
  case generic
  from assms [unfolded generic(1)] show ?thesis
    by (auto simp: createOneConfirmation_generic_def confirmationInsert_def Let_def
        split: sum.splits list.splits option.splits)
qed

text \<open>
  C10. An original claim object whose \<^verbatim>\<open>@context\<close> is null or absent is given the context
  \<^verbatim>\<open>https://schema.org\<close> before anything else is done with it. \<^verbatim>\<open>createOneConfirmation\<close>
  on such an object \<open>JObj kvs\<close>

  \<^item> leaves the object mutated: it has the entries it had and \<^verbatim>\<open>@context\<close> with the value
    \<^verbatim>\<open>https://schema.org\<close>, which is a schema.org context for the branches;

  \<^item> is the \<^verbatim>\<open>if\<close> / \<^verbatim>\<open>else if\<close> chain run on the mutated object: the target is resolved, the
    duplicate is looked up and the claim is canonicalized from the object with the
    context, and when the call resolves, the Confirmation row it has appended holds the
    canonical form of the object with the context;

  \<^item> settles to the same result and leaves the same state as the call on the same claim
    written with the explicit context, wherever that claim has the context among its
    keys; that call leaves its object as it was.

  "The same claim" is an object with the same entries; the assumption on
  \<^verbatim>\<open>canonicalize\<close> is its contract that the order of keys does not matter, at these two
  objects.
\<close>

theorem C10_createOneConfirmation_context_default:
  assumes absent: "map_of kvs ''@context'' \<in> {None, Some JNull, Some JUndefined}"
      and explicit: "map_of kvs' = (map_of kvs)(''@context'' \<mapsto> JStr ''https://schema.org'')"
      and canon: "canonicalize E (JObj kvs') =
                  canonicalize E (JObj (AList.update ''@context'' (JStr ''https://schema.org'') kvs))"
  shows "createOneConfirmation_context (JObj kvs) =
           Inr (JObj (AList.update ''@context'' (JStr ''https://schema.org'') kvs)) \<and>
         js_get (JObj (AList.update ''@context'' (JStr ''https://schema.org'') kvs)) ''@context'' =
           Inr (JStr ''https://schema.org'') \<and>
         createOneConfirmation_context (JObj kvs') = Inr (JObj kvs') \<and>
         fst (createOneConfirmation E jwtId issuerDid (JObj kvs) d) =
           fst (createOneConfirmation E jwtId issuerDid (JObj kvs') d) \<and>
         snd (snd (createOneConfirmation E jwtId issuerDid (JObj kvs) d)) =
           snd (snd (createOneConfirmation E jwtId issuerDid (JObj kvs') d)) \<and>
         (let mutated = JObj (AList.update ''@context'' (JStr ''https://schema.org'') kvs);
              branches = createOneConfirmation_dispatch E jwtId issuerDid mutated d;
              confirmed = createOneConfirmation E jwtId issuerDid (JObj kvs) d
          in confirmed = (fst branches, mutated, snd branches) \<and>
             fst (snd confirmed) = mutated \<and>
             map_of (AList.update ''@context'' (JStr ''https://schema.org'') kvs) =
               (map_of kvs)(''@context'' \<mapsto> JStr ''https://schema.org'') \<and>
             js_prop mutated ''@context'' = JStr ''https://schema.org'' \<and>
             isContextSchemaOrg (js_prop mutated ''@context'') \<and>
             createOneConfirmation E jwtId issuerDid (JObj kvs') d =
               (fst branches, JObj kvs', snd branches) \<and>
             (\<forall>r. fst confirmed = Inr r \<longrightarrow>
                map cf_origClaim (confirmations (snd (snd confirmed))) =
                  map cf_origClaim (confirmations d) @ [canonicalize E mutated] \<and>
                map cf_origClaim (confirmations
                    (snd (snd (createOneConfirmation E jwtId issuerDid (JObj kvs') d)))) =
                  map cf_origClaim (confirmations d) @ [canonicalize E mutated]))"
proof -
  let ?u = "AList.update ''@context'' (JStr ''https://schema.org'') kvs"
  let ?b = "createOneConfirmation_dispatch E jwtId issuerDid (JObj ?u) d"
  have c1: "createOneConfirmation_context (JObj kvs) = Inr (JObj ?u)"
    using absent by (auto simp: createOneConfirmation_context_def)
  have g: "js_get (JObj ?u) ''@context'' = Inr (JStr ''https://schema.org'')"
    by (simp add: update_conv')
  have c2: "createOneConfirmation_context (JObj kvs') = Inr (JObj kvs')"
    by (simp add: createOneConfirmation_context_def explicit)
  have entries: "map_of kvs' = map_of ?u"
    by (simp add: explicit update_conv')
  have same: "createOneConfirmation_dispatch E jwtId issuerDid (JObj kvs') d = ?b"
    by (rule dispatch_same_entries [OF entries canon])
  have implicit: "createOneConfirmation E jwtId issuerDid (JObj kvs) d = (fst ?b, JObj ?u, snd ?b)"
    by (simp add: createOneConfirmation_def c1 case_prod_beta)
  have explicit': "createOneConfirmation E jwtId issuerDid (JObj kvs') d =
      (fst ?b, JObj kvs', snd ?b)"
    by (simp add: createOneConfirmation_def c2 same case_prod_beta)
  have p: "js_prop (JObj ?u) ''@context'' = JStr ''https://schema.org''"
    by (simp add: js_prop_def update_conv')
  have s: "isContextSchemaOrg (JStr ''https://schema.org'')"
    by (simp add: isContextSchemaOrg_def)
  have stored: "map cf_origClaim (confirmations (snd ?b)) =
      map cf_origClaim (confirmations d) @ [canonicalize E (JObj ?u)]"
    if "fst ?b = Inr r" for r
    by (rule dispatch_resolved [of E jwtId issuerDid "JObj ?u" d r "snd ?b"])
       (simp add: that [symmetric])
  show ?thesis
    unfolding Let_def implicit explicit'
    using c1 c2 g p s stored by (simp add: update_conv')
qed

theorem C10_createOneConfirmation_context_default_witness:
  "map_of example_join_entries ''@context'' \<in> {None, Some JNull, Some JUndefined} \<and>
   map_of ((''@context'', JStr ''https://schema.org'') # example_join_entries) =
     (map_of example_join_entries)(''@context'' \<mapsto> JStr ''https://schema.org'') \<and>
   canonicalize example_env (JObj ((''@context'', JStr ''https://schema.org'') # example_join_entries)) =
     canonicalize example_env
       (JObj (AList.update ''@context'' (JStr ''https://schema.org'') example_join_entries)) \<and>
   createOneConfirmation_context (JObj example_join_entries) =
     Inr (JObj (example_join_entries @ [(''@context'', JStr ''https://schema.org'')])) \<and>
   fst (createOneConfirmation example_env 7 ''did:b'' (JObj example_join_entries) example_event_db) =
     fst (createOneConfirmation example_env 7 ''did:b''
            (JObj ((''@context'', JStr ''https://schema.org'') # example_join_entries))
            example_event_db) \<and>
   fst (createOneConfirmation example_env 7 ''did:b'' (JObj example_join_entries) example_event_db) =
     Inr \<lparr>confirmId = 1, actionClaimId = Some 1, tenureClaimId = None, orgRoleClaimId = None\<rparr> \<and>
   fst (snd (createOneConfirmation example_env 7 ''did:b'' (JObj example_join_entries)
               example_event_db)) =
     JObj (example_join_entries @ [(''@context'', JStr ''https://schema.org'')]) \<and>
   fst (snd (createOneConfirmation example_env 7 ''did:b''
               (JObj ((''@context'', JStr ''https://schema.org'') # example_join_entries))
               example_event_db)) =
     JObj ((''@context'', JStr ''https://schema.org'') # example_join_entries) \<and>
   map cf_origClaim (confirmations (snd (snd
       (createOneConfirmation example_env 7 ''did:b'' (JObj example_join_entries)
          example_event_db)))) =
     [example_canonicalize
        (JObj (example_join_entries @ [(''@context'', JStr ''https://schema.org'')]))] \<and>
   map cf_origClaim (confirmations (snd (snd
       (createOneConfirmation example_env 7 ''did:b''
          (JObj ((''@context'', JStr ''https://schema.org'') # example_join_entries))
          example_event_db)))) =
     [example_canonicalize
        (JObj (example_join_entries @ [(''@context'', JStr ''https://schema.org'')]))]"
proof -
  have absent: "map_of example_join_entries ''@context'' \<in> {None, Some JNull, Some JUndefined}"
    by (simp add: example_join_entries_def)
  have explicit: "map_of ((''@context'', JStr ''https://schema.org'') # example_join_entries) =
     (map_of example_join_entries)(''@context'' \<mapsto> JStr ''https://schema.org'')"
    by simp
  have canon: "canonicalize example_env
       (JObj ((''@context'', JStr ''https://schema.org'') # example_join_entries)) =
     canonicalize example_env
       (JObj (AList.update ''@context'' (JStr ''https://schema.org'') example_join_entries))"
    by (simp add: example_env_def example_join_entries_def)
  have upd: "AList.update ''@context'' (JStr ''https://schema.org'') example_join_entries =
      example_join_entries @ [(''@context'', JStr ''https://schema.org'')]"
    by (simp add: example_join_entries_def)
  have same: "JObj example_join_entries = example_join_claim"
    by (simp add: example_join_entries_def example_join_claim_def)
  have res: "fst (createOneConfirmation example_env 7 ''did:b'' (JObj example_join_entries)
                    example_event_db) =
     Inr \<lparr>confirmId = 1, actionClaimId = Some 1, tenureClaimId = None, orgRoleClaimId = None\<rparr>"
    using example_fresh_confirmation by (simp add: same)
  have none: "confirmations example_event_db = []"
    by (simp add: example_event_db_def empty_db_def)
  have e: "canonicalize example_env = example_canonicalize"
    by (simp add: example_env_def)
  note c10 = C10_createOneConfirmation_context_default [OF absent explicit canon,
        where jwtId = 7 and issuerDid = "''did:b''" and d = example_event_db,
        unfolded Let_def upd]
  note first = c10 [THEN conjunct1]
  note results = c10 [THEN conjunct2, THEN conjunct2, THEN conjunct2, THEN conjunct1]
  note block = c10 [THEN conjunct2, THEN conjunct2, THEN conjunct2, THEN conjunct2,
        THEN conjunct2]
  note left = block [THEN conjunct2, THEN conjunct1]
  note explicit_call = block [THEN conjunct2, THEN conjunct2, THEN conjunct2, THEN conjunct2,
        THEN conjunct2, THEN conjunct1]
  note rows = block [THEN conjunct2, THEN conjunct2, THEN conjunct2, THEN conjunct2,
        THEN conjunct2, THEN conjunct2, THEN spec, THEN mp, OF res]
  have left': "fst (snd (createOneConfirmation example_env 7 ''did:b''
               (JObj ((''@context'', JStr ''https://schema.org'') # example_join_entries))
               example_event_db)) =
     JObj ((''@context'', JStr ''https://schema.org'') # example_join_entries)"
    unfolding explicit_call by simp
  have stored:
    "map cf_origClaim (confirmations (snd (snd
       (createOneConfirmation example_env 7 ''did:b'' (JObj example_join_entries)
          example_event_db)))) =
     [example_canonicalize
        (JObj (example_join_entries @ [(''@context'', JStr ''https://schema.org'')]))]"
    "map cf_origClaim (confirmations (snd (snd
       (createOneConfirmation example_env 7 ''did:b''
          (JObj ((''@context'', JStr ''https://schema.org'') # example_join_entries))
          example_event_db)))) =
     [example_canonicalize
        (JObj (example_join_entries @ [(''@context'', JStr ''https://schema.org'')]))]"
    using rows [THEN conjunct1] rows [THEN conjunct2] by (simp_all only: none e list.map append_Nil)
  show ?thesis
    by (intro conjI absent explicit canon first results res left left' stored)
qed


subsection \<open>Dispatch of a JoinAction claim\<close>

lemma createEmbeddedClaimRecord_JoinAction_branch:
  assumes "js_get c ''@context'' = Inr context" "isContextSchemaOrg context"
      and "js_prop c ''@type'' = JStr ''JoinAction''"
  shows "createEmbeddedClaimRecord E jwtId issuerDid c d =
           (fst (createEmbeddedClaimRecord_JoinAction E jwtId issuerDid c d), c,
            snd (createEmbeddedClaimRecord_JoinAction E jwtId issuerDid c d))"
  using assms by (simp add: createEmbeddedClaimRecord_def Let_def split: prod.splits)

lemma actionClaimIdByDidEventId_log [simp]:
  "actionClaimIdByDidEventId (log_msg m d) = actionClaimIdByDidEventId d"
  by (simp add: actionClaimIdByDidEventId_def log_msg_def fun_eq_iff)

lemma log_msg_tables [simp]:
  "jwts (log_msg m d) = jwts d" "events (log_msg m d) = events d"
  "actions (log_msg m d) = actions d" "tenures (log_msg m d) = tenures d"
  "orgRoles (log_msg m d) = orgRoles d" "votes (log_msg m d) = votes d"
  "confirmations (log_msg m d) = confirmations d"
  "registrations (log_msg m d) = registrations d" "network (log_msg m d) = network d"
  by (simp_all add: log_msg_def)

lemma actionClaimIdByDidEventId_in:
  "actionClaimIdByDidEventId d agentDid eventId = Some i \<Longrightarrow> i \<in> act_id ` set (actions d)"
  by (auto simp: actionClaimIdByDidEventId_def find_Some_iff)

text \<open>
  C4. A JoinAction claim with an agent identity and event information is dispatched
  against the Event rows that match its key (organizer name, event name, start time).
  No match: one Event row is appended and one Action row that refers to it. One or more
  matches: the first matching row is used and a warning is logged when there are more;
  if the agent already has an Action row for that event the dispatch rejects with the
  error that carries the id of that row and no Action row is added, otherwise one Action
  row that refers to the matching event is appended. Row ids are those the store
  assigns, which are never 0.
\<close>

theorem C4_JoinAction_dispatch:
  assumes join: "js_get c ''@context'' = Inr context" "isContextSchemaOrg context"
                "js_prop c ''@type'' = JStr ''JoinAction''"
      and agent: "js_path c [''agent'', ''did''] = Inr agentDid" "truthy agentDid"
      and event: "truthy (js_prop c ''event'')"
      and ids: "\<forall>a \<in> set (actions d). act_id a \<noteq> 0"
  shows
    "(let ev = js_prop c ''event'';
          organizer = js_prop ev ''organizer'';
          orgName = (if truthy organizer then js_prop organizer ''name'' else organizer);
          name = js_prop ev ''name'';
          startTime = js_prop ev ''startTime'';
          newAction = (\<lambda>eventId. \<lparr>act_id = next_id (map act_id (actions d)), act_jwtId = jwtId,
                                    act_issuerDid = issuerDid, act_agentDid = agentDid,
                                    act_eventRowId = eventId\<rparr>)
      in case eventsByParams d orgName name startTime of
           [] \<Rightarrow>
             createEmbeddedClaimRecord E jwtId issuerDid c d =
               (Inr (), c,
                d\<lparr>events := events d @
                      [\<lparr>ev_id = next_id (map ev_id (events d)), ev_orgName = orgName,
                        ev_name = name, ev_startTime = startTime\<rparr>],
                  actions := actions d @ [newAction (next_id (map ev_id (events d)))]\<rparr>)
         | event0 # others \<Rightarrow>
             (let d1 = (if others \<noteq> [] then log_msg (Warn ''Multiple events exist'') d else d)
              in case actionClaimIdByDidEventId d agentDid (ev_id event0) of
                   Some existing \<Rightarrow>
                     createEmbeddedClaimRecord E jwtId issuerDid c d =
                       (Inl (ActionAlreadyExists existing), c, d1)
                     \<and> actions d1 = actions d
                 | None \<Rightarrow>
                     createEmbeddedClaimRecord E jwtId issuerDid c d =
                       (Inr (), c, d1\<lparr>actions := actions d @ [newAction (ev_id event0)]\<rparr>)))"
proof -
  let ?ev = "js_prop c ''event''"
  let ?organizer = "js_prop ?ev ''organizer''"
  let ?orgName = "if truthy ?organizer then js_prop ?organizer ''name'' else ?organizer"
  let ?name = "js_prop ?ev ''name''"
  let ?startTime = "js_prop ?ev ''startTime''"
  note br = createEmbeddedClaimRecord_JoinAction_branch [OF join]
  show ?thesis
  proof (cases "eventsByParams d ?orgName ?name ?startTime")
    case Nil
    then show ?thesis
      using agent event
      by (simp add: br createEmbeddedClaimRecord_JoinAction_def Let_def eventInsert_def
          actionClaimInsert_def)
  next
    case (Cons event0 others)
    show ?thesis
    proof (cases "actionClaimIdByDidEventId d agentDid (ev_id event0)")
      case None
      with Cons show ?thesis
        using agent event
        by (simp add: br createEmbeddedClaimRecord_JoinAction_def Let_def
            actionClaimInsert_def)
    next
      case (Some existing)
      with ids actionClaimIdByDidEventId_in [OF Some] have "existing \<noteq> 0"
        by auto
      with Some Cons show ?thesis
        using agent event
        by (simp add: br createEmbeddedClaimRecord_JoinAction_def Let_def)
    qed
  qed
qed

theorem C4_JoinAction_dispatch_witness:
  "createEmbeddedClaimRecord example_env 1 ''did:c'' example_join_claim_explicit empty_db =
     (Inr (), example_join_claim_explicit, example_event_db) \<and>
   createEmbeddedClaimRecord example_env 2 ''did:c'' example_join_claim_explicit example_event_db =
     (Inl (ActionAlreadyExists 1), example_join_claim_explicit, example_event_db)"
proof -
  have join: "js_get example_join_claim_explicit ''@context'' = Inr (JStr ''https://schema.org'')"
      "isContextSchemaOrg (JStr ''https://schema.org'')"
      "js_prop example_join_claim_explicit ''@type'' = JStr ''JoinAction''"
    by (simp_all add: example_join_claim_explicit_def isContextSchemaOrg_def js_prop_def)
  have agent: "js_path example_join_claim_explicit [''agent'', ''did''] = Inr (JStr ''did:a'')"
      "truthy (JStr ''did:a'')"
    by (simp_all add: example_join_claim_explicit_def)
  have event: "truthy (js_prop example_join_claim_explicit ''event'')"
    by (simp add: example_join_claim_explicit_def js_prop_def)
  have ids0: "\<forall>a \<in> set (actions empty_db). act_id a \<noteq> 0"
    by (simp add: empty_db_def)
  have ids1: "\<forall>a \<in> set (actions example_event_db). act_id a \<noteq> 0"
    by (simp add: example_event_db_def example_action_def empty_db_def)
  have first: "createEmbeddedClaimRecord example_env 1 ''did:c'' example_join_claim_explicit
      empty_db = (Inr (), example_join_claim_explicit, example_event_db)"
    using C4_JoinAction_dispatch [OF join agent event ids0, where E = example_env and jwtId = 1
        and issuerDid = "''did:c''"]
    by (simp add: Let_def js_prop_def eventsByParams_def next_id_def empty_db_def
        example_event_db_def example_event_def example_action_def
        example_join_claim_explicit_def)
  have second: "createEmbeddedClaimRecord example_env 2 ''did:c'' example_join_claim_explicit
      example_event_db = (Inl (ActionAlreadyExists 1), example_join_claim_explicit,
        example_event_db)"
    using C4_JoinAction_dispatch [OF join agent event ids1, where E = example_env and jwtId = 2
        and issuerDid = "''did:c''"]
    by (simp add: Let_def js_prop_def eventsByParams_def actionClaimIdByDidEventId_def
        empty_db_def example_event_db_def example_event_def example_action_def
        example_join_claim_explicit_def)
  from first second show ?thesis by simp
qed

subsection \<open>Submitting a claim: the checks before the envelope is stored\<close>

lemma createWithClaimRecord_registered:
  assumes "decodeAndVerifyJwt E jwtEncoded = Inr p"
      and "authIssuerId = None \<or> authIssuerId = Some [] \<or> authIssuerId = Some (pl_iss p)"
      and "registrationByDid d (pl_iss p) = Some registered"
  shows "createWithClaimRecord E jwtEncoded authIssuerId d =
     (let claimedCount = jwtCountByAfter d (pl_iss p) (startOfWeek E)
      in if claimedCount \<ge> maxAllowedClaims E registered
         then (Inl (ClientError OVER_CLAIM_LIMIT), d, [])
         else
           (let payloadClaim = extractClaim p
            in if truthy payloadClaim
               then
                 (case (if isEndorserRegistrationClaim E payloadClaim
                        then registration_checks E d p registered else None) of
                    Some err \<Rightarrow> (Inl err, d, [])
                  | None \<Rightarrow>
                      (let claimStr = canonicalize E payloadClaim;
                           claimEncoded = base64url_encode E claimStr;
                           jwtEntity = buildJwtEntity E d p payloadClaim claimStr
                                         claimEncoded jwtEncoded;
                           (jwtRowId, d1) = jwtInsert jwtEntity d;
                           issuerDid = pl_iss p;
                           (r, d2, ws) = createEmbeddedClaimRecords E (jwt_id jwtEntity)
                                           issuerDid payloadClaim d1;
                           d3 = (case r of
                                   Inl err \<Rightarrow>
                                     log_msg (WarnErr err
                                       ''Failed to create embedded claim records.'') d2
                                 | Inr u \<Rightarrow> d2)
                       in (Inr (jwt_id jwtEntity), d3, ws)))
               else (Inl NoClaimProperty,
                     log_msg (Warn ''JWT received without a claim.'') d, [])))"
  using assms by (auto simp: createWithClaimRecord_def)

lemma registration_checks_code:
  "registration_checks E d p registered = Some err \<Longrightarrow>
   err = ClientError OVER_REGISTRATION_LIMIT \<or> err = ClientError CANNOT_REGISTER_TOO_SOON"
  by (auto simp: registration_checks_def Let_def split: if_splits)

text \<open>
  C8. A submission whose token verifies, that passes the optional cross-check of the
  caller's issuer, and whose issuer has no Registration row is rejected with the code
  \<^verbatim>\<open>UNREGISTERED_USER\<close>, and the state is as before: no envelope row, no typed record and
  no visibility edge; no call is left waiting for the store.
\<close>

theorem C8_unregistered_user_rejected:
  assumes "decodeAndVerifyJwt E jwtEncoded = Inr p"
      and "authIssuerId = None \<or> authIssuerId = Some [] \<or> authIssuerId = Some (pl_iss p)"
      and "registrationByDid d (pl_iss p) = None"
  shows "createWithClaimRecord E jwtEncoded authIssuerId d =
           (Inl (ClientError UNREGISTERED_USER), d, [])"
  using assms by (auto simp: createWithClaimRecord_def)

theorem C8_unregistered_user_rejected_witness:
  "decodeAndVerifyJwt (example_env_accepting (example_payload ''did:u'' example_join_claim_explicit))
     ''token'' = Inr (example_payload ''did:u'' example_join_claim_explicit) \<and>
   registrationByDid example_event_db ''did:u'' = None \<and>
   createWithClaimRecord (example_env_accepting (example_payload ''did:u'' example_join_claim_explicit))
     ''token'' None example_event_db = (Inl (ClientError UNREGISTERED_USER), example_event_db, [])"
proof -
  let ?p = "example_payload ''did:u'' example_join_claim_explicit"
  have v: "decodeAndVerifyJwt (example_env_accepting ?p) ''token'' = Inr ?p"
    by (simp add: example_env_accepting_def)
  have a: "None = None \<or> (None::string option) = Some [] \<or> None = Some (pl_iss ?p)"
    by simp
  have r: "registrationByDid example_event_db (pl_iss ?p) = None"
    by (simp add: registrationByDid_def example_event_db_def empty_db_def example_payload_def)
  show ?thesis
    using v r C8_unregistered_user_rejected [OF v a r] by (simp add: example_payload_def)
qed

text \<open>
  C7. For a submission whose token verifies, that passes the optional cross-check of the
  caller's issuer, and whose issuer is registered: when the number of envelopes the issuer
  issued since the start of the current week is at least the issuer's effective weekly
  maximum, the submission is rejected with the code \<^verbatim>\<open>OVER_CLAIM_LIMIT\<close>, the state is as
  before and no call is left waiting for the store; when it is strictly below, the
  submission is not rejected with that code.
\<close>

theorem C7_weekly_claim_limit:
  assumes "decodeAndVerifyJwt E jwtEncoded = Inr p"
      and "authIssuerId = None \<or> authIssuerId = Some [] \<or> authIssuerId = Some (pl_iss p)"
      and "registrationByDid d (pl_iss p) = Some registered"
  shows "(jwtCountByAfter d (pl_iss p) (startOfWeek E) \<ge> maxAllowedClaims E registered \<longrightarrow>
            createWithClaimRecord E jwtEncoded authIssuerId d =
              (Inl (ClientError OVER_CLAIM_LIMIT), d, [])) \<and>
         (jwtCountByAfter d (pl_iss p) (startOfWeek E) < maxAllowedClaims E registered \<longrightarrow>
            fst (createWithClaimRecord E jwtEncoded authIssuerId d) \<noteq>
              Inl (ClientError OVER_CLAIM_LIMIT))"
  unfolding createWithClaimRecord_registered [OF assms]
  by (auto simp: Let_def split: option.splits prod.splits if_splits
      dest: registration_checks_code)

theorem C7_weekly_claim_limit_witness:
  "jwtCountByAfter (example_limited_db 2) ''did:a'' (startOfWeek example_env) = 2 \<and>
   createWithClaimRecord (example_env_accepting (example_payload ''did:a'' example_join_claim_explicit))
     ''token'' None (example_limited_db 2) =
     (Inl (ClientError OVER_CLAIM_LIMIT), example_limited_db 2, []) \<and>
   fst (createWithClaimRecord
          (example_env_accepting (example_payload ''did:a'' example_join_claim_explicit))
          ''token'' None (example_limited_db 3)) \<noteq> Inl (ClientError OVER_CLAIM_LIMIT)"
proof -
  let ?p = "example_payload ''did:a'' example_join_claim_explicit"
  let ?E = "example_env_accepting ?p"
  have v: "decodeAndVerifyJwt ?E ''token'' = Inr ?p"
    by (simp add: example_env_accepting_def)
  have a: "None = None \<or> (None::string option) = Some [] \<or> None = Some (pl_iss ?p)"
    by simp
  have r: "registrationByDid (example_limited_db n) (pl_iss ?p) =
      Some ((example_registration ''did:a'')\<lparr>rg_maxClaims := Some n\<rparr>)" for n
    by (simp add: registrationByDid_def example_limited_db_def example_registration_def
        example_payload_def)
  have c: "jwtCountByAfter (example_limited_db n) ''did:a'' (startOfWeek example_env) = 2" for n
    by (simp add: jwtCountByAfter_def example_limited_db_def example_chain_db_def empty_db_def
        example_jwt_def example_env_def)
  have c': "jwtCountByAfter (example_limited_db n) (pl_iss ?p) (startOfWeek ?E) = 2" for n
    using c [of n] by (simp add: example_payload_def example_env_accepting_def)
  have m: "maxAllowedClaims ?E ((example_registration ''did:a'')\<lparr>rg_maxClaims := Some n\<rparr>) = n"
    for n
    by (simp add: maxAllowedClaims_def)
  show ?thesis
    using c [of 2] C7_weekly_claim_limit [OF v a r [of 2]] C7_weekly_claim_limit [OF v a r [of 3]]
    by (simp add: c' m)
qed

subsection \<open>Identities in a claim survive the context default\<close>

lemma allDidsInside_update_mono:
  assumes "\<And>old. map_of kvs k = Some old \<Longrightarrow>
             set (allDidsInside f old) \<subseteq> set (allDidsInside f v)"
  shows "set (allDidsInside f (JObj kvs)) \<subseteq> set (allDidsInside f (JObj (AList.update k v kvs)))"
  using assms
proof (induction kvs)
  case Nil
  then show ?case by simp
next
  case (Cons kv kvs)
  obtain a b where kv: "kv = (a, b)" by (cases kv)
  show ?case
  proof (cases "a = k")
    case True
    with Cons.prems [of b] kv show ?thesis by auto
  next
    case False
    with Cons.prems kv have "\<And>old. map_of kvs k = Some old \<Longrightarrow>
        set (allDidsInside f old) \<subseteq> set (allDidsInside f v)"
      by simp
    from Cons.IH [OF this] False kv show ?thesis by auto
  qed
qed

lemma allDidsInside_nullish: "is_nullish v \<Longrightarrow> allDidsInside f v = []"
  by (cases v) simp_all

lemma allDidsInside_js_replace_mono:
  assumes "set (allDidsInside f (js_prop c k)) \<subseteq> set (allDidsInside f v)"
  shows "set (allDidsInside f c) \<subseteq> set (allDidsInside f (js_replace c k v))"
proof (cases c)
  case (JObj kvs)
  have "set (allDidsInside f (JObj kvs)) \<subseteq> set (allDidsInside f (JObj (AList.update k v kvs)))"
    using assms by (intro allDidsInside_update_mono) (simp add: JObj js_prop_def)
  with JObj show ?thesis by simp
qed simp_all

lemma allDidsInside_context_mono:
  assumes "createOneConfirmation_context c = Inr c'"
  shows "set (allDidsInside f c) \<subseteq> set (allDidsInside f c')"
proof (cases c)
  case (JObj kvs)
  show ?thesis
  proof (cases "is_nullish (case map_of kvs ''@context'' of None \<Rightarrow> JUndefined | Some v \<Rightarrow> v)")
    case True
    have "set (allDidsInside f (JObj kvs)) \<subseteq>
          set (allDidsInside f (JObj (AList.update ''@context'' (JStr ''https://schema.org'') kvs)))"
      using True by (intro allDidsInside_update_mono) (simp add: allDidsInside_nullish)
    with assms JObj True show ?thesis
      by (auto simp: createOneConfirmation_context_def)
  next
    case False
    with assms JObj show ?thesis
      by (auto simp: createOneConfirmation_context_def)
  qed
qed (use assms in \<open>auto simp: createOneConfirmation_context_def split: if_splits\<close>)

lemma js_prop_js_replace_other:
  "k \<noteq> k' \<Longrightarrow> js_prop (js_replace c k v) k' = js_prop c k'"
  by (cases c) (simp_all add: js_prop_def update_conv')


subsection \<open>A call that runs alone is the function\<close>

text \<open>
  Each function written as a call, run alone from its start to its end, settles with the
  result and the claim object of the function and leaves its state.
\<close>

lemma run_Later: "run (Later f) d = run (fst (f d)) (snd (f d))"
  by (simp add: case_prod_beta)

lemma run_Awaiting: "run (Awaiting f) d = run (fst (f d)) (snd (f d))"
  by (simp add: case_prod_beta)

lemma run_call_settle [simp]: "run_call (settle x) d = (x, d)"
  by (simp add: run_call_def settle_def)

lemma run_call_return_rejected [simp]: "run_call (return_rejected x) d = (x, d)"
  by (simp add: run_call_def return_rejected_def settle_def)

lemma run_call_await [simp]:
  "run_call (await op k) d = run_call (k (fst (op d))) (snd (op d))"
  by (simp add: run_call_def await_def case_prod_beta)

lemma run_call_await_read [simp]:
  "run_call (await_read q k) d = run_call (k (q d)) d"
  by (simp add: await_read_def)

lemma run_call_logged [simp]: "run_call (logged m c) d = run_call c (log_msg m d)"
  by (simp add: run_call_def logged_def)

lemma run_call_printed [simp]: "run_call (printed e c) d = run_call c (console_log e d)"
  by (simp add: run_call_def printed_def)

lemma run_then_task:
  "run (then_task t k) d = run_call (k (fst (run t d))) (snd (run t d))"
proof (induction t arbitrary: d)
  case (Settled x)
  show ?case by (simp add: run_call_def case_prod_beta)
next
  case (Later f)
  have "fst (f d) \<in> Basic_BNFs.fsts (f d)" by (cases "f d") simp
  from Later.IH [of "f d" "fst (f d)" "snd (f d)", OF rangeI this]
  show ?case by (simp add: case_prod_beta)
next
  case (Awaiting f)
  have "fst (f d) \<in> Basic_BNFs.fsts (f d)" by (cases "f d") simp
  from Awaiting.IH [of "f d" "fst (f d)" "snd (f d)", OF rangeI this]
  show ?case by (simp add: case_prod_beta)
qed

lemma run_call_await_call [simp]:
  "run_call (await_call c k) d = run_call (k (fst (run_call c d))) (snd (run_call c d))"
  by (simp add: run_call_def await_call_def case_prod_beta run_then_task)

lemma run_createOneConfirmation_JoinAction_call:
  "run_call (createOneConfirmation_JoinAction_call E j i c) d =
     ((fst (createOneConfirmation_JoinAction E j i c d), c),
      snd (createOneConfirmation_JoinAction E j i c d))"
  by (simp add: createOneConfirmation_JoinAction_call_def createOneConfirmation_JoinAction_def
      Let_def case_prod_beta split: sum.splits list.splits option.splits)

lemma run_createOneConfirmation_Tenure_call:
  "run_call (createOneConfirmation_Tenure_call E j i c) d =
     ((fst (createOneConfirmation_Tenure E j i c d), c),
      snd (createOneConfirmation_Tenure E j i c d))"
  by (simp add: createOneConfirmation_Tenure_call_def createOneConfirmation_Tenure_def
      Let_def case_prod_beta split: sum.splits list.splits option.splits)

lemma run_createOneConfirmation_OrgRole_call:
  "run_call (createOneConfirmation_OrgRole_call E j i c) d =
     ((fst (createOneConfirmation_OrgRole E j i c d), c),
      snd (createOneConfirmation_OrgRole E j i c d))"
  by (simp add: createOneConfirmation_OrgRole_call_def createOneConfirmation_OrgRole_def
      Let_def case_prod_beta split: sum.splits list.splits option.splits)

lemma run_createOneConfirmation_generic_call:
  "run_call (createOneConfirmation_generic_call E j i c) d =
     ((fst (createOneConfirmation_generic E j i c d), c),
      snd (createOneConfirmation_generic E j i c d))"
  by (simp add: createOneConfirmation_generic_call_def createOneConfirmation_generic_def
      Let_def case_prod_beta split: sum.splits list.splits option.splits)

lemma run_createOneConfirmation_dispatch_call:
  "run_call (createOneConfirmation_dispatch_call E j i c) d =
     ((fst (createOneConfirmation_dispatch E j i c d), c),
      snd (createOneConfirmation_dispatch E j i c d))"
  by (simp add: createOneConfirmation_dispatch_call_def createOneConfirmation_dispatch_def
      Let_def run_createOneConfirmation_JoinAction_call run_createOneConfirmation_Tenure_call
      run_createOneConfirmation_OrgRole_call run_createOneConfirmation_generic_call)

lemma run_createOneConfirmation_call:
  "run_call (createOneConfirmation_call E j i c) d =
     ((fst (createOneConfirmation E j i c d), fst (snd (createOneConfirmation E j i c d))),
      snd (snd (createOneConfirmation E j i c d)))"
  by (simp add: createOneConfirmation_call_def createOneConfirmation_def
      run_createOneConfirmation_dispatch_call case_prod_beta split: sum.splits)

lemma run_confirm_logged_call:
  "run_call (confirm_logged_call E j i c k) d =
     run_call (k (fst (confirm_logged E j i c d))) (snd (confirm_logged E j i c d))"
  by (simp add: confirm_logged_call_def confirm_logged_def run_createOneConfirmation_call
      case_prod_beta split: sum.splits)

lemma run_confirm_each_call:
  "run_call (confirm_each_call E j i cs seen k) d =
     run_call (k (seen @ fst (confirm_each E j i cs d))) (snd (confirm_each E j i cs d))"
proof (induction cs arbitrary: seen d)
  case Nil
  show ?case by simp
next
  case (Cons c cs)
  show ?case
    by (simp add: run_confirm_logged_call Cons.IH case_prod_beta Let_def)
qed

lemma run_createEmbeddedClaimRecord_AgreeAction_call:
  "run_call (createEmbeddedClaimRecord_AgreeAction_call E j i c) d =
     ((fst (createEmbeddedClaimRecord_AgreeAction E j i c d),
       fst (snd (createEmbeddedClaimRecord_AgreeAction E j i c d))),
      snd (snd (createEmbeddedClaimRecord_AgreeAction E j i c d)))"
  by (simp add: createEmbeddedClaimRecord_AgreeAction_call_def
      createEmbeddedClaimRecord_AgreeAction_def run_confirm_logged_call run_confirm_each_call
      Let_def case_prod_beta split: json.splits)

lemma run_createEmbeddedClaimRecord_JoinAction_call:
  "run_call (createEmbeddedClaimRecord_JoinAction_call E j i c) d =
     ((fst (createEmbeddedClaimRecord_JoinAction E j i c d), c),
      snd (createEmbeddedClaimRecord_JoinAction E j i c d))"
  by (simp add: createEmbeddedClaimRecord_JoinAction_call_def
      createEmbeddedClaimRecord_JoinAction_def
      Let_def case_prod_beta split: sum.splits list.splits option.splits)

lemma run_createEmbeddedClaimRecord_OrgRole_call:
  "run_call (createEmbeddedClaimRecord_OrgRole_call E j i c) d =
     ((fst (createEmbeddedClaimRecord_OrgRole E j i c d), c),
      snd (createEmbeddedClaimRecord_OrgRole E j i c d))"
  by (simp add: createEmbeddedClaimRecord_OrgRole_call_def
      createEmbeddedClaimRecord_OrgRole_def Let_def case_prod_beta)

lemma run_createEmbeddedClaimRecord_Registration_call:
  "run_call (createEmbeddedClaimRecord_Registration_call E j i c) d =
     ((fst (createEmbeddedClaimRecord_Registration E j i c d), c),
      snd (createEmbeddedClaimRecord_Registration E j i c d))"
  by (simp add: createEmbeddedClaimRecord_Registration_call_def
      createEmbeddedClaimRecord_Registration_def Let_def case_prod_beta split: sum.splits)

lemma run_createEmbeddedClaimRecord_Tenure_call:
  "run_call (createEmbeddedClaimRecord_Tenure_call E j i c) d =
     ((fst (createEmbeddedClaimRecord_Tenure E j i c d), c),
      snd (createEmbeddedClaimRecord_Tenure E j i c d))"
  by (simp add: createEmbeddedClaimRecord_Tenure_call_def
      createEmbeddedClaimRecord_Tenure_def Let_def case_prod_beta split: sum.splits)

lemma run_createEmbeddedClaimRecord_Vote_call:
  "run_call (createEmbeddedClaimRecord_Vote_call E j i c) d =
     ((fst (createEmbeddedClaimRecord_Vote E j i c d), c),
      snd (createEmbeddedClaimRecord_Vote E j i c d))"
  by (simp add: createEmbeddedClaimRecord_Vote_call_def
      createEmbeddedClaimRecord_Vote_def Let_def case_prod_beta split: sum.splits)

lemma run_createEmbeddedClaimRecord_Confirmation_call:
  "run_call (createEmbeddedClaimRecord_Confirmation_call E j i c) d =
     ((fst (createEmbeddedClaimRecord_Confirmation E j i c d),
       fst (snd (createEmbeddedClaimRecord_Confirmation E j i c d))),
      snd (snd (createEmbeddedClaimRecord_Confirmation E j i c d)))"
  by (simp add: createEmbeddedClaimRecord_Confirmation_call_def
      createEmbeddedClaimRecord_Confirmation_def run_confirm_logged_call run_confirm_each_call
      Let_def case_prod_beta split: sum.splits)

lemma run_createEmbeddedClaimRecord_call:
  "run_call (createEmbeddedClaimRecord_call E j i c) d =
     ((fst (createEmbeddedClaimRecord E j i c d),
       fst (snd (createEmbeddedClaimRecord E j i c d))),
      snd (snd (createEmbeddedClaimRecord E j i c d)))"
  by (auto simp: createEmbeddedClaimRecord_call_def createEmbeddedClaimRecord_def
      run_createEmbeddedClaimRecord_AgreeAction_call run_createEmbeddedClaimRecord_JoinAction_call
      run_createEmbeddedClaimRecord_OrgRole_call run_createEmbeddedClaimRecord_Registration_call
      run_createEmbeddedClaimRecord_Tenure_call run_createEmbeddedClaimRecord_Vote_call
      run_createEmbeddedClaimRecord_Confirmation_call
      Let_def case_prod_beta split: sum.splits)

subsection \<open>What the calls in progress keep\<close>

lemma same_envelopes_and_edges_refl [simp]: "same_envelopes_and_edges d d"
  by (simp add: same_envelopes_and_edges_def)

lemma same_envelopes_and_edges_trans:
  "same_envelopes_and_edges d d1 \<Longrightarrow> same_envelopes_and_edges d1 d2 \<Longrightarrow>
   same_envelopes_and_edges d d2"
  by (simp add: same_envelopes_and_edges_def)

lemma same_envelopes_and_edges_store [simp]:
  "same_envelopes_and_edges d (log_msg m d)"
  "same_envelopes_and_edges d (console_log e d)"
  "same_envelopes_and_edges d (snd (confirmationInsert a b c e1 f g d))"
  "same_envelopes_and_edges d (snd (eventInsert o1 n1 s1 d))"
  "same_envelopes_and_edges d (snd (actionClaimInsert i1 a1 j1 e2 d))"
  "same_envelopes_and_edges d (snd (tenureInsert j2 i2 p2 q2 b2 d))"
  "same_envelopes_and_edges d (snd (orgRoleInsert j3 i3 o3 r3 s3 e3 m3 d))"
  "same_envelopes_and_edges d (snd (voteInsert j4 i4 a4 c4 n4 s4 d))"
  "same_envelopes_and_edges d (registrationInsert r5 d)"
  by (simp_all add: same_envelopes_and_edges_def log_msg_def console_log_def
      confirmationInsert_def eventInsert_def actionClaimInsert_def tenureInsert_def
      orgRoleInsert_def voteInsert_def registrationInsert_def Let_def)

lemma call_keeps_settle: "Q x \<Longrightarrow> call_keeps Q (settle x)"
  by (simp add: call_keeps_def settle_def task_keeps.Settled)

lemma call_keeps_return_rejected: "Q x \<Longrightarrow> call_keeps Q (return_rejected x)"
  by (auto simp: call_keeps_def return_rejected_def settle_def
      intro!: task_keeps.Later task_keeps.Settled)

lemma call_keeps_await:
  assumes "\<And>d. same_envelopes_and_edges d (snd (op d))" "\<And>v. call_keeps Q (k v)"
  shows "call_keeps Q (await op k)"
proof -
  have "same_envelopes_and_edges d (snd (k (fst (op d)) (snd (op d))))" for d
    using assms(1) [of d] assms(2) [of "fst (op d)"]
    by (auto simp: call_keeps_def intro: same_envelopes_and_edges_trans)
  with assms(2) show ?thesis
    by (auto simp: call_keeps_def await_def case_prod_beta intro!: task_keeps.Awaiting)
qed

lemma call_keeps_await_read:
  assumes "\<And>v. call_keeps Q (k v)"
  shows "call_keeps Q (await_read q k)"
  unfolding await_read_def by (rule call_keeps_await) (simp_all add: assms)

lemma call_keeps_logged: "call_keeps Q c \<Longrightarrow> call_keeps Q (logged m c)"
  unfolding call_keeps_def logged_def
  by (blast intro: same_envelopes_and_edges_trans same_envelopes_and_edges_store(1))

lemma call_keeps_printed: "call_keeps Q c \<Longrightarrow> call_keeps Q (printed e c)"
  unfolding call_keeps_def printed_def
  by (blast intro: same_envelopes_and_edges_trans same_envelopes_and_edges_store(2))

lemma task_keeps_then:
  assumes "task_keeps P t" "\<And>x. P x \<Longrightarrow> call_keeps Q (k x)"
  shows "task_keeps Q (then_task t k)"
  using assms(1)
proof (induction rule: task_keeps.induct)
  case (Settled x)
  with assms(2) [of x] show ?case
    by (auto simp: call_keeps_def intro!: task_keeps.Later)
next
  case (Later f)
  then show ?case by (auto intro!: task_keeps.Later)
next
  case (Awaiting f)
  then show ?case by (auto intro!: task_keeps.Awaiting)
qed

lemma call_keeps_await_call:
  assumes "call_keeps P c" "\<And>x. P x \<Longrightarrow> call_keeps Q (k x)"
  shows "call_keeps Q (await_call c k)"
proof -
  have "task_keeps Q (then_task (fst (c d)) k)" for d
    by (rule task_keeps_then [where P = P]) (use assms in \<open>auto simp: call_keeps_def\<close>)
  with assms(1) show ?thesis
    by (simp add: call_keeps_def await_call_def case_prod_beta)
qed

lemma call_keeps_weaken:
  assumes "call_keeps P c" "\<And>x. P x \<Longrightarrow> Q x"
  shows "call_keeps Q c"
proof -
  have "task_keeps Q t" if "task_keeps P t" for t
    using that
    by (induction rule: task_keeps.induct) (auto intro: task_keeps.intros assms(2))
  with assms(1) show ?thesis by (auto simp: call_keeps_def)
qed

lemmas call_keeps_intros =
  call_keeps_settle call_keeps_return_rejected call_keeps_await call_keeps_await_read
  call_keeps_logged call_keeps_printed

lemma keeps_createOneConfirmation_JoinAction_call:
  "(\<And>r. Q (r, c)) \<Longrightarrow> call_keeps Q (createOneConfirmation_JoinAction_call E j i c)"
  unfolding createOneConfirmation_JoinAction_call_def
  by (auto intro!: call_keeps_intros split: sum.splits list.splits option.splits)

lemma keeps_createOneConfirmation_Tenure_call:
  "(\<And>r. Q (r, c)) \<Longrightarrow> call_keeps Q (createOneConfirmation_Tenure_call E j i c)"
  unfolding createOneConfirmation_Tenure_call_def
  by (auto intro!: call_keeps_intros split: sum.splits list.splits option.splits)

lemma keeps_createOneConfirmation_OrgRole_call:
  "(\<And>r. Q (r, c)) \<Longrightarrow> call_keeps Q (createOneConfirmation_OrgRole_call E j i c)"
  unfolding createOneConfirmation_OrgRole_call_def Let_def
  by (auto intro!: call_keeps_intros split: sum.splits list.splits option.splits)

lemma keeps_createOneConfirmation_generic_call:
  "(\<And>r. Q (r, c)) \<Longrightarrow> call_keeps Q (createOneConfirmation_generic_call E j i c)"
  unfolding createOneConfirmation_generic_call_def
  by (auto intro!: call_keeps_intros split: sum.splits list.splits option.splits)

lemma keeps_createOneConfirmation_dispatch_call:
  "(\<And>r. Q (r, c)) \<Longrightarrow> call_keeps Q (createOneConfirmation_dispatch_call E j i c)"
  unfolding createOneConfirmation_dispatch_call_def Let_def
  by (simp add: keeps_createOneConfirmation_JoinAction_call
      keeps_createOneConfirmation_Tenure_call keeps_createOneConfirmation_OrgRole_call
      keeps_createOneConfirmation_generic_call)

lemma allDidsInside_JArr_mono:
  assumes "list_all2 (\<lambda>c c'. set (allDidsInside f c) \<subseteq> set (allDidsInside f c')) cs cs'"
  shows "set (allDidsInside f (JArr cs)) \<subseteq> set (allDidsInside f (JArr cs'))"
  using assms by (induction rule: list_all2_induct) auto

lemma keeps_createOneConfirmation_call:
  "call_keeps (dids_kept f c) (createOneConfirmation_call E j i c)"
proof (cases "createOneConfirmation_context c")
  case (Inl e)
  then show ?thesis
    by (simp add: createOneConfirmation_call_def call_keeps_settle dids_kept_def)
next
  case (Inr c')
  from allDidsInside_context_mono [OF this, of f]
  have "call_keeps (dids_kept f c) (createOneConfirmation_dispatch_call E j i c')"
    by (intro keeps_createOneConfirmation_dispatch_call) (simp add: dids_kept_def)
  with Inr show ?thesis by (simp add: createOneConfirmation_call_def)
qed

lemma keeps_confirm_logged_call:
  assumes "\<And>c'. set (allDidsInside f c) \<subseteq> set (allDidsInside f c') \<Longrightarrow> call_keeps Q (k c')"
  shows "call_keeps Q (confirm_logged_call E j i c k)"
  unfolding confirm_logged_call_def
proof (rule call_keeps_await_call
    [where P = "\<lambda>c'. set (allDidsInside f c) \<subseteq> set (allDidsInside f c')"])
  show "call_keeps (\<lambda>c'. set (allDidsInside f c) \<subseteq> set (allDidsInside f c'))
     (await_call (createOneConfirmation_call E j i c)
        (\<lambda>(r, c'). case r of Inl e \<Rightarrow> printed e (settle c') | Inr v \<Rightarrow> settle c'))"
    by (rule call_keeps_await_call [OF keeps_createOneConfirmation_call [of f]])
       (auto simp: dids_kept_def intro!: call_keeps_intros split: sum.splits)
qed (rule assms)

lemma keeps_confirm_each_call:
  assumes "\<And>cs'. list_all2 (\<lambda>c c'. set (allDidsInside f c) \<subseteq> set (allDidsInside f c')) cs cs'
             \<Longrightarrow> call_keeps Q (k (seen @ cs'))"
  shows "call_keeps Q (confirm_each_call E j i cs seen k)"
  using assms
proof (induction cs arbitrary: seen)
  case Nil
  from Nil [of "[]"] show ?case by simp
next
  case (Cons c cs)
  show ?case
    unfolding confirm_each_call.simps
  proof (rule keeps_confirm_logged_call [where f = f])
    fix c' assume c': "set (allDidsInside f c) \<subseteq> set (allDidsInside f c')"
    show "call_keeps Q (confirm_each_call E j i cs (seen @ [c']) k)"
    proof (rule Cons.IH)
      fix cs'
      assume "list_all2 (\<lambda>c c'. set (allDidsInside f c) \<subseteq> set (allDidsInside f c')) cs cs'"
      with c' Cons.prems [of "c' # cs'"] show "call_keeps Q (k ((seen @ [c']) @ cs'))"
        by simp
    qed
  qed
qed

lemma keeps_createEmbeddedClaimRecord_AgreeAction_call:
  "call_keeps (dids_kept f c) (createEmbeddedClaimRecord_AgreeAction_call E j i c)"
proof -
  define oc where "oc = js_prop c ''object''"
  have each: "call_keeps (dids_kept f c)
     (confirm_each_call E j i cs [] (\<lambda>cs'. settle (Inr (), js_replace c ''object'' (JArr cs'))))"
    if "oc = JArr cs" for cs
  proof (rule keeps_confirm_each_call [where f = f])
    fix cs'
    assume "list_all2 (\<lambda>c c'. set (allDidsInside f c) \<subseteq> set (allDidsInside f c')) cs cs'"
    from allDidsInside_JArr_mono [OF this]
    have "set (allDidsInside f c) \<subseteq> set (allDidsInside f (js_replace c ''object'' (JArr cs')))"
      by (intro allDidsInside_js_replace_mono) (simp only: that [unfolded oc_def])
    then show "call_keeps (dids_kept f c)
        (settle (Inr (), js_replace c ''object'' (JArr ([] @ cs'))))"
      by (simp add: call_keeps_settle dids_kept_def)
  qed
  have single: "call_keeps (dids_kept f c)
     (confirm_logged_call E j i oc (\<lambda>c'. settle (Inr (), js_replace c ''object'' c')))"
    unfolding oc_def
    by (rule keeps_confirm_logged_call [where f = f])
       (simp add: call_keeps_settle dids_kept_def allDidsInside_js_replace_mono)
  have none: "call_keeps (dids_kept f c) (settle (Inr (), c))"
    by (simp add: call_keeps_settle dids_kept_def)
  show ?thesis
    unfolding createEmbeddedClaimRecord_AgreeAction_call_def Let_def oc_def [symmetric]
    using each single none by (cases oc) auto
qed

lemma keeps_createEmbeddedClaimRecord_JoinAction_call:
  "(\<And>r. Q (r, c)) \<Longrightarrow> call_keeps Q (createEmbeddedClaimRecord_JoinAction_call E j i c)"
  unfolding createEmbeddedClaimRecord_JoinAction_call_def Let_def
  by (auto intro!: call_keeps_intros split: sum.splits list.splits option.splits)

lemma keeps_createEmbeddedClaimRecord_OrgRole_call:
  "(\<And>r. Q (r, c)) \<Longrightarrow> call_keeps Q (createEmbeddedClaimRecord_OrgRole_call E j i c)"
  unfolding createEmbeddedClaimRecord_OrgRole_call_def Let_def
  by (auto intro!: call_keeps_intros)

lemma keeps_createEmbeddedClaimRecord_Registration_call:
  "(\<And>r. Q (r, c)) \<Longrightarrow> call_keeps Q (createEmbeddedClaimRecord_Registration_call E j i c)"
  unfolding createEmbeddedClaimRecord_Registration_call_def Let_def
  by (auto intro!: call_keeps_intros split: sum.splits)

lemma keeps_createEmbeddedClaimRecord_Tenure_call:
  "(\<And>r. Q (r, c)) \<Longrightarrow> call_keeps Q (createEmbeddedClaimRecord_Tenure_call E j i c)"
  unfolding createEmbeddedClaimRecord_Tenure_call_def Let_def
  by (auto intro!: call_keeps_intros split: sum.splits)

lemma keeps_createEmbeddedClaimRecord_Vote_call:
  "(\<And>r. Q (r, c)) \<Longrightarrow> call_keeps Q (createEmbeddedClaimRecord_Vote_call E j i c)"
  unfolding createEmbeddedClaimRecord_Vote_call_def Let_def
  by (auto intro!: call_keeps_intros split: sum.splits)

lemma keeps_createEmbeddedClaimRecord_Confirmation_call:
  "call_keeps (dids_kept f c) (createEmbeddedClaimRecord_Confirmation_call E j i c)"
proof -
  define ocs where "ocs = js_prop c ''originalClaims''"
  define multiple where "multiple =
     (\<lambda>c1. if truthy ocs
            then (case js_iter ocs of
                    Inl e \<Rightarrow> settle (Inl e :: error + unit, c1)
                  | Inr cs \<Rightarrow>
                      confirm_each_call E j i cs []
                        (\<lambda>cs'. settle
                           (Inr (),
                            if isArray ocs then js_replace c1 ''originalClaims'' (JArr cs')
                            else c1)))
            else settle (Inr (), c1))"
  have m: "call_keeps (dids_kept f c) (multiple c1)"
    if c1: "set (allDidsInside f c) \<subseteq> set (allDidsInside f c1)"
      and same: "js_prop c1 ''originalClaims'' = ocs" for c1
  proof (cases "truthy ocs")
    case False
    with c1 show ?thesis by (simp add: multiple_def call_keeps_settle dids_kept_def)
  next
    case True
    show ?thesis
    proof (cases "js_iter ocs")
      case (Inl e)
      with True c1 show ?thesis by (simp add: multiple_def call_keeps_settle dids_kept_def)
    next
      case (Inr cs)
      have "call_keeps (dids_kept f c)
         (confirm_each_call E j i cs []
            (\<lambda>cs'. settle (Inr (), if isArray ocs then js_replace c1 ''originalClaims'' (JArr cs')
                                    else c1)))"
      proof (rule keeps_confirm_each_call [where f = f])
        fix cs'
        assume l: "list_all2 (\<lambda>c c'. set (allDidsInside f c) \<subseteq> set (allDidsInside f c')) cs cs'"
        have "set (allDidsInside f c1) \<subseteq>
              set (allDidsInside f (js_replace c1 ''originalClaims'' (JArr cs')))"
          if "isArray ocs"
        proof -
          from that Inr have "ocs = JArr cs" by (cases ocs) auto
          with allDidsInside_JArr_mono [OF l] show ?thesis
            by (intro allDidsInside_js_replace_mono) (simp only: same)
        qed
        with c1 show "call_keeps (dids_kept f c)
           (settle (Inr (), if isArray ocs then js_replace c1 ''originalClaims'' (JArr ([] @ cs'))
                            else c1))"
          by (auto simp: call_keeps_settle dids_kept_def)
      qed
      with True Inr show ?thesis by (simp add: multiple_def)
    qed
  qed
  have first: "call_keeps (dids_kept f c)
     (confirm_logged_call E j i (js_prop c ''originalClaim'')
        (\<lambda>c'. multiple (js_replace c ''originalClaim'' c')))"
  proof (rule keeps_confirm_logged_call [where f = f])
    fix c'
    assume "set (allDidsInside f (js_prop c ''originalClaim'')) \<subseteq> set (allDidsInside f c')"
    then have "set (allDidsInside f c) \<subseteq> set (allDidsInside f (js_replace c ''originalClaim'' c'))"
      by (rule allDidsInside_js_replace_mono)
    then show "call_keeps (dids_kept f c) (multiple (js_replace c ''originalClaim'' c'))"
      by (rule m) (simp add: js_prop_js_replace_other ocs_def)
  qed
  have second: "call_keeps (dids_kept f c) (multiple c)"
    by (rule m) (simp_all add: ocs_def)
  show ?thesis
    using first second
    unfolding createEmbeddedClaimRecord_Confirmation_call_def Let_def multiple_def ocs_def
    by simp
qed

lemma keeps_createEmbeddedClaimRecord_call:
  "call_keeps (dids_kept f c) (createEmbeddedClaimRecord_call E j i c)"
  unfolding createEmbeddedClaimRecord_call_def Let_def
  by (auto simp: dids_kept_def
      intro!: call_keeps_intros keeps_createEmbeddedClaimRecord_AgreeAction_call
        keeps_createEmbeddedClaimRecord_Confirmation_call
        keeps_createEmbeddedClaimRecord_JoinAction_call keeps_createEmbeddedClaimRecord_OrgRole_call
        keeps_createEmbeddedClaimRecord_Registration_call keeps_createEmbeddedClaimRecord_Tenure_call
        keeps_createEmbeddedClaimRecord_Vote_call
      split: sum.splits)

lemma task_keeps_LaterD: "task_keeps Q (Later f) \<Longrightarrow> call_keeps Q f"
  by (erule task_keeps.cases) (auto simp: call_keeps_def)

lemma task_keeps_AwaitingD: "task_keeps Q (Awaiting f) \<Longrightarrow> call_keeps Q f"
  by (erule task_keeps.cases) (auto simp: call_keeps_def)

lemma task_keeps_SettledD: "task_keeps Q (Settled x) \<Longrightarrow> Q x"
  by (erule task_keeps.cases) auto

lemma running_keeps_place:
  assumes "running_keeps Q R" "task_keeps (Q n) t"
  shows "running_keeps Q (place n t R)"
proof -
  obtain ms ws ended where R: "R = (ms, ws, ended)" by (cases R)
  show ?thesis
    using assms unfolding R
    by (cases t)
       (auto simp: running_keeps_def dest: task_keeps_LaterD task_keeps_AwaitingD
          task_keeps_SettledD)
qed

lemma running_keeps_step:
  assumes "call_keeps (Q n) f" "running_keeps Q R"
  shows "running_keeps Q (place n (fst (f d)) R)" "same_envelopes_and_edges d (snd (f d))"
  using assms running_keeps_place [of Q R n "fst (f d)"] by (auto simp: call_keeps_def)

lemma sched_keeps:
  "running_keeps Q R \<Longrightarrow>
   same_envelopes_and_edges d (snd (sched stop R d)) \<and>
   running_keeps Q (fst (sched stop R d)) \<and>
   fst (fst (sched stop R d)) = [] \<and>
   (fst (snd (fst (sched stop R d))) \<noteq> [] \<longrightarrow> stop (snd (snd (fst (sched stop R d)))))"
proof (induction stop R d rule: sched.induct)
  case (1 stop n f ms ws ended d)
  from "1.prems" have f: "call_keeps (Q n) f" and rest: "running_keeps Q (ms, ws, ended)"
    by (auto simp: running_keeps_def)
  from running_keeps_step [OF f rest, of d] "1.IH" [of "fst (f d)" "snd (f d)"]
  show ?case
    by (auto simp: case_prod_beta intro: same_envelopes_and_edges_trans)
next
  case (2 stop ended d)
  then show ?case by simp
next
  case (3 stop n f ws ended d)
  show ?case
  proof (cases "stop ended")
    case True
    with "3.prems" show ?thesis by simp
  next
    case False
    from "3.prems" have f: "call_keeps (Q n) f" and rest: "running_keeps Q ([], ws, ended)"
      by (auto simp: running_keeps_def)
    from running_keeps_step [OF f rest, of d] "3.IH" [OF False, of "fst (f d)" "snd (f d)"] False
    show ?thesis
      by (auto simp: case_prod_beta intro: same_envelopes_and_edges_trans)
  qed
qed

lemma start_each_keeps:
  assumes "running_keeps Q R"
      and "\<And>k x. k < length cs \<Longrightarrow> dids_kept f (cs ! k) x \<Longrightarrow> Q (n + k) x"
  shows "same_envelopes_and_edges d (snd (start_each E j i cs n R d)) \<and>
         running_keeps Q (fst (start_each E j i cs n R d))"
  using assms
proof (induction cs arbitrary: n R d)
  case Nil
  then show ?case by simp
next
  case (Cons c cs)
  have "call_keeps (dids_kept f c) (createEmbeddedClaimRecord_call E j i c)"
    by (rule keeps_createEmbeddedClaimRecord_call)
  then have "call_keeps (Q n) (createEmbeddedClaimRecord_call E j i c)"
    by (rule call_keeps_weaken) (use Cons.prems(2) [of 0] in simp)
  from running_keeps_step [OF this Cons.prems(1), of d]
  have R': "running_keeps Q (place n (fst (createEmbeddedClaimRecord_call E j i c d)) R)"
    and j: "same_envelopes_and_edges d (snd (createEmbeddedClaimRecord_call E j i c d))"
    by simp_all
  have "\<And>k x. k < length cs \<Longrightarrow> dids_kept f (cs ! k) x \<Longrightarrow> Q (Suc n + k) x"
    using Cons.prems(2) [of "Suc _"] by simp
  from Cons.IH [OF R' this, of "snd (createEmbeddedClaimRecord_call E j i c d)"] j
  show ?case
    by (auto simp: case_prod_beta intro: same_envelopes_and_edges_trans)
qed

lemma claims_left_nth:
  "n < length cs \<Longrightarrow>
   claims_left cs ended ! n = (case map_of ended n of Some (r, c') \<Rightarrow> c' | None \<Rightarrow> cs ! n)"
  by (simp add: claims_left_def nth_enumerate_eq)

lemma claims_left_mono:
  assumes "\<And>n x. (n, x) \<in> set ended \<Longrightarrow> n < length cs \<Longrightarrow> dids_kept f (cs ! n) x"
  shows "set (allDidsInside f (JArr cs)) \<subseteq> set (allDidsInside f (JArr (claims_left cs ended)))"
proof (rule allDidsInside_JArr_mono)
  show "list_all2 (\<lambda>c c'. set (allDidsInside f c) \<subseteq> set (allDidsInside f c')) cs
          (claims_left cs ended)"
  proof (rule list_all2_all_nthI)
    show "length cs = length (claims_left cs ended)"
      by (simp add: claims_left_def)
  next
    fix n assume n: "n < length cs"
    show "set (allDidsInside f (cs ! n)) \<subseteq> set (allDidsInside f (claims_left cs ended ! n))"
    proof (cases "map_of ended n")
      case None
      with n show ?thesis by (simp add: claims_left_nth)
    next
      case (Some x)
      then have "(n, x) \<in> set ended" by (rule map_of_SomeD)
      from assms [OF this n] Some n show ?thesis
        by (simp add: claims_left_nth dids_kept_def case_prod_beta)
    qed
  qed
qed

lemma array_branch_keeps:
  assumes s: "start_each E j i cs 0 ([], [], []) d = (R0, d0)"
      and r: "sched stop R0 d0 = ((ms, ws, ended), d1)"
  shows "same_envelopes_and_edges d d1"
    and "running_keeps (\<lambda>n x. n < length cs \<longrightarrow> dids_kept f (cs ! n) x) (ms, ws, ended)"
    and "ms = []" and "ws \<noteq> [] \<Longrightarrow> stop ended"
proof -
  define Q where
    "Q = (\<lambda>n (x :: (error + unit) \<times> json). n < length cs \<longrightarrow> dids_kept f (cs ! n) x)"
  have e: "running_keeps Q ([], [], [])" by (simp add: running_keeps_def)
  have q: "\<And>k x. k < length cs \<Longrightarrow> dids_kept f (cs ! k) x \<Longrightarrow> Q (0 + k) x"
    by (simp add: Q_def)
  have "same_envelopes_and_edges d (snd (start_each E j i cs 0 ([], [], []) d)) \<and>
        running_keeps Q (fst (start_each E j i cs 0 ([], [], []) d))"
    by (rule start_each_keeps [where f = f, OF e q])
  with s have R0: "running_keeps Q R0" and d0: "same_envelopes_and_edges d d0" by simp_all
  from sched_keeps [OF R0, where stop = stop and d = d0] r d0
  show "same_envelopes_and_edges d d1"
    and "running_keeps (\<lambda>n x. n < length cs \<longrightarrow> dids_kept f (cs ! n) x) (ms, ws, ended)"
    and "ms = []" and "ws \<noteq> [] \<Longrightarrow> stop ended"
    by (auto simp: Q_def intro: same_envelopes_and_edges_trans)
qed

lemma run_to_end_keeps:
  assumes "\<forall>(n, f) \<in> set ws. call_keeps (Q n) f"
  shows "same_envelopes_and_edges d (run_to_end ws d)"
proof -
  from assms have "running_keeps Q ([], ws, [])" by (simp add: running_keeps_def)
  from sched_keeps [OF this] show ?thesis by (simp add: run_to_end_def)
qed

lemma run_keeps:
  assumes "task_keeps Q t"
  shows "same_envelopes_and_edges d (snd (run t d)) \<and> Q (fst (run t d))"
  using assms
proof (induction arbitrary: d rule: task_keeps.induct)
  case (Settled x)
  then show ?case by simp
next
  case (Later f)
  from Later.hyps(1) [of d] Later.IH [of "snd (f d)" d] show ?case
    by (auto simp: run_Later simp del: run.simps intro: same_envelopes_and_edges_trans)
next
  case (Awaiting f)
  from Awaiting.hyps(1) [of d] Awaiting.IH [of "snd (f d)" d] show ?case
    by (auto simp: run_Awaiting simp del: run.simps intro: same_envelopes_and_edges_trans)
qed

lemma run_call_keeps:
  assumes "call_keeps Q c"
  shows "same_envelopes_and_edges d (snd (run_call c d)) \<and> Q (fst (run_call c d))"
  using assms run_keeps [of Q "fst (c d)" "snd (c d)"]
  by (auto simp: call_keeps_def run_call_def case_prod_beta
      intro: same_envelopes_and_edges_trans)

text \<open>So the function that creates one typed record, awaited alone, keeps the envelopes,
  the edges and the identities of the claim.\<close>

lemma createEmbeddedClaimRecord_keeps:
  "same_envelopes_and_edges d (snd (snd (createEmbeddedClaimRecord E j i c d)))"
  "set (allDidsInside f c) \<subseteq> set (allDidsInside f (fst (snd (createEmbeddedClaimRecord E j i c d))))"
  using run_call_keeps [OF keeps_createEmbeddedClaimRecord_call [of f c E j i], of d]
  by (simp_all add: run_createEmbeddedClaimRecord_call dids_kept_def)

subsection \<open>All records of a payload\<close>

lemma run_to_end_Nil [simp]: "run_to_end [] d = d"
  by (simp add: run_to_end_def)

lemma createEmbeddedClaimRecords_dispatch_keeps:
  "same_envelopes_and_edges d (fst (snd (snd (createEmbeddedClaimRecords_dispatch E j i c d))))"
  "set (allDidsInside f c) \<subseteq>
   set (allDidsInside f (fst (snd (createEmbeddedClaimRecords_dispatch E j i c d))))"
  "fst (createEmbeddedClaimRecords_dispatch E j i c d) = Inr () \<Longrightarrow>
   snd (snd (snd (createEmbeddedClaimRecords_dispatch E j i c d))) = []"
  "same_envelopes_and_edges d'
     (run_to_end (snd (snd (snd (createEmbeddedClaimRecords_dispatch E j i c d)))) d')"
proof -
  let ?r = "createEmbeddedClaimRecords_dispatch E j i c d"
  have "same_envelopes_and_edges d (fst (snd (snd ?r))) \<and>
        set (allDidsInside f c) \<subseteq> set (allDidsInside f (fst (snd ?r))) \<and>
        (fst ?r = Inr () \<longrightarrow> snd (snd (snd ?r)) = []) \<and>
        same_envelopes_and_edges d' (run_to_end (snd (snd (snd ?r))) d')"
  proof (cases "isArray c")
    case False
    then have "?r = (case createEmbeddedClaimRecord E j i c d of (r, c', d1) \<Rightarrow> (r, c', d1, []))"
      by (cases c) (simp_all add: createEmbeddedClaimRecords_dispatch_def)
    with createEmbeddedClaimRecord_keeps(1) [where d = d and E = E and j = j and i = i and c = c]
      createEmbeddedClaimRecord_keeps(2) [where d = d and E = E and j = j and i = i and c = c and f = f]
    show ?thesis
      by (simp add: case_prod_beta)
  next
    case True
    then obtain cs where c: "c = JArr cs" by (cases c) auto
    obtain R0 d0 where s: "start_each E j i cs 0 ([], [], []) d = (R0, d0)"
      by (cases "start_each E j i cs 0 ([], [], []) d")
    obtain ms ws ended d1 where
      r: "sched (\<lambda>ended. rejections ended \<noteq> []) R0 d0 = ((ms, ws, ended), d1)"
      by (cases "sched (\<lambda>ended. rejections ended \<noteq> []) R0 d0") auto
    have res: "createEmbeddedClaimRecords_dispatch E j i (JArr cs) d =
                 ((case rejections ended of e # es \<Rightarrow> Inl e | [] \<Rightarrow> Inr ()),
                  JArr (claims_left cs ended), d1, ws)"
      by (simp add: createEmbeddedClaimRecords_dispatch_def s r)
    note k = array_branch_keeps(1) [OF s r] array_branch_keeps(2) [OF s r, where f = f]
      array_branch_keeps(3) [OF s r] array_branch_keeps(4) [OF s r]
    from k(2) have ended: "\<And>n x. (n, x) \<in> set ended \<Longrightarrow> n < length cs \<Longrightarrow>
        dids_kept f (cs ! n) x"
      by (auto simp: running_keeps_def)
    from k(2) have "\<forall>(n, g) \<in> set ws.
        call_keeps (\<lambda>x. n < length cs \<longrightarrow> dids_kept f (cs ! n) x) g"
      by (auto simp: running_keeps_def)
    then have w: "same_envelopes_and_edges d' (run_to_end ws d')"
      by (rule run_to_end_keeps)
    have none: "ws = []" if "rejections ended = []"
      using k(4) that by blast
    have mono: "set (allDidsInside f (JArr cs)) \<subseteq>
                set (allDidsInside f (JArr (claims_left cs ended)))"
      by (rule claims_left_mono) (rule ended)
    show ?thesis
      unfolding c res using k(1) mono w none
      by (simp split: list.splits)
  qed
  then show
    "same_envelopes_and_edges d (fst (snd (snd ?r)))"
    "set (allDidsInside f c) \<subseteq> set (allDidsInside f (fst (snd ?r)))"
    "fst ?r = Inr () \<Longrightarrow> snd (snd (snd ?r)) = []"
    "same_envelopes_and_edges d' (run_to_end (snd (snd (snd ?r))) d')"
    by simp_all
qed

lemma jwts_fold_addCanSee:
  "jwts (fold (\<lambda>did. addCanSee did issuerDid) dids d) = jwts d"
  by (induction dids arbitrary: d) (simp_all add: addCanSee_def)

lemma createEmbeddedClaimRecords_parts:
  "createEmbeddedClaimRecords E j i c d =
     (let r = createEmbeddedClaimRecords_dispatch E j i c d
      in (fst r,
          (case fst r of
             Inl e \<Rightarrow> fst (snd (snd r))
           | Inr u \<Rightarrow> fold (\<lambda>did. addCanSee did i) (allDidsInside (isDid E) (fst (snd r)))
                       (fst (snd (snd r)))),
          snd (snd (snd r))))"
  by (cases "createEmbeddedClaimRecords_dispatch E j i c d")
     (auto simp: createEmbeddedClaimRecords_def split: sum.splits)

lemma jwts_createEmbeddedClaimRecords:
  "jwts (fst (snd (createEmbeddedClaimRecords E j i c d))) = jwts d"
  using createEmbeddedClaimRecords_dispatch_keeps(1) [where d = d and E = E and j = j and i = i and c = c]
  by (simp add: createEmbeddedClaimRecords_parts Let_def jwts_fold_addCanSee
      same_envelopes_and_edges_def split: sum.splits)

lemma jwts_createEmbeddedClaimRecords_still_running:
  "jwts (run_to_end (snd (snd (createEmbeddedClaimRecords E j i c d))) d') = jwts d'"
  using createEmbeddedClaimRecords_dispatch_keeps(4)
    [where d' = d' and d = d and E = E and j = j and i = i and c = c]
  by (simp add: createEmbeddedClaimRecords_parts Let_def same_envelopes_and_edges_def)


subsection \<open>Array payloads: the calls of the elements run at the same time\<close>

lemmas call_defs =
  createEmbeddedClaimRecord_call_def createEmbeddedClaimRecord_JoinAction_call_def
  createEmbeddedClaimRecord_AgreeAction_call_def confirm_logged_call_def
  createOneConfirmation_call_def createOneConfirmation_dispatch_call_def
  createOneConfirmation_JoinAction_call_def createOneConfirmation_context_def
  await_call_def await_read_def await_def settle_def return_rejected_def logged_def printed_def
  rejections_def claims_left_def isContextSchemaOrg_def js_prop_def Let_def

lemmas store_defs =
  eventsByParams_def eventInsert_def actionClaimIdByDidEventId_def actionClaimInsert_def
  confirmationByIssuerAndAction_def confirmationInsert_def next_id_def addCanSee_def
  log_msg_def console_log_def

lemmas submission_defs =
  createWithClaimRecord_def example_env_accepting_def example_env_def example_payload_def
  registrationByDid_def jwtCountByAfter_def maxAllowedClaims_def extractClaim_def
  isEndorserRegistrationClaim_def buildJwtEntity_def jwtInsert_def example_registration_def
  createEmbeddedClaimRecords_def createEmbeddedClaimRecords_dispatch_def

text \<open>
  The same JoinAction claim twice in one array, on an empty store: both calls ask for the
  event before either has inserted it, so two Event rows and two Action rows are stored
  and neither call is refused.
\<close>

lemma example_two_joins_embedded:
  "createEmbeddedClaimRecords example_env 1 ''did:c'' example_two_joins empty_db =
     (Inr (),
      empty_db\<lparr>events := [example_event 1, example_event 2],
               actions := [\<lparr>act_id = 1, act_jwtId = 1, act_issuerDid = ''did:c'',
                             act_agentDid = JStr ''did:a'', act_eventRowId = 1\<rparr>,
                           \<lparr>act_id = 2, act_jwtId = 1, act_issuerDid = ''did:c'',
                             act_agentDid = JStr ''did:a'', act_eventRowId = 2\<rparr>],
               network := [(''did:a'', ''did:c'')]\<rparr>,
      [])"
  by (simp add: createEmbeddedClaimRecords_def createEmbeddedClaimRecords_dispatch_def
      example_two_joins_def example_join_claim_explicit_def call_defs store_defs
      empty_db_def example_event_def example_env_def)

text \<open>
  The same AgreeAction claim twice in one array: both calls look for a confirmation of
  the action before either has inserted one, so two Confirmation rows of the issuer for
  the same action are stored and nothing is printed.
\<close>

lemma example_two_agrees_embedded:
  "fst (createEmbeddedClaimRecords example_env 9 ''did:b'' example_two_agrees example_event_db) =
     Inr () \<and>
   map (\<lambda>c. (cf_id c, cf_issuer c, cf_actionRowId c))
     (confirmations (fst (snd (createEmbeddedClaimRecords example_env 9 ''did:b''
        example_two_agrees example_event_db)))) =
     [(1, ''did:b'', Some 1), (2, ''did:b'', Some 1)] \<and>
   console (fst (snd (createEmbeddedClaimRecords example_env 9 ''did:b''
        example_two_agrees example_event_db))) = []"
  by (simp add: createEmbeddedClaimRecords_def createEmbeddedClaimRecords_dispatch_def
      example_two_agrees_def example_agree_claim_def example_join_claim_def call_defs store_defs
      empty_db_def example_event_db_def example_event_def example_action_def example_env_def)

text \<open>
  A JoinAction claim and a null element: the call of the null element throws at once,
  \<^verbatim>\<open>Promise.all\<close> rejects with its TypeError in the turn in which the calls were started,
  and the call of the JoinAction claim still waits for the store then. Nothing has been
  written; the state is the one the function was called in.
\<close>

lemma example_join_and_null_embedded:
  "fst (createEmbeddedClaimRecords E j i example_join_and_null d) = Inl TypeError \<and>
   fst (snd (createEmbeddedClaimRecords E j i example_join_and_null d)) = d \<and>
   length (snd (snd (createEmbeddedClaimRecords E j i example_join_and_null d))) = 1"
  by (simp add: createEmbeddedClaimRecords_def createEmbeddedClaimRecords_dispatch_def
      example_join_and_null_def example_join_claim_explicit_def call_defs)

text \<open>
  The submission of that array: the envelope is stored and its id is the answer, the
  rejection is logged, and the Event and Action rows of the JoinAction claim are written
  after the answer, when the call that was still waiting goes on. No edge is recorded.
\<close>

lemma example_refused_element_submission:
  "(let p = example_payload ''did:c'' example_join_and_null;
        outcome = createWithClaimRecord (example_env_accepting p) ''token'' None
                    example_registered_db;
        later = run_to_end (snd (snd outcome)) (fst (snd outcome))
    in fst outcome = Inr 1 \<and>
       map jwt_id (jwts (fst (snd outcome))) = [1] \<and>
       events (fst (snd outcome)) = [] \<and> actions (fst (snd outcome)) = [] \<and>
       logs (fst (snd outcome)) =
         [WarnErr TypeError ''Failed to create embedded claim records.''] \<and>
       length (snd (snd outcome)) = 1 \<and>
       map jwt_id (jwts later) = [1] \<and>
       events later = [example_event 1] \<and>
       actions later = [\<lparr>act_id = 1, act_jwtId = 1, act_issuerDid = ''did:c'',
                         act_agentDid = JStr ''did:a'', act_eventRowId = 1\<rparr>] \<and>
       network later = [])"
  by (simp add: submission_defs call_defs store_defs run_to_end_def
      example_join_and_null_def example_join_claim_explicit_def
      example_registered_db_def empty_db_def example_event_def)

text \<open>
  The submission, by \<^verbatim>\<open>did:y\<close>, of the JoinAction claim of \<^verbatim>\<open>did:a\<close> that is recorded already:
  the envelope is stored and its id is the answer, the typed record is refused, and no
  edge is recorded.
\<close>

lemma example_duplicate_join_submission:
  "(let p = example_payload ''did:y'' example_join_claim_explicit;
        outcome = createWithClaimRecord (example_env_accepting p) ''token'' None
                    example_recorded_db
    in fst outcome = Inr 1 \<and>
       map jwt_id (jwts (fst (snd outcome))) = [1] \<and>
       actions (fst (snd outcome)) = [example_action 1 ''did:a'' 1] \<and>
       logs (fst (snd outcome)) =
         [WarnErr (ActionAlreadyExists 1) ''Failed to create embedded claim records.''] \<and>
       snd (snd outcome) = [] \<and>
       network (fst (snd outcome)) = [])"
  by (simp add: submission_defs createEmbeddedClaimRecord_def
      createEmbeddedClaimRecord_JoinAction_def isContextSchemaOrg_def js_prop_def store_defs
      example_join_claim_explicit_def example_recorded_db_def example_event_db_def
      empty_db_def example_event_def example_action_def Let_def)

text \<open>The submission, by \<^verbatim>\<open>did:b\<close>, of the AgreeAction claim that confirms that action: the
  confirmation is stored and the edge from \<^verbatim>\<open>did:a\<close> to \<^verbatim>\<open>did:b\<close> is recorded.\<close>

lemma example_agree_submission:
  "(let p = example_payload ''did:b'' example_agree_claim;
        outcome = createWithClaimRecord (example_env_accepting p) ''token'' None
                    example_recorded_db
    in fst outcome = Inr 1 \<and>
       map jwt_id (jwts (fst (snd outcome))) = [1] \<and>
       map (\<lambda>c. (cf_id c, cf_issuer c, cf_actionRowId c)) (confirmations (fst (snd outcome))) =
         [(1, ''did:b'', Some 1)] \<and>
       logs (fst (snd outcome)) = [] \<and>
       snd (snd outcome) = [] \<and>
       network (fst (snd outcome)) = [(''did:a'', ''did:b'')])"
  by (simp add: submission_defs createEmbeddedClaimRecord_def
      createEmbeddedClaimRecord_AgreeAction_def confirm_logged_def createOneConfirmation_def
      createOneConfirmation_context_def createOneConfirmation_dispatch_def
      createOneConfirmation_JoinAction_def isContextSchemaOrg_def js_prop_def store_defs
      example_agree_claim_def example_join_claim_def example_recorded_db_def example_event_db_def
      empty_db_def example_event_def example_action_def Let_def)


subsection \<open>After the envelope is stored\<close>

text \<open>
  C2. A submission that passes every check before the insert (the token verifies, the
  optional issuer cross-check passes, the issuer is registered and below the weekly
  maximum, the payload has a claim, and a registration claim passes its two extra
  checks) has its envelope row appended, and \<^verbatim>\<open>createWithClaimRecord\<close> resolves to the id of
  that row whatever \<^verbatim>\<open>createEmbeddedClaimRecords\<close> does afterwards: when it rejects, the
  rejection is logged as a warning and nothing else changes; the envelope table is the
  old one with the new row at its end in either case, and it still is when the calls
  that were waiting for the store at that time have run to their ends.
\<close>

theorem C2_envelope_id_returned_after_insert:
  assumes verified: "decodeAndVerifyJwt E jwtEncoded = Inr p"
      and issuer: "authIssuerId = None \<or> authIssuerId = Some [] \<or> authIssuerId = Some (pl_iss p)"
      and registered: "registrationByDid d (pl_iss p) = Some registered"
      and below: "jwtCountByAfter d (pl_iss p) (startOfWeek E) < maxAllowedClaims E registered"
      and has_claim: "truthy (extractClaim p)"
      and regs: "isEndorserRegistrationClaim E (extractClaim p) \<longrightarrow>
                 registration_checks E d p registered = None"
  shows
    "(let payloadClaim = extractClaim p;
          claimStr = canonicalize E payloadClaim;
          jwtEntity = buildJwtEntity E d p payloadClaim claimStr (base64url_encode E claimStr)
                        jwtEncoded;
          embedded = createEmbeddedClaimRecords E (jwt_id jwtEntity) (pl_iss p) payloadClaim
                       (d\<lparr>jwts := jwts d @ [jwtEntity]\<rparr>);
          outcome = createWithClaimRecord E jwtEncoded authIssuerId d
      in fst outcome = Inr (jwt_id jwtEntity) \<and>
         jwts (fst (snd outcome)) = jwts d @ [jwtEntity] \<and>
         jwt_id jwtEntity \<notin> jwt_id ` set (jwts d) \<and>
         (case fst embedded of
            Inl err \<Rightarrow>
              fst (snd outcome) =
                log_msg (WarnErr err ''Failed to create embedded claim records.'')
                  (fst (snd embedded))
          | Inr u \<Rightarrow> fst (snd outcome) = fst (snd embedded)) \<and>
         snd (snd outcome) = snd (snd embedded) \<and>
         jwts (run_to_end (snd (snd outcome)) (fst (snd outcome))) = jwts d @ [jwtEntity])"
proof -
  have fresh: "jwt_id (buildJwtEntity E d p c s e t) \<notin> jwt_id ` set (jwts d)" for c s e t
    using next_id_fresh [of "map jwt_id (jwts d)"] by (simp add: buildJwtEntity_def Let_def)
  show ?thesis
    unfolding createWithClaimRecord_registered [OF verified issuer registered]
    using below has_claim regs fresh
    by (simp add: Let_def case_prod_beta jwtInsert_def jwts_createEmbeddedClaimRecords
        jwts_createEmbeddedClaimRecords_still_running split: sum.splits)
qed


theorem C2_envelope_id_returned_after_insert_witness:
  "(let p = example_payload ''did:c'' example_join_and_null;
        E = example_env_accepting p;
        jwtEntity = buildJwtEntity E example_registered_db p example_join_and_null
                      (example_canonicalize example_join_and_null)
                      (example_canonicalize example_join_and_null) ''token'';
        embedded = createEmbeddedClaimRecords E 1 ''did:c'' example_join_and_null
                     (example_registered_db\<lparr>jwts := jwts example_registered_db @ [jwtEntity]\<rparr>);
        outcome = createWithClaimRecord E ''token'' None example_registered_db
    in fst embedded = Inl TypeError \<and>
       fst outcome = Inr 1 \<and>
       jwts (fst (snd outcome)) = [jwtEntity] \<and>
       jwt_id jwtEntity = 1 \<and>
       fst (snd outcome) =
         log_msg (WarnErr TypeError ''Failed to create embedded claim records.'')
           (example_registered_db\<lparr>jwts := [jwtEntity]\<rparr>) \<and>
       length (snd (snd outcome)) = 1 \<and>
       jwts (run_to_end (snd (snd outcome)) (fst (snd outcome))) = [jwtEntity] \<and>
       events (run_to_end (snd (snd outcome)) (fst (snd outcome))) = [example_event 1])"
proof -
  let ?c = example_join_and_null
  let ?p = "example_payload ''did:c'' ?c"
  let ?E = "example_env_accepting ?p"
  have verified: "decodeAndVerifyJwt ?E ''token'' = Inr ?p"
    by (simp add: example_env_accepting_def)
  have issuer: "None = None \<or> (None::string option) = Some [] \<or> None = Some (pl_iss ?p)"
    by simp
  have registered: "registrationByDid example_registered_db (pl_iss ?p) =
      Some (example_registration ''did:c'')"
    by (simp add: registrationByDid_def example_registered_db_def example_registration_def
        example_payload_def)
  have below: "jwtCountByAfter example_registered_db (pl_iss ?p) (startOfWeek ?E) <
      maxAllowedClaims ?E (example_registration ''did:c'')"
    by (simp add: jwtCountByAfter_def example_registered_db_def empty_db_def
        maxAllowedClaims_def example_registration_def example_env_accepting_def example_env_def)
  have ex: "extractClaim ?p = ?c"
    by (simp add: extractClaim_def example_payload_def example_join_and_null_def)
  have has_claim: "truthy (extractClaim ?p)"
    unfolding ex by (simp add: example_join_and_null_def)
  have regs: "isEndorserRegistrationClaim ?E (extractClaim ?p) \<longrightarrow>
      registration_checks ?E example_registered_db ?p (example_registration ''did:c'') = None"
    unfolding ex
    by (simp add: isEndorserRegistrationClaim_def example_join_and_null_def js_prop_def)
  have canon: "canonicalize ?E = example_canonicalize" "base64url_encode ?E = (\<lambda>s. s)"
    by (simp_all add: example_env_accepting_def example_env_def)
  have i: "jwt_id (buildJwtEntity ?E example_registered_db ?p c s e t) = 1" for c s e t
    by (simp add: buildJwtEntity_def Let_def next_id_def example_registered_db_def empty_db_def)
  have iss: "pl_iss ?p = ''did:c''"
    by (simp add: example_payload_def)
  have none: "jwts example_registered_db = []"
    by (simp add: example_registered_db_def empty_db_def)
  have later: "events (run_to_end
      (snd (snd (createWithClaimRecord ?E ''token'' None example_registered_db)))
      (fst (snd (createWithClaimRecord ?E ''token'' None example_registered_db)))) =
      [example_event 1]"
    using example_refused_element_submission by (simp add: Let_def)
  show ?thesis
    using C2_envelope_id_returned_after_insert
      [OF verified issuer registered below has_claim regs]
      later
    by (-, unfold Let_def ex canon i iss none, elim conjE,
        simp add: i iss none example_join_and_null_embedded)
qed

subsection \<open>Visibility edges toward the issuer\<close>





lemma network_log_msg [simp]: "network (log_msg m d) = network d"
  by (simp add: log_msg_def)






text \<open>
  C5 as stated fails on a submission that is accepted while its typed record is refused.
  \<^verbatim>\<open>did:y\<close>, registered and below the limits, submits the JoinAction claim of \<^verbatim>\<open>did:a\<close> that is
  recorded already: the envelope is stored and its id is the answer, the scan finds
  \<^verbatim>\<open>did:a\<close> in the payload, and no edge between \<^verbatim>\<open>did:a\<close> and \<^verbatim>\<open>did:y\<close> is recorded, so the
  identities \<^verbatim>\<open>did:a\<close> sees do not hold \<^verbatim>\<open>did:y\<close>.
\<close>

theorem C5_visibility_edges_counterexample:
  "(let p = example_payload ''did:y'' example_join_claim_explicit;
        E = example_env_accepting p;
        outcome = createWithClaimRecord E ''token'' None example_recorded_db;
        d' = run_to_end (snd (snd outcome)) (fst (snd outcome))
    in fst outcome = Inr 1 \<and>
       map (\<lambda>r. (jwt_id r, jwt_issuer r)) (jwts d') = [(1, ''did:y'')] \<and>
       d' = fst (snd outcome) \<and>
       ''did:a'' \<in> set (allDidsInside (isDid E) (extractClaim p)) \<and>
       (''did:a'', ''did:y'') \<notin> set (network d') \<and>
       ''did:y'' \<notin> set (getNetwork d' ''did:a'') \<and>
       network d' = [])"
  by (simp add: submission_defs createEmbeddedClaimRecord_def
      createEmbeddedClaimRecord_JoinAction_def isContextSchemaOrg_def js_prop_def store_defs
      example_join_claim_explicit_def example_recorded_db_def example_event_db_def
      empty_db_def example_event_def example_action_def Let_def getNetwork_def run_to_end_def)

end
